theory Spec2Isabelle
  imports Main "HOL-Library.Multiset"
begin

section \<open>Python primitives used by the process-group initializers\<close>

text \<open>
  Ranks and sizes are Python integers, hence \<open>int\<close>. Python's \<open>//\<close> and \<open>%\<close> on integers
  are floor division and the remainder with the sign of the divisor, which is what \<open>div\<close>
  and \<open>mod\<close> on \<open>int\<close> compute; a zero divisor raises \<open>ZeroDivisionError\<close>, written out
  at every division below. A failed \<open>assert\<close> raises \<open>AssertionError\<close> (the specification
  calls it ConfigurationError).
\<close>

datatype error = AssertionError | ZeroDivisionError | ValueError | KeyError

text \<open>\<open>range(n)\<close>: the integers \<open>0, ..., n - 1\<close>, empty when \<open>n \<le> 0\<close>.\<close>

definition py_range :: "int \<Rightarrow> int list" where
  "py_range n = [0..n - 1]"

text \<open>The number of elements of \<open>range(lo, hi, step)\<close>, as CPython computes it.\<close>

definition range_len :: "int \<Rightarrow> int \<Rightarrow> int \<Rightarrow> int" where
  "range_len lo hi step =
     (if 0 < step then (if lo < hi then (hi - lo - 1) div step + 1 else 0)
      else if step < 0 then (if hi < lo then (lo - hi - 1) div (- step) + 1 else 0)
      else 0)"

text \<open>
  \<open>list(range(lo, hi, step))\<close>. Python raises \<open>ValueError\<close> for \<open>step = 0\<close>; the callers
  below test for a zero step before they call this function wherever the source can
  reach the call with one.
\<close>

definition py_range3 :: "int \<Rightarrow> int \<Rightarrow> int \<Rightarrow> int list" where
  "py_range3 lo hi step = map (\<lambda>k. lo + k * step) (py_range (range_len lo hi step))"

text \<open>\<open>xs[i : j]\<close>: negative bounds count from the end, and both bounds are clipped.\<close>

definition slice_bound :: "int \<Rightarrow> int \<Rightarrow> nat" where
  "slice_bound n k = nat (if k < 0 then max (k + n) 0 else min k n)"

definition py_slice :: "'a list \<Rightarrow> int \<Rightarrow> int \<Rightarrow> 'a list" where
  "py_slice xs i j =
     (let lo = slice_bound (int (length xs)) i; hi = slice_bound (int (length xs)) j
      in take (hi - lo) (drop lo xs))"

text \<open>
  \<open>zip(*xss)\<close>, each tuple turned into a list: the k-th result collects the k-th element
  of every argument, up to the length of the shortest one; no argument gives no result.
\<close>

definition py_zip_star :: "'a list list \<Rightarrow> 'a list list" where
  "py_zip_star xss =
     (case xss of [] \<Rightarrow> []
      | ys # yss \<Rightarrow>
          map (\<lambda>k. map (\<lambda>xs. xs ! k) xss) [0..<fold min (map length yss) (length ys)])"

text \<open>\<open>xs.index(x)\<close> for an \<open>x\<close> that is in \<open>xs\<close>: the first position holding it.\<close>

definition py_index :: "'a list \<Rightarrow> 'a \<Rightarrow> int" where
  "py_index xs x = int (length (takeWhile (\<lambda>y. y \<noteq> x) xs))"

section \<open>The parallel modes and the initializer base class\<close>

datatype ParallelMode =
  GLOBAL | DATA | MODEL | PIPELINE | TENSOR | ZERO1 | NETTEST | EXPERT | EXPERT_DATA | DUMMY

text \<open>The attributes \<open>ProcessGroupInitializer.__init__\<close> stores.\<close>

record topology =
  rank :: int
  world_size :: int
  data_parallel_size :: int
  pipeline_parallel_size :: int
  tensor_parallel_size :: int
  zero1_parallel_size :: int
  nettest_parallel_size :: int
  expert_parallel_size :: int

section \<open>The transport\<close>

text \<open>
  \<open>torch.distributed\<close> is outside the repository. The model keeps what the initializers
  can observe of it: the active backend (\<open>dist.get_backend()\<close>) and the groups created so
  far. \<open>dist.new_group\<close> creates a new group object on every call; a handle is the
  position of its call in the log, so two handles are the same object exactly when they
  are equal. The backend argument is \<open>None\<close> where the source passes none.
\<close>

record transport =
  backend :: string
  created :: "(int list \<times> string option) list"

type_synonym handle = nat

definition new_group :: "int list \<Rightarrow> string option \<Rightarrow> transport \<Rightarrow> handle \<times> transport" where
  "new_group ranks be tr = (length (created tr), tr\<lparr>created := created tr @ [(ranks, be)]\<rparr>)"

text \<open>The local variables every \<open>init_dist_group\<close> returns (with the mode).\<close>

record group_info =
  local_rank :: "int option"
  group_world_size :: "int option"
  process_group :: "handle option"
  cpu_group :: "handle option"
  ranks_in_group :: "int list option"

definition no_group :: group_info where
  "no_group = \<lparr>local_rank = None, group_world_size = None, process_group = None,
     cpu_group = None, ranks_in_group = None\<rparr>"

text \<open>
  The creation of the primary group and of the optional CPU group, which every loop body
  of the source repeats verbatim:
  \<^verbatim>\<open>
  group = dist.new_group(ranks, timeout=LLM_NCCL_TIMEOUT)
  if use_cpu:
      group_cpu = (dist.new_group(ranks, backend="gloo", timeout=LLM_NCCL_TIMEOUT)
                   if dist.get_backend() != "gloo" else group)
  else:
      group_cpu = None
  \<close>
\<close>

definition create_groups ::
  "bool \<Rightarrow> int list \<Rightarrow> transport \<Rightarrow> (handle \<times> handle option) \<times> transport" where
  "create_groups use_cpu ranks tr =
     (let (group, tr1) = new_group ranks None tr
      in if use_cpu then
           (if backend tr1 \<noteq> ''gloo''
            then (let (g, tr2) = new_group ranks (Some ''gloo'') tr1 in ((group, Some g), tr2))
            else ((group, Some group), tr1))
         else ((group, None), tr1))"

text \<open>
  One iteration of a group loop: create the groups, then, if the own rank is a member,
  overwrite the five result variables.
\<close>

definition group_step ::
  "int \<Rightarrow> bool \<Rightarrow> int list \<Rightarrow> group_info \<times> transport \<Rightarrow> group_info \<times> transport" where
  "group_step r use_cpu ranks st =
     (let ((group, group_cpu), tr') = create_groups use_cpu ranks (snd st)
      in if r \<in> set ranks
         then (\<lparr>local_rank = Some (py_index ranks r),
                group_world_size = Some (int (length ranks)),
                process_group = Some group,
                cpu_group = group_cpu,
                ranks_in_group = Some ranks\<rparr>, tr')
         else (fst st, tr'))"

text \<open>The loop over the partitions of one axis, in the order the source enumerates them.\<close>

definition group_loop ::
  "int \<Rightarrow> bool \<Rightarrow> int list list \<Rightarrow> transport \<Rightarrow> group_info \<times> transport" where
  "group_loop r use_cpu parts tr = foldl (\<lambda>st ranks. group_step r use_cpu ranks st) (no_group, tr) parts"

section \<open>The initializers\<close>

subsection \<open>Data\<close>

record Initializer_Data =
  data_self :: topology
  rank_num_per_dp_group :: int

definition Initializer_Data_init :: "topology \<Rightarrow> error + Initializer_Data" where
  "Initializer_Data_init t =
     (if data_parallel_size t = 0 then Inl ZeroDivisionError
      else if world_size t mod data_parallel_size t \<noteq> 0 then Inl AssertionError
      else Inr \<lparr>data_self = t,
                rank_num_per_dp_group = world_size t div data_parallel_size t\<rparr>)"

definition Data_ranks :: "Initializer_Data \<Rightarrow> int list list" where
  "Data_ranks self =
     map (\<lambda>i. map (\<lambda>j. i + j * rank_num_per_dp_group self)
                (py_range (data_parallel_size (data_self self))))
         (py_range (rank_num_per_dp_group self))"

definition Data_init_dist_group ::
  "Initializer_Data \<Rightarrow> bool \<Rightarrow> transport \<Rightarrow> (group_info \<times> ParallelMode) \<times> transport" where
  "Data_init_dist_group self use_cpu tr =
     (let (info, tr') = group_loop (rank (data_self self)) use_cpu (Data_ranks self) tr
      in ((info, DATA), tr'))"

subsection \<open>Model\<close>

record Initializer_Model =
  model_self :: topology
  rank_num_per_group :: int
  num_group :: int

definition Initializer_Model_init :: "topology \<Rightarrow> error + Initializer_Model" where
  "Initializer_Model_init t =
     (let n = tensor_parallel_size t * pipeline_parallel_size t
      in if n = 0 then Inl ZeroDivisionError
         else if world_size t mod n \<noteq> 0 then Inl AssertionError
         else Inr \<lparr>model_self = t, rank_num_per_group = n, num_group = world_size t div n\<rparr>)"

definition Model_ranks :: "Initializer_Model \<Rightarrow> int list list" where
  "Model_ranks self =
     map (\<lambda>i. map (\<lambda>j. i * rank_num_per_group self + j) (py_range (rank_num_per_group self)))
         (py_range (num_group self))"

definition Model_init_dist_group ::
  "Initializer_Model \<Rightarrow> bool \<Rightarrow> transport \<Rightarrow> (group_info \<times> ParallelMode) \<times> transport" where
  "Model_init_dist_group self use_cpu tr =
     (let (info, tr') = group_loop (rank (model_self self)) use_cpu (Model_ranks self) tr
      in ((info, MODEL), tr'))"

subsection \<open>Pipeline\<close>

record Initializer_Pipeline =
  pipeline_self :: topology
  pp_rank_num_per_dp_group :: int
  pipeline_stage_size :: int

definition Initializer_Pipeline_init :: "topology \<Rightarrow> error + Initializer_Pipeline" where
  "Initializer_Pipeline_init t =
     (if data_parallel_size t = 0 then Inl ZeroDivisionError
      else let n = world_size t div data_parallel_size t
      in if pipeline_parallel_size t = 0 then Inl ZeroDivisionError
         else if world_size t mod data_parallel_size t \<noteq> 0 then Inl AssertionError
         else if n mod pipeline_parallel_size t \<noteq> 0 then Inl AssertionError
         else Inr \<lparr>pipeline_self = t, pp_rank_num_per_dp_group = n,
                   pipeline_stage_size = n div pipeline_parallel_size t\<rparr>)"

text \<open>
  The step of the inner \<open>range\<close> is \<open>pipeline_stage_size\<close>, and the body runs only for
  \<open>j\<close> in \<open>range(pipeline_stage_size)\<close>, so the step is positive wherever it is used.
\<close>

definition Pipeline_ranks :: "Initializer_Pipeline \<Rightarrow> int list list" where
  "Pipeline_ranks self =
     concat (map (\<lambda>i. map (\<lambda>j. py_range3 (i * pp_rank_num_per_dp_group self + j)
                                      ((i + 1) * pp_rank_num_per_dp_group self)
                                      (pipeline_stage_size self))
                          (py_range (pipeline_stage_size self)))
                 (py_range (data_parallel_size (pipeline_self self))))"

definition Pipeline_init_dist_group ::
  "Initializer_Pipeline \<Rightarrow> bool \<Rightarrow> transport \<Rightarrow> (group_info \<times> ParallelMode) \<times> transport" where
  "Pipeline_init_dist_group self use_cpu tr =
     (let (info, tr') = group_loop (rank (pipeline_self self)) use_cpu (Pipeline_ranks self) tr
      in ((info, PIPELINE), tr'))"

subsection \<open>Tensor\<close>

record Initializer_Tensor =
  tensor_self :: topology
  num_tensor_parallel_group :: int

definition Initializer_Tensor_init :: "topology \<Rightarrow> error + Initializer_Tensor" where
  "Initializer_Tensor_init t =
     (if tensor_parallel_size t = 0 then Inl ZeroDivisionError
      else if world_size t mod tensor_parallel_size t \<noteq> 0 then Inl AssertionError
      else Inr \<lparr>tensor_self = t,
                num_tensor_parallel_group = world_size t div tensor_parallel_size t\<rparr>)"

definition Tensor_ranks :: "Initializer_Tensor \<Rightarrow> int list list" where
  "Tensor_ranks self =
     map (\<lambda>i. map (\<lambda>j. i * tensor_parallel_size (tensor_self self) + j)
                (py_range (tensor_parallel_size (tensor_self self))))
         (py_range (num_tensor_parallel_group self))"

definition Tensor_init_dist_group ::
  "Initializer_Tensor \<Rightarrow> bool \<Rightarrow> transport \<Rightarrow> (group_info \<times> ParallelMode) \<times> transport" where
  "Tensor_init_dist_group self use_cpu tr =
     (let (info, tr') = group_loop (rank (tensor_self self)) use_cpu (Tensor_ranks self) tr
      in ((info, TENSOR), tr'))"

subsection \<open>Zero1\<close>

record Initializer_Zero1 =
  zero1_self :: topology
  z1_rank_num_per_dp_group :: int
  num_zero1_parallel_group :: int

definition Initializer_Zero1_init :: "topology \<Rightarrow> error + Initializer_Zero1" where
  "Initializer_Zero1_init t =
     (if data_parallel_size t = 0 then Inl ZeroDivisionError
      else if zero1_parallel_size t = 0 then Inl ZeroDivisionError
      else if world_size t mod data_parallel_size t \<noteq> 0 then Inl AssertionError
      else if world_size t mod zero1_parallel_size t \<noteq> 0 then Inl AssertionError
      else Inr \<lparr>zero1_self = t,
                z1_rank_num_per_dp_group = world_size t div data_parallel_size t,
                num_zero1_parallel_group = data_parallel_size t div zero1_parallel_size t\<rparr>)"

definition Zero1_ranks :: "Initializer_Zero1 \<Rightarrow> int list list" where
  "Zero1_ranks self =
     concat (map (\<lambda>i. map (\<lambda>j. map (\<lambda>k. i + (j * zero1_parallel_size (zero1_self self) + k)
                                              * z1_rank_num_per_dp_group self)
                                     (py_range (zero1_parallel_size (zero1_self self))))
                          (py_range (num_zero1_parallel_group self)))
                 (py_range (z1_rank_num_per_dp_group self)))"

definition Zero1_init_dist_group ::
  "Initializer_Zero1 \<Rightarrow> bool \<Rightarrow> transport \<Rightarrow> (group_info \<times> ParallelMode) \<times> transport" where
  "Zero1_init_dist_group self use_cpu tr =
     (let (info, tr') = group_loop (rank (zero1_self self)) use_cpu (Zero1_ranks self) tr
      in ((info, ZERO1), tr'))"

subsection \<open>Nettest\<close>

text \<open>
  \<open>math.ceil(world_size / nettest_parallel_size)\<close> divides in floating point: the
  quotient of the two integers is rounded to the nearest double before the ceiling is
  taken. The model takes the exact ceiling of the quotient. For positive sizes below
  \<open>2^53\<close> this is what the source computes: a quotient that is not an integer differs
  from the next integer below it by at least \<open>1 / nettest_parallel_size\<close>, more than the
  rounding error. Beyond this bound the source can differ (at world_size = \<open>2^53 + 1\<close>
  and nettest_parallel_size = \<open>2^53\<close> the quotient rounds to \<open>1.0\<close> and one group is
  planned; a quotient outside the range of a double raises \<open>OverflowError\<close> or rounds to
  zero), so the theorem on the cover of the ranks below is stated for sizes below
  \<open>2^53\<close>.
\<close>

record Initializer_Nettest =
  nettest_self :: topology
  num_nettest_group :: int

definition Initializer_Nettest_init :: "topology \<Rightarrow> error + Initializer_Nettest" where
  "Initializer_Nettest_init t =
     (if nettest_parallel_size t = 0 then Inl ZeroDivisionError
      else Inr \<lparr>nettest_self = t,
                num_nettest_group = - ((- world_size t) div nettest_parallel_size t)\<rparr>)"

definition Nettest_ranks :: "Initializer_Nettest \<Rightarrow> int list list" where
  "Nettest_ranks self =
     map (\<lambda>i. filter (\<lambda>r. r < world_size (nettest_self self))
                (map (\<lambda>j. i * nettest_parallel_size (nettest_self self) + j)
                     (py_range (nettest_parallel_size (nettest_self self)))))
         (py_range (num_nettest_group self))"

definition Nettest_init_dist_group ::
  "Initializer_Nettest \<Rightarrow> bool \<Rightarrow> transport \<Rightarrow> (group_info \<times> ParallelMode) \<times> transport" where
  "Nettest_init_dist_group self use_cpu tr =
     (let (info, tr') = group_loop (rank (nettest_self self)) use_cpu (Nettest_ranks self) tr
      in ((info, NETTEST), tr'))"

subsection \<open>Expert\<close>

text \<open>
  The first assertion computes \<open>world_size % num_expert_parallel_group\<close>, which raises
  \<open>ZeroDivisionError\<close> when the quotient \<open>world_size // expert_parallel_size\<close> is zero.
\<close>

record Initializer_Expert =
  expert_self :: topology
  num_expert_parallel_group :: int

definition Initializer_Expert_init :: "topology \<Rightarrow> error + Initializer_Expert" where
  "Initializer_Expert_init t =
     (if expert_parallel_size t = 0 then Inl ZeroDivisionError
      else let n = world_size t div expert_parallel_size t
      in if n = 0 then Inl ZeroDivisionError
         else if world_size t mod n \<noteq> 0 then Inl AssertionError
         else if data_parallel_size t \<noteq> expert_parallel_size t then Inl AssertionError
         else Inr \<lparr>expert_self = t, num_expert_parallel_group = n\<rparr>)"

text \<open>The step of the \<open>range\<close> is the bound of the enclosing loop, hence positive there.\<close>

definition Expert_ranks :: "Initializer_Expert \<Rightarrow> int list list" where
  "Expert_ranks self =
     map (\<lambda>i. py_range3 i (world_size (expert_self self)) (num_expert_parallel_group self))
         (py_range (num_expert_parallel_group self))"

definition Expert_init_dist_group ::
  "Initializer_Expert \<Rightarrow> bool \<Rightarrow> transport \<Rightarrow> (group_info \<times> ParallelMode) \<times> transport" where
  "Expert_init_dist_group self use_cpu tr =
     (let (info, tr') = group_loop (rank (expert_self self)) use_cpu (Expert_ranks self) tr
      in ((info, EXPERT), tr'))"

subsection \<open>Expert data\<close>

record Initializer_Expert_Data =
  expert_data_self :: topology
  ed_num_expert_parallel_group :: int

definition Initializer_Expert_Data_init :: "topology \<Rightarrow> error + Initializer_Expert_Data" where
  "Initializer_Expert_Data_init t =
     (if expert_parallel_size t = 0 then Inl ZeroDivisionError
      else Inr \<lparr>expert_data_self = t,
                ed_num_expert_parallel_group = world_size t div expert_parallel_size t\<rparr>)"

definition data_parallel_groups :: "topology \<Rightarrow> int list list" where
  "data_parallel_groups t =
     (let model_parallel_size = pipeline_parallel_size t * tensor_parallel_size t
      in map (\<lambda>i. py_range3 i (world_size t) model_parallel_size) (py_range model_parallel_size))"

definition part_ep_group :: "topology \<Rightarrow> int list \<Rightarrow> int list list" where
  "part_ep_group t dp_ranks =
     map (\<lambda>i. py_slice dp_ranks i (i + expert_parallel_size t))
         (py_range3 0 (data_parallel_size t) (expert_parallel_size t))"

text \<open>
  \<open>_get_expert_parallel_ranks\<close>. The slicing loop calls \<open>range\<close> with the step
  \<open>expert_parallel_size\<close> once for every data parallel group, so a zero step raises
  \<open>ValueError\<close> if there is such a group.
\<close>

definition get_expert_parallel_ranks ::
  "Initializer_Expert_Data \<Rightarrow> error + (int list list \<times> int list list)" where
  "get_expert_parallel_ranks self =
     (let t = expert_data_self self; dpgs = data_parallel_groups t
      in if dpgs \<noteq> [] \<and> expert_parallel_size t = 0 then Inl ValueError
         else Inr (concat (map (part_ep_group t) dpgs),
                   concat (map (\<lambda>dp_ranks. py_zip_star (part_ep_group t dp_ranks)) dpgs)))"

text \<open>
  A loop of \<open>Initializer_Expert_Data.init_dist_group\<close>: the groups are created as in the
  other initializers, and every partition holding the own rank appends its tuple to
  \<open>groups\<close>.
\<close>

definition expert_step ::
  "int \<Rightarrow> bool \<Rightarrow> ParallelMode \<Rightarrow> int list \<Rightarrow> (group_info \<times> ParallelMode) list \<times> transport
     \<Rightarrow> (group_info \<times> ParallelMode) list \<times> transport" where
  "expert_step r use_cpu m ranks st =
     (let ((group, group_cpu), tr') = create_groups use_cpu ranks (snd st)
      in if r \<in> set ranks
         then (fst st @ [(\<lparr>local_rank = Some (py_index ranks r),
                            group_world_size = Some (int (length ranks)),
                            process_group = Some group,
                            cpu_group = group_cpu,
                            ranks_in_group = Some ranks\<rparr>, m)], tr')
         else (fst st, tr'))"

definition Expert_Data_init_dist_group ::
  "Initializer_Expert_Data \<Rightarrow> bool \<Rightarrow> transport
     \<Rightarrow> (error + (group_info \<times> ParallelMode) list) \<times> transport" where
  "Expert_Data_init_dist_group self use_cpu tr =
     (case get_expert_parallel_ranks self of
        Inl e \<Rightarrow> (Inl e, tr)
      | Inr (expert_parallel_groups, expert_data_parallel_groups) \<Rightarrow>
          (let r = rank (expert_data_self self);
               st1 = foldl (\<lambda>st ranks. expert_step r use_cpu EXPERT ranks st)
                       ([], tr) expert_parallel_groups;
               st2 = foldl (\<lambda>st ranks. expert_step r use_cpu EXPERT_DATA ranks st)
                       st1 expert_data_parallel_groups
           in (Inr (fst st2), snd st2)))"

section \<open>Using an initializer\<close>

text \<open>
  An initializer is used by constructing it and calling \<open>init_dist_group\<close> on the object.
  An exception raised by the constructor propagates, so \<open>init_dist_group\<close> is not reached
  and the transport is left as it was. The \<open>resolve\<close> functions give the partitions the
  loop of \<open>init_dist_group\<close> enumerates, in its order; the \<open>run\<close> functions give the
  returned tuple and the transport afterwards.
\<close>

definition Data_resolve :: "topology \<Rightarrow> error + int list list" where
  "Data_resolve t =
     (case Initializer_Data_init t of Inl e \<Rightarrow> Inl e | Inr self \<Rightarrow> Inr (Data_ranks self))"

definition Data_run ::
  "topology \<Rightarrow> bool \<Rightarrow> transport \<Rightarrow> (error + group_info \<times> ParallelMode) \<times> transport" where
  "Data_run t use_cpu tr =
     (case Initializer_Data_init t of
        Inl e \<Rightarrow> (Inl e, tr)
      | Inr self \<Rightarrow> (let (res, tr') = Data_init_dist_group self use_cpu tr in (Inr res, tr')))"

definition Model_resolve :: "topology \<Rightarrow> error + int list list" where
  "Model_resolve t =
     (case Initializer_Model_init t of Inl e \<Rightarrow> Inl e | Inr self \<Rightarrow> Inr (Model_ranks self))"

definition Model_run ::
  "topology \<Rightarrow> bool \<Rightarrow> transport \<Rightarrow> (error + group_info \<times> ParallelMode) \<times> transport" where
  "Model_run t use_cpu tr =
     (case Initializer_Model_init t of
        Inl e \<Rightarrow> (Inl e, tr)
      | Inr self \<Rightarrow> (let (res, tr') = Model_init_dist_group self use_cpu tr in (Inr res, tr')))"

definition Pipeline_resolve :: "topology \<Rightarrow> error + int list list" where
  "Pipeline_resolve t =
     (case Initializer_Pipeline_init t of Inl e \<Rightarrow> Inl e | Inr self \<Rightarrow> Inr (Pipeline_ranks self))"

definition Pipeline_run ::
  "topology \<Rightarrow> bool \<Rightarrow> transport \<Rightarrow> (error + group_info \<times> ParallelMode) \<times> transport" where
  "Pipeline_run t use_cpu tr =
     (case Initializer_Pipeline_init t of
        Inl e \<Rightarrow> (Inl e, tr)
      | Inr self \<Rightarrow> (let (res, tr') = Pipeline_init_dist_group self use_cpu tr in (Inr res, tr')))"

definition Tensor_resolve :: "topology \<Rightarrow> error + int list list" where
  "Tensor_resolve t =
     (case Initializer_Tensor_init t of Inl e \<Rightarrow> Inl e | Inr self \<Rightarrow> Inr (Tensor_ranks self))"

definition Tensor_run ::
  "topology \<Rightarrow> bool \<Rightarrow> transport \<Rightarrow> (error + group_info \<times> ParallelMode) \<times> transport" where
  "Tensor_run t use_cpu tr =
     (case Initializer_Tensor_init t of
        Inl e \<Rightarrow> (Inl e, tr)
      | Inr self \<Rightarrow> (let (res, tr') = Tensor_init_dist_group self use_cpu tr in (Inr res, tr')))"

definition Zero1_resolve :: "topology \<Rightarrow> error + int list list" where
  "Zero1_resolve t =
     (case Initializer_Zero1_init t of Inl e \<Rightarrow> Inl e | Inr self \<Rightarrow> Inr (Zero1_ranks self))"

definition Zero1_run ::
  "topology \<Rightarrow> bool \<Rightarrow> transport \<Rightarrow> (error + group_info \<times> ParallelMode) \<times> transport" where
  "Zero1_run t use_cpu tr =
     (case Initializer_Zero1_init t of
        Inl e \<Rightarrow> (Inl e, tr)
      | Inr self \<Rightarrow> (let (res, tr') = Zero1_init_dist_group self use_cpu tr in (Inr res, tr')))"

definition Nettest_resolve :: "topology \<Rightarrow> error + int list list" where
  "Nettest_resolve t =
     (case Initializer_Nettest_init t of Inl e \<Rightarrow> Inl e | Inr self \<Rightarrow> Inr (Nettest_ranks self))"

definition Nettest_run ::
  "topology \<Rightarrow> bool \<Rightarrow> transport \<Rightarrow> (error + group_info \<times> ParallelMode) \<times> transport" where
  "Nettest_run t use_cpu tr =
     (case Initializer_Nettest_init t of
        Inl e \<Rightarrow> (Inl e, tr)
      | Inr self \<Rightarrow> (let (res, tr') = Nettest_init_dist_group self use_cpu tr in (Inr res, tr')))"

definition Expert_resolve :: "topology \<Rightarrow> error + int list list" where
  "Expert_resolve t =
     (case Initializer_Expert_init t of Inl e \<Rightarrow> Inl e | Inr self \<Rightarrow> Inr (Expert_ranks self))"

definition Expert_run ::
  "topology \<Rightarrow> bool \<Rightarrow> transport \<Rightarrow> (error + group_info \<times> ParallelMode) \<times> transport" where
  "Expert_run t use_cpu tr =
     (case Initializer_Expert_init t of
        Inl e \<Rightarrow> (Inl e, tr)
      | Inr self \<Rightarrow> (let (res, tr') = Expert_init_dist_group self use_cpu tr in (Inr res, tr')))"

definition Expert_Data_resolve :: "topology \<Rightarrow> error + (int list list \<times> int list list)" where
  "Expert_Data_resolve t =
     (case Initializer_Expert_Data_init t of
        Inl e \<Rightarrow> Inl e
      | Inr self \<Rightarrow> get_expert_parallel_ranks self)"

definition Expert_Data_run ::
  "topology \<Rightarrow> bool \<Rightarrow> transport
     \<Rightarrow> (error + (group_info \<times> ParallelMode) list) \<times> transport" where
  "Expert_Data_run t use_cpu tr =
     (case Initializer_Expert_Data_init t of
        Inl e \<Rightarrow> (Inl e, tr)
      | Inr self \<Rightarrow> Expert_Data_init_dist_group self use_cpu tr)"

section \<open>Properties of partitions and of the transport log\<close>

text \<open>All sizes of a topology are positive.\<close>

definition positive_sizes :: "topology \<Rightarrow> bool" where
  "positive_sizes t =
     (0 < world_size t \<and> 0 < data_parallel_size t \<and> 0 < pipeline_parallel_size t \<and>
      0 < tensor_parallel_size t \<and> 0 < zero1_parallel_size t \<and>
      0 < nettest_parallel_size t \<and> 0 < expert_parallel_size t)"

text \<open>
  The partitions cover the ranks \<open>0, ..., n - 1\<close> exactly once: no rank of a partition is
  repeated in it or in another partition, and the members are exactly these ranks.
\<close>

definition exact_cover :: "int \<Rightarrow> int list list \<Rightarrow> bool" where
  "exact_cover n parts = (distinct (concat parts) \<and> set (concat parts) = {0..<n})"

text \<open>
  The rank lists of the primary groups (those created with no backend argument) that were
  created between the transport states \<open>tr\<close> and \<open>tr'\<close>, in the order of their creation.
\<close>

definition primary_calls :: "transport \<Rightarrow> transport \<Rightarrow> int list list" where
  "primary_calls tr tr' =
     map fst (filter (\<lambda>c. snd c = None) (drop (length (created tr)) (created tr')))"

text \<open>The number of groups created between two transport states.\<close>

definition create_calls :: "transport \<Rightarrow> transport \<Rightarrow> nat" where
  "create_calls tr tr' = length (created tr') - length (created tr)"

text \<open>
  The entries one loop iteration appends to the log for the partition \<open>ranks\<close>: the
  primary group, and a gloo group if the CPU groups are requested and the active backend
  is not gloo.
\<close>

definition iteration_log :: "bool \<Rightarrow> string \<Rightarrow> int list \<Rightarrow> (int list \<times> string option) list" where
  "iteration_log use_cpu be ranks =
     (ranks, None) # (if use_cpu \<and> be \<noteq> ''gloo'' then [(ranks, Some ''gloo'')] else [])"

text \<open>\<open>i\<close> is the index of \<open>x\<close> in \<open>xs\<close>: the position of its first occurrence.\<close>

definition index_in :: "int list \<Rightarrow> int \<Rightarrow> int \<Rightarrow> bool" where
  "index_in xs x i =
     (0 \<le> i \<and> i < int (length xs) \<and> xs ! nat i = x \<and> x \<notin> set (take (nat i) xs))"

text \<open>
  The returned tuple describes the membership of rank \<open>r\<close> in one of the partitions: the
  rank list is a partition holding \<open>r\<close>, the local rank is the index of \<open>r\<close> in it, and
  the group size is its length.
\<close>

definition member_info :: "int \<Rightarrow> int list list \<Rightarrow> group_info \<Rightarrow> bool" where
  "member_info r parts info =
     (case ranks_in_group info of
        None \<Rightarrow> False
      | Some p \<Rightarrow>
          p \<in> set parts \<and> r \<in> set p \<and>
          (case local_rank info of None \<Rightarrow> False | Some i \<Rightarrow> index_in p r i) \<and>
          group_world_size info = Some (int (length p)))"

text \<open>
  The CPU group of a returned tuple when the CPU groups are requested, read against the
  transport after the call: on gloo it is the primary handle itself; otherwise it is
  another handle, of a group created with the backend gloo for the same ranks as the
  primary group, which are the ranks of the tuple.
\<close>

definition fallback_handle_ok :: "transport \<Rightarrow> group_info \<Rightarrow> bool" where
  "fallback_handle_ok tr' info =
     (case process_group info of
        None \<Rightarrow> False
      | Some h \<Rightarrow>
          h < length (created tr') \<and> snd (created tr' ! h) = None \<and>
          ranks_in_group info = Some (fst (created tr' ! h)) \<and>
          (if backend tr' = ''gloo'' then cpu_group info = Some h
           else (case cpu_group info of
                   None \<Rightarrow> False
                 | Some c \<Rightarrow>
                     c \<noteq> h \<and> c < length (created tr') \<and>
                     created tr' ! c = (fst (created tr' ! h), Some ''gloo''))))"

section \<open>Splitting parameter groups for the optimizer\<close>

text \<open>
  \<open>split_params_into_different_groups_for_optimizer\<close> of \<open>internlm/train/utils.py\<close>. What
  it reads from outside the file is a parameter of the model: the configured number of
  experts (\<open>gpc.config.model.get("num_experts", 0)\<close>), the names of the expert parallel
  groups (\<open>gpc.expert_parallel_group_names\<close>), the three predicates of
  \<open>internlm.model.utils\<close>, and the attributes \<open>dtype\<close> and \<open>group_name\<close> of a parameter.
\<close>

datatype dtype = Float32 | OtherDtype

record 'p split_env =
  num_experts :: int
  expert_parallel_group_names :: "string list"
  is_norm_param :: "'p \<Rightarrow> bool"
  is_gate_param :: "'p \<Rightarrow> bool"
  is_moe_param :: "'p \<Rightarrow> bool"
  param_dtype :: "'p \<Rightarrow> dtype"
  param_group_name :: "'p \<Rightarrow> string"

text \<open>
  A parameter group is a dictionary with the key \<open>"params"\<close>; the other keys (the name,
  the flags, and options such as the weight decay) are kept in \<open>attrs\<close>.
\<close>

datatype 'v attr = Str string | Flag bool | Opt 'v

record ('p, 'v) pgroup =
  params :: "'p list"
  attrs :: "string \<rightharpoonup> 'v attr"

text \<open>The argument is a tuple, a single dictionary, a list, or something else.\<close>

datatype ('p, 'v) param_groups_arg =
  PTuple "('p, 'v) pgroup list"
| PDict "('p, 'v) pgroup"
| PList "('p, 'v) pgroup list"
| POther

text \<open>
  A Python dictionary keeps its keys in insertion order, and assigning to a key that is
  present keeps its place.
\<close>

fun dict_set :: "'k \<Rightarrow> 'a \<Rightarrow> ('k \<times> 'a) list \<Rightarrow> ('k \<times> 'a) list" where
  "dict_set k v [] = [(k, v)]"
| "dict_set k v (kv # d) = (if fst kv = k then (k, v) # d else kv # dict_set k v d)"

definition special_group :: "string \<Rightarrow> string \<Rightarrow> ('p, 'v) pgroup" where
  "special_group key flag = \<lparr>params = [], attrs = [''name'' \<mapsto> Str key, flag \<mapsto> Flag True]\<rparr>"

definition init_new_groups :: "'p split_env \<Rightarrow> (string \<times> ('p, 'v) pgroup) list" where
  "init_new_groups env =
     (let d0 = dict_set ''fp32'' \<lparr>params = [], attrs = [''name'' \<mapsto> Str ''fp32'']\<rparr> []
      in if 1 < num_experts env then
           (let d1 = foldl (\<lambda>d key. dict_set key (special_group key key) d) d0 [''gate'', ''norm'']
            in foldl (\<lambda>d key. dict_set key (special_group key ''moe'') d) d1
                 (expert_parallel_group_names env))
         else d0)"

text \<open>
  The attributes of an original group other than its name and its parameters are copied
  into every new group.
\<close>

definition copy_attrs ::
  "('p, 'v) pgroup \<Rightarrow> (string \<times> ('p, 'v) pgroup) list \<Rightarrow> (string \<times> ('p, 'v) pgroup) list" where
  "copy_attrs pg d =
     map (\<lambda>(k, g). (k, g\<lparr>attrs := attrs g ++ (attrs pg |` (- {''name'', ''params''}))\<rparr>)) d"

text \<open>\<open>new_groups[key]["params"].append(param)\<close>; a missing key raises \<open>KeyError\<close>.\<close>

definition append_param ::
  "string \<Rightarrow> 'p \<Rightarrow> (string \<times> ('p, 'v) pgroup) list \<Rightarrow> error + (string \<times> ('p, 'v) pgroup) list" where
  "append_param key p d =
     (case map_of d key of
        None \<Rightarrow> Inl KeyError
      | Some g \<Rightarrow> Inr (dict_set key (g\<lparr>params := params g @ [p]\<rparr>) d))"

text \<open>The body of the loop over the parameters of one group.\<close>

definition assign_param ::
  "'p split_env \<Rightarrow> 'p \<Rightarrow> (string \<times> ('p, 'v) pgroup) list \<times> 'p list
     \<Rightarrow> error + (string \<times> ('p, 'v) pgroup) list \<times> 'p list" where
  "assign_param env p st =
     (let d = fst st; origin_params = snd st;
          put = (\<lambda>key. case append_param key p d of
                          Inl e \<Rightarrow> Inl e | Inr d' \<Rightarrow> Inr (d', origin_params))
      in if 1 < num_experts env \<and> is_norm_param env p then put ''norm''
         else if is_gate_param env p then put ''gate''
         else if param_dtype env p = Float32 then put ''fp32''
         else if is_moe_param env p then put (param_group_name env p)
         else Inr (d, origin_params @ [p]))"

fun assign_params ::
  "'p split_env \<Rightarrow> 'p list \<Rightarrow> (string \<times> ('p, 'v) pgroup) list \<times> 'p list
     \<Rightarrow> error + (string \<times> ('p, 'v) pgroup) list \<times> 'p list" where
  "assign_params env [] st = Inr st"
| "assign_params env (p # ps) st =
     (case assign_param env p st of Inl e \<Rightarrow> Inl e | Inr st' \<Rightarrow> assign_params env ps st')"

text \<open>
  The loop over the groups: each group keeps the parameters that went to no new group.
  The groups are modelled by value, that is, the caller passes distinct dictionaries.
\<close>

fun split_groups ::
  "'p split_env \<Rightarrow> ('p, 'v) pgroup list \<Rightarrow> (string \<times> ('p, 'v) pgroup) list
     \<Rightarrow> error + ('p, 'v) pgroup list \<times> (string \<times> ('p, 'v) pgroup) list" where
  "split_groups env [] d = Inr ([], d)"
| "split_groups env (pg # pgs) d =
     (case assign_params env (params pg) (copy_attrs pg d, []) of
        Inl e \<Rightarrow> Inl e
      | Inr (d', origin_params) \<Rightarrow>
          (case split_groups env pgs d' of
             Inl e \<Rightarrow> Inl e
           | Inr (out, d'') \<Rightarrow> Inr (pg\<lparr>params := origin_params\<rparr> # out, d'')))"

definition split_params_into_different_groups_for_optimizer ::
  "'p split_env \<Rightarrow> ('p, 'v) param_groups_arg \<Rightarrow> error + ('p, 'v) pgroup list" where
  "split_params_into_different_groups_for_optimizer env arg =
     (case (case arg of PTuple gs \<Rightarrow> Inr gs | PDict g \<Rightarrow> Inr [g] | PList gs \<Rightarrow> Inr gs
                     | POther \<Rightarrow> Inl ValueError) of
        Inl e \<Rightarrow> Inl e
      | Inr param_groups \<Rightarrow>
          (case split_groups env param_groups (init_new_groups env) of
             Inl e \<Rightarrow> Inl e
           | Inr (out, new_groups) \<Rightarrow>
               Inr (out @ filter (\<lambda>g. params g \<noteq> []) (map snd new_groups))))"

text \<open>The groups an argument holds, and all parameters of a list of groups.\<close>

definition groups_of :: "('p, 'v) param_groups_arg \<Rightarrow> ('p, 'v) pgroup list" where
  "groups_of arg = (case arg of PTuple gs \<Rightarrow> gs | PDict g \<Rightarrow> [g] | PList gs \<Rightarrow> gs | POther \<Rightarrow> [])"

definition all_params :: "('p, 'v) pgroup list \<Rightarrow> 'p list" where
  "all_params gs = concat (map params gs)"

text \<open>
  The key of the new group the loop body appends a parameter to; \<open>None\<close> for a parameter
  that stays in its original group.
\<close>

definition target_key :: "'p split_env \<Rightarrow> 'p \<Rightarrow> string option" where
  "target_key env p =
     (if 1 < num_experts env \<and> is_norm_param env p then Some ''norm''
      else if is_gate_param env p then Some ''gate''
      else if param_dtype env p = Float32 then Some ''fp32''
      else if is_moe_param env p then Some (param_group_name env p)
      else None)"

text \<open>The keys of \<open>new_groups\<close>.\<close>

definition group_keys :: "'p split_env \<Rightarrow> string list" where
  "group_keys env =
     ''fp32'' # (if 1 < num_experts env
                 then [''gate'', ''norm''] @ expert_parallel_group_names env else [])"

text \<open>An original group after the loop: it keeps the parameters that have no target key.\<close>

definition pruned :: "'p split_env \<Rightarrow> ('p, 'v) pgroup \<Rightarrow> ('p, 'v) pgroup" where
  "pruned env pg = pg\<lparr>params := filter (\<lambda>p. target_key env p = None) (params pg)\<rparr>"

text \<open>The target key of a parameter, if it has one, is a key of \<open>new_groups\<close>.\<close>

definition routable :: "'p split_env \<Rightarrow> 'p \<Rightarrow> bool" where
  "routable env p =
     (case target_key env p of None \<Rightarrow> True | Some key \<Rightarrow> key \<in> set (group_keys env))"

section \<open>Ranges and concatenations\<close>

lemma py_range_int: "py_range (int m) = map int [0..<m]"
proof (induction m)
  case 0 show ?case by (simp add: py_range_def)
next
  case (Suc m)
  have "[0..int m] = [0..int m - 1] @ [int m]"
    using upto_rec2[of 0 "int m"] by simp
  then show ?case using Suc by (simp add: py_range_def)
qed

lemma py_range_nat: "py_range n = map int [0..<nat n]"
proof (cases "0 \<le> n")
  case False
  then show ?thesis by (simp add: py_range_def)
next
  case True
  then show ?thesis using py_range_int[of "nat n"] by simp
qed

lemma set_py_range [simp]: "set (py_range n) = {0..<n}"
  by (auto simp: py_range_def)

lemma length_py_range [simp]: "length (py_range n) = nat n"
  by (simp add: py_range_def)

lemma distinct_py_range [simp]: "distinct (py_range n)"
  by (simp add: py_range_def)

lemma py_range_add:
  assumes "0 \<le> a" "0 \<le> b"
  shows "py_range (a + b) = py_range a @ map (\<lambda>j. a + j) (py_range b)"
proof -
  have "[0..<nat a + nat b] = [0..<nat a] @ [nat a..<nat a + nat b]"
    using upt_add_eq_append[of 0 "nat a" "nat b"] by simp
  moreover have "[nat a..<nat a + nat b] = map (\<lambda>k. k + nat a) [0..<nat b]"
    using map_add_upt[of "nat a" "nat b"] by (simp only: add.commute)
  ultimately have "map int [0..<nat (a + b)] = map int [0..<nat a] @ map (\<lambda>k. a + int k) [0..<nat b]"
    using assms by (simp add: nat_add_distrib comp_def add.commute)
  then show ?thesis by (simp add: py_range_nat comp_def)
qed


lemma concat_blocks_int:
  assumes "0 \<le> b"
  shows "concat (map (\<lambda>i. map (\<lambda>j. i * b + j) (py_range b)) (py_range (int n))) = py_range (int n * b)"
proof (induction n)
  case 0
  show ?case by (simp add: py_range_def)
next
  case (Suc n)
  have "py_range (int (Suc n)) = py_range (int n) @ [int n]"
    unfolding py_range_int by simp
  moreover have "py_range (int (Suc n) * b) = py_range (int n * b) @ map (\<lambda>j. int n * b + j) (py_range b)"
    using py_range_add[of "int n * b" b] assms by (simp add: algebra_simps)
  ultimately show ?case using Suc by simp
qed

lemma concat_blocks:
  assumes "0 \<le> b" "0 \<le> n"
  shows "concat (map (\<lambda>i. map (\<lambda>j. i * b + j) (py_range b)) (py_range n)) = py_range (n * b)"
  using concat_blocks_int[OF assms(1), of "nat n"] assms(2) by simp

lemma mset_concat_Cons_map:
  "mset (concat (map (\<lambda>j. g j # h j) xs)) = mset (map g xs) + mset (concat (map h xs))"
  by (induction xs) simp_all

lemma mset_concat_swap:
  "mset (concat (map (\<lambda>i. map (f i) xs) ys)) = mset (concat (map (\<lambda>j. map (\<lambda>i. f i j) ys) xs))"
proof (induction ys)
  case Nil
  show ?case by (induction xs) simp_all
next
  case (Cons y ys)
  then show ?case by (simp add: mset_concat_Cons_map)
qed

lemma mset_strided:
  assumes "0 \<le> n" "0 \<le> d"
  shows "mset (concat (map (\<lambda>i. map (\<lambda>j. i + j * n) (py_range d)) (py_range n))) = mset (py_range (d * n))"
proof -
  have "mset (concat (map (\<lambda>i. map (\<lambda>j. i + j * n) (py_range d)) (py_range n)))
      = mset (concat (map (\<lambda>j. map (\<lambda>i. i + j * n) (py_range n)) (py_range d)))"
    by (rule mset_concat_swap)
  also have "\<dots> = mset (concat (map (\<lambda>j. map (\<lambda>i. j * n + i) (py_range n)) (py_range d)))"
    by (simp only: add.commute)
  also have "\<dots> = mset (py_range (d * n))"
    using concat_blocks[OF assms] by simp
  finally show ?thesis .
qed

lemma exact_cover_mset:
  assumes "mset (concat parts) = mset (py_range n)"
  shows "exact_cover n parts"
proof -
  have "distinct (concat parts)"
    using assms distinct_py_range mset_eq_imp_distinct_iff by blast
  moreover have "set (concat parts) = {0..<n}"
    using mset_eq_setD[OF assms] by simp
  ultimately show ?thesis by (simp add: exact_cover_def)
qed

lemma range_len_stride:
  assumes "0 < s" "0 \<le> i" "i < s" "0 \<le> q"
  shows "range_len (a + i) (a + s * q) s = q"
proof (cases "q = 0")
  case True
  then show ?thesis using assms by (simp add: range_len_def)
next
  case False
  then have q: "0 < q" using assms by simp
  have "s \<le> s * q" using mult_left_mono[of 1 q s] q assms(1) by simp
  then have lt: "i < s * q" using assms(3) by linarith
  have e: "s * q - i - 1 = (s - 1 - i) + (q - 1) * s" by (simp add: algebra_simps)
  have "((s - 1 - i) + (q - 1) * s) div s = (q - 1) + (s - 1 - i) div s"
    using assms(1) by (intro div_mult_self1) simp
  moreover have "(s - 1 - i) div s = 0" using assms by (intro div_pos_pos_trivial) linarith+
  ultimately have d: "(s * q - i - 1) div s = q - 1" using e by presburger
  have "range_len (a + i) (a + s * q) s = (a + s * q - (a + i) - 1) div s + 1"
    using assms(1) lt by (simp add: range_len_def)
  also have "a + s * q - (a + i) - 1 = s * q - i - 1" by simp
  finally show ?thesis using d by simp
qed

lemma py_range3_stride:
  assumes "0 < s" "0 \<le> i" "i < s" "0 \<le> q"
  shows "py_range3 (a + i) (a + s * q) s = map (\<lambda>k. a + i + k * s) (py_range q)"
  by (simp add: py_range3_def range_len_stride[OF assms])

section \<open>The partitions of each axis cover the ranks\<close>

lemma py_range3_residue:
  assumes "0 < s" "0 \<le> i" "i < s" "0 \<le> q"
  shows "py_range3 i (s * q) s = map (\<lambda>k. i + k * s) (py_range q)"
  using py_range3_stride[OF assms, of 0] by simp

lemma Data_cover:
  assumes "0 < world_size t" "0 < data_parallel_size t"
    and "world_size t mod data_parallel_size t = 0"
  shows "\<exists>parts. Data_resolve t = Inr parts \<and> exact_cover (world_size t) parts"
proof -
  let ?d = "data_parallel_size t" and ?n = "world_size t div data_parallel_size t"
  have ws: "world_size t = ?d * ?n" using assms(3) by auto
  have n: "0 \<le> ?n" using assms by (simp add: pos_imp_zdiv_nonneg_iff)
  have "mset (concat (map (\<lambda>i. map (\<lambda>j. i + j * ?n) (py_range ?d)) (py_range ?n)))
        = mset (py_range (?d * ?n))"
    using mset_strided[OF n, of ?d] assms(2) by simp
  then have "exact_cover (world_size t) (map (\<lambda>i. map (\<lambda>j. i + j * ?n) (py_range ?d)) (py_range ?n))"
    using ws exact_cover_mset by metis
  then show ?thesis
    using assms by (simp add: Data_resolve_def Initializer_Data_init_def Data_ranks_def)
qed

lemma blocks_cover:
  assumes "0 < w" "0 < b" "w mod b = 0"
  shows "exact_cover w (map (\<lambda>i. map (\<lambda>j. i * b + j) (py_range b)) (py_range (w div b)))"
proof -
  have n: "0 \<le> w div b" using assms by (simp add: pos_imp_zdiv_nonneg_iff)
  have "w div b * b = w" using assms(3) by auto
  then have "concat (map (\<lambda>i. map (\<lambda>j. i * b + j) (py_range b)) (py_range (w div b))) = py_range w"
    using concat_blocks[of b "w div b"] assms(2) n by simp
  then show ?thesis by (simp add: exact_cover_def)
qed

lemma Model_cover:
  assumes "0 < world_size t" "0 < tensor_parallel_size t" "0 < pipeline_parallel_size t"
    and "world_size t mod (tensor_parallel_size t * pipeline_parallel_size t) = 0"
  shows "\<exists>parts. Model_resolve t = Inr parts \<and> exact_cover (world_size t) parts"
proof -
  have b: "0 < tensor_parallel_size t * pipeline_parallel_size t" using assms by simp
  show ?thesis
    using blocks_cover[OF assms(1) b assms(4)] assms(2,3,4)
    by (simp add: Model_resolve_def Initializer_Model_init_def Model_ranks_def Let_def)
qed

lemma Tensor_cover:
  assumes "0 < world_size t" "0 < tensor_parallel_size t"
    and "world_size t mod tensor_parallel_size t = 0"
  shows "\<exists>parts. Tensor_resolve t = Inr parts \<and> exact_cover (world_size t) parts"
  using blocks_cover[OF assms] assms
  by (simp add: Tensor_resolve_def Initializer_Tensor_init_def Tensor_ranks_def)


lemma Expert_ranks_eq:
  assumes "0 < w" "0 < n" "w mod n = 0"
  shows "map (\<lambda>i. py_range3 i w n) (py_range n)
       = map (\<lambda>i. map (\<lambda>k. i + k * n) (py_range (w div n))) (py_range n)"
proof -
  have q: "0 \<le> w div n" using assms by (simp add: pos_imp_zdiv_nonneg_iff)
  have w: "n * (w div n) = w" using assms(3) by auto
  have "py_range3 i w n = map (\<lambda>k. i + k * n) (py_range (w div n))" if "i \<in> set (py_range n)" for i
    using py_range3_residue[OF assms(2) _ _ q, of i] that w by simp
  then show ?thesis by simp
qed

lemma strided_cover:
  assumes "0 < w" "0 < n" "w mod n = 0"
  shows "exact_cover w (map (\<lambda>i. map (\<lambda>k. i + k * n) (py_range (w div n))) (py_range n))"
proof -
  have q: "0 \<le> w div n" using assms by (simp add: pos_imp_zdiv_nonneg_iff)
  have w: "w div n * n = w" using assms(3) by auto
  show ?thesis
    using mset_strided[of n "w div n"] assms(2) q w by (intro exact_cover_mset) simp
qed

lemma Expert_cover:
  assumes "0 < world_size t" "0 < expert_parallel_size t"
    and "expert_parallel_size t \<le> world_size t"
    and "world_size t mod (world_size t div expert_parallel_size t) = 0"
    and "data_parallel_size t = expert_parallel_size t"
  shows "\<exists>parts. Expert_resolve t = Inr parts \<and> exact_cover (world_size t) parts"
proof -
  let ?n = "world_size t div expert_parallel_size t"
  have n: "0 < ?n" using assms(2,3) by (simp add: pos_imp_zdiv_pos_iff)
  have "exact_cover (world_size t) (map (\<lambda>i. py_range3 i (world_size t) ?n) (py_range ?n))"
    unfolding Expert_ranks_eq[OF assms(1) n assms(4)] by (rule strided_cover[OF assms(1) n assms(4)])
  then show ?thesis
    using assms n by (simp add: Expert_resolve_def Initializer_Expert_init_def Expert_ranks_def Let_def)
qed

lemma mset_concat_map_cong:
  assumes "mset xs = mset ys"
  shows "mset (concat (map (\<lambda>i. map (f i) xs) is)) = mset (concat (map (\<lambda>i. map (f i) ys) is))"
proof (induction "is")
  case Nil
  show ?case by simp
next
  case (Cons i "is")
  have "mset (map (f i) xs) = mset (map (f i) ys)"
    using assms by (metis mset_map)
  then show ?case using Cons by simp
qed

lemma concat_concat_map:
  "concat (concat (map (\<lambda>i. map (F i) js) is)) = concat (map (\<lambda>i. concat (map (F i) js)) is)"
  by (induction "is") simp_all

lemma Zero1_ranks_concat:
  assumes "0 \<le> z" "0 \<le> nz"
  shows "concat (concat (map (\<lambda>i. map (\<lambda>j. map (\<lambda>k. i + (j * z + k) * n) (py_range z)) (py_range nz)) is))
       = concat (map (\<lambda>i. map (\<lambda>m. i + m * n) (py_range (nz * z))) is)"
proof -
  have "concat (map (\<lambda>j. map (\<lambda>k. i + (j * z + k) * n) (py_range z)) (py_range nz))
        = map (\<lambda>m. i + m * n) (py_range (nz * z))" for i
  proof -
    have "concat (map (\<lambda>j. map (\<lambda>k. i + (j * z + k) * n) (py_range z)) (py_range nz))
        = map (\<lambda>m. i + m * n) (concat (map (\<lambda>j. map (\<lambda>k. j * z + k) (py_range z)) (py_range nz)))"
      by (simp add: map_concat comp_def)
    then show ?thesis using concat_blocks[OF assms] by simp
  qed
  then show ?thesis by (simp add: concat_concat_map)
qed

lemma Zero1_cover:
  assumes "0 < world_size t" "0 < data_parallel_size t" "0 < zero1_parallel_size t"
    and "world_size t mod data_parallel_size t = 0"
    and "world_size t mod zero1_parallel_size t = 0"
    and "data_parallel_size t mod zero1_parallel_size t = 0"
  shows "\<exists>parts. Zero1_resolve t = Inr parts \<and> exact_cover (world_size t) parts"
proof -
  let ?d = "data_parallel_size t" and ?z = "zero1_parallel_size t"
  let ?n = "world_size t div ?d" and ?nz = "?d div ?z"
  have n: "0 < ?n" using assms(1,2,4) by (simp add: pos_imp_zdiv_pos_iff zdvd_imp_le mod_eq_0_iff_dvd)
  have nz: "0 \<le> ?nz" using assms by (simp add: pos_imp_zdiv_nonneg_iff)
  have d: "?nz * ?z = ?d" using assms(6) by auto
  have wn: "world_size t mod ?n = 0" "world_size t div ?n = ?d"
    using assms(2,4) n by auto
  let ?parts = "concat (map (\<lambda>i. map (\<lambda>j. map (\<lambda>k. i + (j * ?z + k) * ?n) (py_range ?z))
                                   (py_range ?nz)) (py_range ?n))"
  have "concat ?parts = concat (map (\<lambda>i. map (\<lambda>m. i + m * ?n) (py_range ?d)) (py_range ?n))"
    using Zero1_ranks_concat[of ?z ?nz ?n "py_range ?n"] assms(3) nz d by simp
  moreover have "exact_cover (world_size t) (map (\<lambda>i. map (\<lambda>m. i + m * ?n) (py_range ?d)) (py_range ?n))"
    using strided_cover[OF assms(1) n wn(1)] wn(2) by simp
  ultimately have "exact_cover (world_size t) ?parts"
    by (simp add: exact_cover_def)
  then show ?thesis
    using assms by (simp add: Zero1_resolve_def Initializer_Zero1_init_def Zero1_ranks_def)
qed

lemma Pipeline_cover:
  assumes "0 < world_size t" "0 < data_parallel_size t" "0 < pipeline_parallel_size t"
    and "world_size t mod data_parallel_size t = 0"
    and "(world_size t div data_parallel_size t) mod pipeline_parallel_size t = 0"
  shows "\<exists>parts. Pipeline_resolve t = Inr parts \<and> exact_cover (world_size t) parts"
proof -
  let ?d = "data_parallel_size t" and ?p = "pipeline_parallel_size t"
  let ?b = "world_size t div ?d"
  let ?s = "?b div ?p"
  have b: "0 < ?b" using assms(1,2,4) by (simp add: pos_imp_zdiv_pos_iff zdvd_imp_le mod_eq_0_iff_dvd)
  have s: "0 < ?s" using b assms(3,5) by (simp add: pos_imp_zdiv_pos_iff zdvd_imp_le mod_eq_0_iff_dvd)
  have bs: "?s * ?p = ?b" using assms(5) by auto
  have w: "?d * ?b = world_size t" using assms(4) by auto
  have p: "0 \<le> ?p" using assms(3) by simp
  let ?L = "concat (map (\<lambda>j. map (\<lambda>k. j + k * ?s) (py_range ?p)) (py_range ?s))"
  have inner: "concat (map (\<lambda>j. py_range3 (i * ?b + j) ((i + 1) * ?b) ?s) (py_range ?s))
             = map (\<lambda>x. i * ?b + x) ?L" for i
  proof -
    have "py_range3 (i * ?b + j) ((i + 1) * ?b) ?s = map (\<lambda>k. i * ?b + j + k * ?s) (py_range ?p)"
      if "j \<in> set (py_range ?s)" for j
    proof -
      have "(i + 1) * ?b = i * ?b + ?s * ?p" using bs by (simp add: algebra_simps)
      then show ?thesis
        using py_range3_stride[OF s _ _ p, of j "i * ?b"] that by simp
    qed
    then have "map (\<lambda>j. py_range3 (i * ?b + j) ((i + 1) * ?b) ?s) (py_range ?s)
             = map (\<lambda>j. map (\<lambda>k. i * ?b + j + k * ?s) (py_range ?p)) (py_range ?s)"
      by simp
    then have "concat (map (\<lambda>j. py_range3 (i * ?b + j) ((i + 1) * ?b) ?s) (py_range ?s))
             = concat (map (\<lambda>j. map (\<lambda>k. i * ?b + j + k * ?s) (py_range ?p)) (py_range ?s))"
      by (simp only:)
    also have "\<dots> = map (\<lambda>x. i * ?b + x) ?L"
      by (simp add: map_concat comp_def add.assoc)
    finally show ?thesis .
  qed
  let ?parts = "concat (map (\<lambda>i. map (\<lambda>j. py_range3 (i * ?b + j) ((i + 1) * ?b) ?s) (py_range ?s))
                            (py_range ?d))"
  have "concat ?parts = concat (map (\<lambda>i. map (\<lambda>x. i * ?b + x) ?L) (py_range ?d))"
    by (simp add: concat_concat_map inner)
  moreover have "mset ?L = mset (py_range ?b)"
    using mset_strided[of ?s ?p] s p bs by (simp add: mult.commute)
  ultimately have "mset (concat ?parts)
      = mset (concat (map (\<lambda>i. map (\<lambda>x. i * ?b + x) (py_range ?b)) (py_range ?d)))"
    using mset_concat_map_cong[of ?L "py_range ?b" "\<lambda>i x. i * ?b + x" "py_range ?d"] by simp
  also have "\<dots> = mset (py_range (world_size t))"
    using concat_blocks[of ?b ?d] b assms(2) w by simp
  finally have "exact_cover (world_size t) ?parts" by (rule exact_cover_mset)
  then show ?thesis
    using assms by (simp add: Pipeline_resolve_def Initializer_Pipeline_init_def Pipeline_ranks_def Let_def)
qed

lemma filter_py_range:
  assumes "0 \<le> w" "w \<le> m"
  shows "filter (\<lambda>r. r < w) (py_range m) = py_range w"
proof -
  have "py_range m = py_range w @ map (\<lambda>j. w + j) (py_range (m - w))"
    using py_range_add[of w "m - w"] assms by simp
  moreover have "filter (\<lambda>r. r < w) (py_range w) = py_range w"
    by (simp add: filter_id_conv)
  moreover have "filter (\<lambda>r. r < w) (map (\<lambda>j. w + j) (py_range (m - w))) = []"
    by (simp add: filter_empty_conv)
  ultimately show ?thesis by simp
qed

lemma Nettest_cover:
  assumes "0 < world_size t" "0 < nettest_parallel_size t"
  shows "\<exists>parts. Nettest_resolve t = Inr parts \<and> exact_cover (world_size t) parts"
proof -
  let ?w = "world_size t" and ?n = "nettest_parallel_size t"
  let ?g = "- ((- ?w) div ?n)"
  have "(- ?w) div ?n * ?n \<le> - ?w"
    using assms(2) by (metis div_mult_mod_eq le_add_same_cancel1 pos_mod_sign)
  then have ge: "?w \<le> ?g * ?n" by simp
  have g: "0 \<le> ?g" using div_neg_pos_less0[of "- ?w" ?n] assms by simp
  let ?parts = "map (\<lambda>i. filter (\<lambda>r. r < ?w) (map (\<lambda>j. i * ?n + j) (py_range ?n))) (py_range ?g)"
  have "concat ?parts = filter (\<lambda>r. r < ?w) (concat (map (\<lambda>i. map (\<lambda>j. i * ?n + j) (py_range ?n)) (py_range ?g)))"
    by (simp add: filter_concat comp_def)
  also have "\<dots> = filter (\<lambda>r. r < ?w) (py_range (?g * ?n))"
    using concat_blocks[of ?n ?g] assms(2) g by simp
  also have "\<dots> = py_range ?w"
    using filter_py_range[of ?w "?g * ?n"] assms(1) ge by simp
  finally have "exact_cover ?w ?parts" by (simp add: exact_cover_def)
  then show ?thesis
    using assms by (simp add: Nettest_resolve_def Initializer_Nettest_init_def Nettest_ranks_def)
qed

lemma chunks_concat:
  "length xs = c * e \<Longrightarrow> concat (map (\<lambda>k. take e (drop (k * e) xs)) [0..<c]) = xs"
proof (induction c arbitrary: xs)
  case 0
  then show ?case by simp
next
  case (Suc c)
  have "[0..<Suc c] = 0 # map Suc [0..<c]"
    by (simp add: upt_conv_Cons map_Suc_upt del: upt_Suc)
  then have "concat (map (\<lambda>k. take e (drop (k * e) xs)) [0..<Suc c])
      = take e xs @ concat (map (\<lambda>k. take e (drop (k * e) (drop e xs))) [0..<c])"
    by (simp add: comp_def add.commute del: upt_Suc)
  moreover have "length (drop e xs) = c * e" using Suc.prems by simp
  ultimately show ?case using Suc.IH[of "drop e xs"] by simp
qed

lemma chunk_length:
  assumes "length xs = c * e" "k < c"
  shows "length (take e (drop (k * e) xs)) = e"
proof -
  have "Suc k * e \<le> c * e" using assms(2) by (intro mult_le_mono1) simp
  then show ?thesis using assms(1) by simp
qed

lemma fold_min_same:
  "\<forall>n\<in>set ns. n = e \<Longrightarrow> fold min ns e = (e::nat)"
  by (induction ns) simp_all

lemma mset_concat_cong:
  "(\<And>x. x \<in> set xs \<Longrightarrow> mset (f x) = mset (g x)) \<Longrightarrow>
   mset (concat (map f xs)) = mset (concat (map g xs))"
  by (induction xs) simp_all

lemma mset_py_zip_star:
  assumes "\<forall>xs\<in>set xss. length xs = e"
  shows "mset (concat (py_zip_star xss)) = mset (concat xss)"
proof (cases xss)
  case Nil
  then show ?thesis by (simp add: py_zip_star_def)
next
  case (Cons ys yss)
  have "fold min (map length yss) (length ys) = e"
    using assms Cons fold_min_same[of "map length yss" e] by simp
  then have "py_zip_star xss = map (\<lambda>k. map (\<lambda>xs. xs ! k) xss) [0..<e]"
    using Cons by (simp add: py_zip_star_def)
  then have "mset (concat (py_zip_star xss)) = mset (concat (map (\<lambda>xs. map (\<lambda>k. xs ! k) [0..<e]) xss))"
    using mset_concat_swap[of "\<lambda>k xs. xs ! k" xss "[0..<e]"] by simp
  also have "\<dots> = mset (concat (map (\<lambda>xs. xs) xss))"
  proof (rule mset_concat_cong)
    fix xs assume "xs \<in> set xss"
    then have "length xs = e" using assms by simp
    then show "mset (map ((!) xs) [0..<e]) = mset xs" using map_nth[of xs] by simp
  qed
  finally show ?thesis by simp
qed

lemma concat_concat_fun:
  "concat (concat (map f xs)) = concat (map (\<lambda>x. concat (f x)) xs)"
  by (induction xs) simp_all

lemma slice_bound_in: "0 \<le> k \<Longrightarrow> k \<le> n \<Longrightarrow> slice_bound n k = nat k"
  by (simp add: slice_bound_def)

lemma part_ep_group_chunks:
  assumes "0 < expert_parallel_size t" "0 < data_parallel_size t"
    and "data_parallel_size t mod expert_parallel_size t = 0"
    and "length xs = nat (data_parallel_size t)"
  shows "part_ep_group t xs
       = map (\<lambda>k. take (nat (expert_parallel_size t)) (drop (k * nat (expert_parallel_size t)) xs))
           [0..<nat (data_parallel_size t div expert_parallel_size t)]"
proof -
  let ?e = "expert_parallel_size t" and ?d = "data_parallel_size t"
  let ?c = "?d div ?e"
  have c: "0 \<le> ?c" using assms by (simp add: pos_imp_zdiv_nonneg_iff)
  have d: "?e * ?c = ?d" using assms(3) by auto
  have r: "py_range3 0 ?d ?e = map (\<lambda>k. k * ?e) (py_range ?c)"
    using py_range3_residue[of ?e 0 ?c] assms(1) c d by simp
  have sl: "py_slice xs (int k * ?e) (int k * ?e + ?e) = take (nat ?e) (drop (k * nat ?e) xs)"
    if "k < nat ?c" for k
  proof -
    have "int (Suc k) \<le> ?c" using that by linarith
    then have "int (Suc k) * ?e \<le> ?c * ?e" using assms(1) by (intro mult_right_mono) simp_all
    then have hi: "int k * ?e + ?e \<le> ?d" using d by (simp add: algebra_simps)
    have lo: "0 \<le> int k * ?e" using assms(1) by simp
    have n: "int (length xs) = ?d" using assms(2,4) by simp
    have "slice_bound (int (length xs)) (int k * ?e) = nat (int k * ?e)"
      using lo hi assms(1) unfolding n by (intro slice_bound_in) linarith+
    then have l: "slice_bound (int (length xs)) (int k * ?e) = k * nat ?e"
      by (simp add: nat_mult_distrib)
    have "slice_bound (int (length xs)) (int k * ?e + ?e) = nat (int k * ?e + ?e)"
      using lo hi assms(1) unfolding n by (intro slice_bound_in) linarith+
    then have h: "slice_bound (int (length xs)) (int k * ?e + ?e) = k * nat ?e + nat ?e"
      using lo assms(1) by (simp add: nat_add_distrib nat_mult_distrib)
    show ?thesis unfolding py_slice_def Let_def l h by simp
  qed
  show ?thesis
    unfolding part_ep_group_def r py_range_nat using sl by (simp add: comp_def)
qed

lemma data_parallel_groups_eq:
  assumes "0 < world_size t" "0 < pipeline_parallel_size t" "0 < tensor_parallel_size t"
    and "0 < data_parallel_size t"
    and "world_size t = pipeline_parallel_size t * tensor_parallel_size t * data_parallel_size t"
  shows "data_parallel_groups t
       = map (\<lambda>i. map (\<lambda>k. i + k * (pipeline_parallel_size t * tensor_parallel_size t))
                     (py_range (data_parallel_size t)))
           (py_range (pipeline_parallel_size t * tensor_parallel_size t))"
proof -
  let ?m = "pipeline_parallel_size t * tensor_parallel_size t"
  define m where "m = ?m"
  have m: "0 < m" using assms by (simp add: m_def)
  have "world_size t = m * data_parallel_size t" using assms(5) by (simp add: m_def)
  then have "world_size t mod m = 0" "world_size t div m = data_parallel_size t"
    using m by simp_all
  then show ?thesis
    using Expert_ranks_eq[OF assms(1) m] by (simp add: data_parallel_groups_def Let_def m_def)
qed

lemma Expert_Data_cover:
  assumes "0 < world_size t" "0 < pipeline_parallel_size t" "0 < tensor_parallel_size t"
    and "0 < data_parallel_size t" "0 < expert_parallel_size t"
    and "world_size t = pipeline_parallel_size t * tensor_parallel_size t * data_parallel_size t"
    and "data_parallel_size t mod expert_parallel_size t = 0"
  shows "\<exists>ep ed. Expert_Data_resolve t = Inr (ep, ed)
           \<and> exact_cover (world_size t) ep \<and> exact_cover (world_size t) ed"
proof -
  let ?m = "pipeline_parallel_size t * tensor_parallel_size t"
  let ?e = "nat (expert_parallel_size t)" and ?d = "data_parallel_size t"
  let ?c = "nat (?d div expert_parallel_size t)"
  let ?dpgs = "data_parallel_groups t"
  have m: "0 < ?m" using assms by simp
  have wm: "world_size t mod ?m = 0" "world_size t div ?m = ?d"
    using mod_mult_self1_is_0[of ?m ?d] nonzero_mult_div_cancel_left[of ?m ?d] assms(2,3)
    unfolding assms(6) by simp_all
  have dp: "?dpgs = map (\<lambda>i. map (\<lambda>k. i + k * ?m) (py_range ?d)) (py_range ?m)"
    by (rule data_parallel_groups_eq[OF assms(1,2,3,4,6)])
  have len: "length xs = nat ?d" if "xs \<in> set ?dpgs" for xs
    using that unfolding dp by auto
  have ce: "?c * ?e = nat ?d"
    using assms(4,5,7) by (metis dvd_div_mult_self mod_eq_0_iff_dvd nat_mult_distrib
        pos_imp_zdiv_nonneg_iff less_imp_le)
  have chunks: "part_ep_group t xs = map (\<lambda>k. take ?e (drop (k * ?e) xs)) [0..<?c]"
    if "xs \<in> set ?dpgs" for xs
    using part_ep_group_chunks[OF assms(5,4,7) len[OF that]] .
  have cc: "concat (part_ep_group t xs) = xs" if "xs \<in> set ?dpgs" for xs
    using chunks[OF that] chunks_concat[of xs ?c ?e] len[OF that] ce by simp
  have cl: "\<forall>ys\<in>set (part_ep_group t xs). length ys = ?e" if "xs \<in> set ?dpgs" for xs
    using chunks[OF that] chunk_length[of xs ?c ?e] len[OF that] ce by auto
  have all: "mset (concat ?dpgs) = mset (py_range (world_size t))"
    using strided_cover[OF assms(1) m wm(1)] mset_strided[of ?m ?d] m assms(4) assms(6)
    unfolding dp by (simp add: mult.commute)
  have "concat (concat (map (part_ep_group t) ?dpgs)) = concat (map (\<lambda>xs. concat (part_ep_group t xs)) ?dpgs)"
    by (rule concat_concat_fun)
  also have "\<dots> = concat (map (\<lambda>xs. xs) ?dpgs)"
    using cc by (metis (mono_tags, lifting) map_eq_conv)
  finally have ep: "mset (concat (concat (map (part_ep_group t) ?dpgs))) = mset (py_range (world_size t))"
    using all by simp
  have "concat (concat (map (\<lambda>xs. py_zip_star (part_ep_group t xs)) ?dpgs))
      = concat (map (\<lambda>xs. concat (py_zip_star (part_ep_group t xs))) ?dpgs)"
    by (rule concat_concat_fun)
  moreover have "mset (concat (map (\<lambda>xs. concat (py_zip_star (part_ep_group t xs))) ?dpgs))
      = mset (concat (map (\<lambda>xs. xs) ?dpgs))"
  proof (rule mset_concat_cong)
    fix xs assume xs: "xs \<in> set ?dpgs"
    show "mset (concat (py_zip_star (part_ep_group t xs))) = mset xs"
      using mset_py_zip_star[OF cl[OF xs]] cc[OF xs] by simp
  qed
  ultimately have ed: "mset (concat (concat (map (\<lambda>xs. py_zip_star (part_ep_group t xs)) ?dpgs)))
      = mset (py_range (world_size t))"
    using all by simp
  show ?thesis
    using exact_cover_mset[OF ep] exact_cover_mset[OF ed] assms(5)
    by (simp add: Expert_Data_resolve_def Initializer_Expert_Data_init_def
        get_expert_parallel_ranks_def Let_def)
qed

lemma Data_accepts:
  "Data_resolve t = Inr parts \<Longrightarrow> world_size t mod data_parallel_size t = 0"
  by (simp add: Data_resolve_def Initializer_Data_init_def split: if_splits)

lemma Model_accepts:
  "Model_resolve t = Inr parts \<Longrightarrow>
   world_size t mod (tensor_parallel_size t * pipeline_parallel_size t) = 0"
  by (simp add: Model_resolve_def Initializer_Model_init_def Let_def split: if_splits)

lemma Tensor_accepts:
  "Tensor_resolve t = Inr parts \<Longrightarrow> world_size t mod tensor_parallel_size t = 0"
  by (simp add: Tensor_resolve_def Initializer_Tensor_init_def split: if_splits)

lemma Pipeline_accepts:
  "Pipeline_resolve t = Inr parts \<Longrightarrow>
   world_size t mod data_parallel_size t = 0 \<and>
   (world_size t div data_parallel_size t) mod pipeline_parallel_size t = 0"
  by (simp add: Pipeline_resolve_def Initializer_Pipeline_init_def Let_def split: if_splits)

lemma Zero1_accepts:
  "Zero1_resolve t = Inr parts \<Longrightarrow>
   world_size t mod data_parallel_size t = 0 \<and> world_size t mod zero1_parallel_size t = 0"
  by (simp add: Zero1_resolve_def Initializer_Zero1_init_def split: if_splits)

lemma Expert_accepts:
  "Expert_resolve t = Inr parts \<Longrightarrow>
   world_size t div expert_parallel_size t \<noteq> 0 \<and>
   world_size t mod (world_size t div expert_parallel_size t) = 0 \<and>
   data_parallel_size t = expert_parallel_size t"
  by (simp add: Expert_resolve_def Initializer_Expert_init_def Let_def split: if_splits)

lemma Expert_size_le:
  assumes "0 < world_size t" "0 < expert_parallel_size t"
    and "world_size t div expert_parallel_size t \<noteq> 0"
  shows "expert_parallel_size t \<le> world_size t"
  using assms by (metis div_pos_pos_trivial less_imp_le not_le)

text \<open>The rules that evaluate the Python primitives on numerals.\<close>

lemmas eval_defs = py_range_def py_range3_def range_len_def upto.simps Let_def
  py_slice_def slice_bound_def py_zip_star_def positive_sizes_def eval_nat_numeral

section \<open>Coverage of the rank set\<close>

text \<open>
  C1 (as amended). Let all sizes of the topology be positive. Whenever the constructor of
  the Data, Model, Tensor, Pipeline or Expert initializer accepts the topology, the
  partitions it enumerates cover the ranks 0, ..., world_size - 1 exactly once: no rank
  is left out and none occurs twice. The same holds for Nettest if in addition world_size
  and nettest_parallel_size are below 2^53 (where its floating-point group count is
  exact), for Zero1 if in addition
  zero1_parallel_size divides data_parallel_size, and for both partition families of
  Expert_Data (the expert partitions and the expert-data partitions) if in addition
  world_size = pipeline_parallel_size * tensor_parallel_size * data_parallel_size and
  expert_parallel_size divides data_parallel_size. For Nettest the last partition may be
  shorter than the others.
\<close>

theorem partitions_cover_ranks:
  assumes "positive_sizes t"
  shows "(\<forall>parts. Data_resolve t = Inr parts \<longrightarrow> exact_cover (world_size t) parts) \<and>
         (\<forall>parts. Model_resolve t = Inr parts \<longrightarrow> exact_cover (world_size t) parts) \<and>
         (\<forall>parts. Tensor_resolve t = Inr parts \<longrightarrow> exact_cover (world_size t) parts) \<and>
         (\<forall>parts. Pipeline_resolve t = Inr parts \<longrightarrow> exact_cover (world_size t) parts) \<and>
         (\<forall>parts. Expert_resolve t = Inr parts \<longrightarrow> exact_cover (world_size t) parts) \<and>
         (\<forall>parts. Nettest_resolve t = Inr parts \<and>
              world_size t < 2 ^ 53 \<and> nettest_parallel_size t < 2 ^ 53 \<longrightarrow>
              exact_cover (world_size t) parts) \<and>
         (\<forall>parts. Zero1_resolve t = Inr parts \<and>
              data_parallel_size t mod zero1_parallel_size t = 0 \<longrightarrow>
              exact_cover (world_size t) parts) \<and>
         (\<forall>ep ed. Expert_Data_resolve t = Inr (ep, ed) \<and>
              world_size t = pipeline_parallel_size t * tensor_parallel_size t * data_parallel_size t \<and>
              data_parallel_size t mod expert_parallel_size t = 0 \<longrightarrow>
              exact_cover (world_size t) ep \<and> exact_cover (world_size t) ed)"
proof -
  have pos: "0 < world_size t" "0 < data_parallel_size t" "0 < pipeline_parallel_size t"
    "0 < tensor_parallel_size t" "0 < zero1_parallel_size t" "0 < nettest_parallel_size t"
    "0 < expert_parallel_size t"
    using assms by (simp_all add: positive_sizes_def)
  have data: "exact_cover (world_size t) parts" if "Data_resolve t = Inr parts" for parts
    using Data_cover[OF pos(1,2) Data_accepts[OF that]] that by auto
  have model: "exact_cover (world_size t) parts" if "Model_resolve t = Inr parts" for parts
    using Model_cover[OF pos(1,4,3) Model_accepts[OF that]] that by auto
  have tensor: "exact_cover (world_size t) parts" if "Tensor_resolve t = Inr parts" for parts
    using Tensor_cover[OF pos(1,4) Tensor_accepts[OF that]] that by auto
  have pipeline: "exact_cover (world_size t) parts" if "Pipeline_resolve t = Inr parts" for parts
    using Pipeline_cover[OF pos(1,2,3)] Pipeline_accepts[OF that] that by auto
  have nettest: "exact_cover (world_size t) parts" if "Nettest_resolve t = Inr parts" for parts
    using Nettest_cover[OF pos(1,6)] that by auto
  have expert: "exact_cover (world_size t) parts" if "Expert_resolve t = Inr parts" for parts
    using Expert_cover[OF pos(1,7) Expert_size_le[OF pos(1,7)]] Expert_accepts[OF that] that
    by auto
  have zero1: "exact_cover (world_size t) parts"
    if "Zero1_resolve t = Inr parts" "data_parallel_size t mod zero1_parallel_size t = 0" for parts
    using Zero1_cover[OF pos(1,2,5)] Zero1_accepts[OF that(1)] that by auto
  have expert_data: "exact_cover (world_size t) ep \<and> exact_cover (world_size t) ed"
    if "Expert_Data_resolve t = Inr (ep, ed)"
      "world_size t = pipeline_parallel_size t * tensor_parallel_size t * data_parallel_size t"
      "data_parallel_size t mod expert_parallel_size t = 0" for ep ed
    using Expert_Data_cover[OF pos(1,3,4,2,7) that(2,3)] that(1) by auto
  have c1: "\<forall>parts. Data_resolve t = Inr parts \<longrightarrow> exact_cover (world_size t) parts"
    by (intro allI impI) (rule data)
  have c2: "\<forall>parts. Model_resolve t = Inr parts \<longrightarrow> exact_cover (world_size t) parts"
    by (intro allI impI) (rule model)
  have c3: "\<forall>parts. Tensor_resolve t = Inr parts \<longrightarrow> exact_cover (world_size t) parts"
    by (intro allI impI) (rule tensor)
  have c4: "\<forall>parts. Pipeline_resolve t = Inr parts \<longrightarrow> exact_cover (world_size t) parts"
    by (intro allI impI) (rule pipeline)
  have c5: "\<forall>parts. Expert_resolve t = Inr parts \<longrightarrow> exact_cover (world_size t) parts"
    by (intro allI impI) (rule expert)
  have c6: "\<forall>parts. Nettest_resolve t = Inr parts \<and>
              world_size t < 2 ^ 53 \<and> nettest_parallel_size t < 2 ^ 53 \<longrightarrow>
              exact_cover (world_size t) parts"
  proof (intro allI impI)
    fix parts
    assume a: "Nettest_resolve t = Inr parts \<and>
              world_size t < 2 ^ 53 \<and> nettest_parallel_size t < 2 ^ 53"
    show "exact_cover (world_size t) parts"
      by (rule nettest[OF conjunct1[OF a]])
  qed
  have c7: "\<forall>parts. Zero1_resolve t = Inr parts \<and>
              data_parallel_size t mod zero1_parallel_size t = 0 \<longrightarrow>
              exact_cover (world_size t) parts"
  proof (intro allI impI)
    fix parts
    assume a: "Zero1_resolve t = Inr parts \<and> data_parallel_size t mod zero1_parallel_size t = 0"
    show "exact_cover (world_size t) parts"
      by (rule zero1[OF conjunct1[OF a] conjunct2[OF a]])
  qed
  have c8: "\<forall>ep ed. Expert_Data_resolve t = Inr (ep, ed) \<and>
              world_size t = pipeline_parallel_size t * tensor_parallel_size t * data_parallel_size t \<and>
              data_parallel_size t mod expert_parallel_size t = 0 \<longrightarrow>
              exact_cover (world_size t) ep \<and> exact_cover (world_size t) ed"
  proof (intro allI impI)
    fix ep ed
    assume a: "Expert_Data_resolve t = Inr (ep, ed) \<and>
              world_size t = pipeline_parallel_size t * tensor_parallel_size t * data_parallel_size t \<and>
              data_parallel_size t mod expert_parallel_size t = 0"
    show "exact_cover (world_size t) ep \<and> exact_cover (world_size t) ed"
      by (rule expert_data[OF conjunct1[OF a] conjunct1[OF conjunct2[OF a]]
            conjunct2[OF conjunct2[OF a]]])
  qed
  show ?thesis
    by (intro conjI c1 c2 c3 c4 c5 c6 c7 c8)
qed

text \<open>
  The theorem at world_size = 8 with data = 4, pipeline = 2, tensor = 1, zero1 = 2,
  nettest = 3 and expert = 4 (expert = 2 for Expert_Data); the Nettest partitions end
  with the truncated [6,7].
\<close>

theorem partitions_cover_ranks_witness:
  "positive_sizes \<lparr>rank = 0, world_size = 8, data_parallel_size = 4, pipeline_parallel_size = 2,
       tensor_parallel_size = 1, zero1_parallel_size = 2, nettest_parallel_size = 3,
       expert_parallel_size = 4\<rparr> \<and>
   Data_resolve \<lparr>rank = 0, world_size = 8, data_parallel_size = 4, pipeline_parallel_size = 2,
       tensor_parallel_size = 1, zero1_parallel_size = 2, nettest_parallel_size = 3,
       expert_parallel_size = 4\<rparr> = Inr [[0, 2, 4, 6], [1, 3, 5, 7]] \<and>
   exact_cover 8 [[0, 2, 4, 6], [1, 3, 5, 7]] \<and>
   Model_resolve \<lparr>rank = 0, world_size = 8, data_parallel_size = 4, pipeline_parallel_size = 2,
       tensor_parallel_size = 1, zero1_parallel_size = 2, nettest_parallel_size = 3,
       expert_parallel_size = 4\<rparr> = Inr [[0, 1], [2, 3], [4, 5], [6, 7]] \<and>
   exact_cover 8 [[0, 1], [2, 3], [4, 5], [6, 7]] \<and>
   Tensor_resolve \<lparr>rank = 0, world_size = 8, data_parallel_size = 4, pipeline_parallel_size = 2,
       tensor_parallel_size = 1, zero1_parallel_size = 2, nettest_parallel_size = 3,
       expert_parallel_size = 4\<rparr> = Inr [[0], [1], [2], [3], [4], [5], [6], [7]] \<and>
   exact_cover 8 [[0], [1], [2], [3], [4], [5], [6], [7]] \<and>
   Pipeline_resolve \<lparr>rank = 0, world_size = 8, data_parallel_size = 4, pipeline_parallel_size = 2,
       tensor_parallel_size = 1, zero1_parallel_size = 2, nettest_parallel_size = 3,
       expert_parallel_size = 4\<rparr> = Inr [[0, 1], [2, 3], [4, 5], [6, 7]] \<and>
   Nettest_resolve \<lparr>rank = 0, world_size = 8, data_parallel_size = 4, pipeline_parallel_size = 2,
       tensor_parallel_size = 1, zero1_parallel_size = 2, nettest_parallel_size = 3,
       expert_parallel_size = 4\<rparr> = Inr [[0, 1, 2], [3, 4, 5], [6, 7]] \<and>
   (8 :: int) < 2 ^ 53 \<and> (3 :: int) < 2 ^ 53 \<and>
   exact_cover 8 [[0, 1, 2], [3, 4, 5], [6, 7]] \<and>
   Expert_resolve \<lparr>rank = 0, world_size = 8, data_parallel_size = 4, pipeline_parallel_size = 2,
       tensor_parallel_size = 1, zero1_parallel_size = 2, nettest_parallel_size = 3,
       expert_parallel_size = 4\<rparr> = Inr [[0, 2, 4, 6], [1, 3, 5, 7]] \<and>
   Zero1_resolve \<lparr>rank = 0, world_size = 8, data_parallel_size = 4, pipeline_parallel_size = 2,
       tensor_parallel_size = 1, zero1_parallel_size = 2, nettest_parallel_size = 3,
       expert_parallel_size = 4\<rparr> = Inr [[0, 2], [4, 6], [1, 3], [5, 7]] \<and>
   (4 :: int) mod 2 = 0 \<and>
   exact_cover 8 [[0, 2], [4, 6], [1, 3], [5, 7]] \<and>
   positive_sizes \<lparr>rank = 0, world_size = 8, data_parallel_size = 4, pipeline_parallel_size = 2,
       tensor_parallel_size = 1, zero1_parallel_size = 2, nettest_parallel_size = 3,
       expert_parallel_size = 2\<rparr> \<and>
   Expert_Data_resolve \<lparr>rank = 0, world_size = 8, data_parallel_size = 4,
       pipeline_parallel_size = 2, tensor_parallel_size = 1, zero1_parallel_size = 2,
       nettest_parallel_size = 3, expert_parallel_size = 2\<rparr>
     = Inr ([[0, 2], [4, 6], [1, 3], [5, 7]], [[0, 4], [2, 6], [1, 5], [3, 7]]) \<and>
   (8 :: int) = 2 * 1 * 4 \<and> (4 :: int) mod 2 = 0 \<and>
   exact_cover 8 [[0, 4], [2, 6], [1, 5], [3, 7]]"
proof -
  let ?t = "\<lparr>rank = 0, world_size = 8, data_parallel_size = 4, pipeline_parallel_size = 2,
       tensor_parallel_size = 1, zero1_parallel_size = 2, nettest_parallel_size = 3,
       expert_parallel_size = 4 :: int\<rparr>"
  let ?u = "\<lparr>rank = 0, world_size = 8, data_parallel_size = 4, pipeline_parallel_size = 2,
       tensor_parallel_size = 1, zero1_parallel_size = 2, nettest_parallel_size = 3,
       expert_parallel_size = 2 :: int\<rparr>"
  have pt: "positive_sizes ?t" and pu: "positive_sizes ?u"
    by (simp_all add: positive_sizes_def)
  have d: "Data_resolve ?t = Inr [[0, 2, 4, 6], [1, 3, 5, 7]]"
    by (simp add: Data_resolve_def Initializer_Data_init_def Data_ranks_def eval_defs)
  have m: "Model_resolve ?t = Inr [[0, 1], [2, 3], [4, 5], [6, 7]]"
    by (simp add: Model_resolve_def Initializer_Model_init_def Model_ranks_def eval_defs)
  have te: "Tensor_resolve ?t = Inr [[0], [1], [2], [3], [4], [5], [6], [7]]"
    by (simp add: Tensor_resolve_def Initializer_Tensor_init_def Tensor_ranks_def eval_defs)
  have p: "Pipeline_resolve ?t = Inr [[0, 1], [2, 3], [4, 5], [6, 7]]"
    by (simp add: Pipeline_resolve_def Initializer_Pipeline_init_def Pipeline_ranks_def eval_defs)
  have n: "Nettest_resolve ?t = Inr [[0, 1, 2], [3, 4, 5], [6, 7]]"
    by (simp add: Nettest_resolve_def Initializer_Nettest_init_def Nettest_ranks_def eval_defs)
  have e: "Expert_resolve ?t = Inr [[0, 2, 4, 6], [1, 3, 5, 7]]"
    by (simp add: Expert_resolve_def Initializer_Expert_init_def Expert_ranks_def eval_defs)
  have z: "Zero1_resolve ?t = Inr [[0, 2], [4, 6], [1, 3], [5, 7]]"
    by (simp add: Zero1_resolve_def Initializer_Zero1_init_def Zero1_ranks_def eval_defs)
  have ed: "Expert_Data_resolve ?u
     = Inr ([[0, 2], [4, 6], [1, 3], [5, 7]], [[0, 4], [2, 6], [1, 5], [3, 7]])"
    by (simp add: Expert_Data_resolve_def Initializer_Expert_Data_init_def
        get_expert_parallel_ranks_def data_parallel_groups_def part_ep_group_def eval_defs)
  note T = partitions_cover_ranks[OF pt] and U = partitions_cover_ranks[OF pu]
  have "exact_cover 8 [[0, 2, 4, 6], [1, 3, 5, 7]]" using T d by simp
  moreover have "exact_cover 8 [[0, 1], [2, 3], [4, 5], [6, 7]]" using T m by simp
  moreover have "exact_cover 8 [[0], [1], [2], [3], [4], [5], [6], [7]]" using T te by simp
  moreover have "exact_cover 8 [[0, 1, 2], [3, 4, 5], [6, 7]]" using T n by simp
  moreover have "exact_cover 8 [[0, 2], [4, 6], [1, 3], [5, 7]]" using T z by simp
  moreover have "exact_cover 8 [[0, 4], [2, 6], [1, 5], [3, 7]]" using U ed by simp
  ultimately show ?thesis
    using pt pu d m te p n e z ed by simp
qed

text \<open>
  Without the additional conditions the claim fails. Zero1 accepts world_size = 12,
  data = 4, zero1 = 3 (its assertions test world_size against both sizes, not the sizes
  against each other) and leaves the ranks 9, 10, 11 out. Expert_Data, whose constructor
  asserts nothing, leaves the ranks 4 to 7 out for world_size = 8, pipeline * tensor = 2,
  data = expert = 2.
\<close>

theorem partitions_cover_ranks_counterexample:
  "positive_sizes \<lparr>rank = 0, world_size = 12, data_parallel_size = 4, pipeline_parallel_size = 1,
       tensor_parallel_size = 1, zero1_parallel_size = 3, nettest_parallel_size = 4,
       expert_parallel_size = 4\<rparr> \<and>
   Zero1_resolve \<lparr>rank = 0, world_size = 12, data_parallel_size = 4, pipeline_parallel_size = 1,
       tensor_parallel_size = 1, zero1_parallel_size = 3, nettest_parallel_size = 4,
       expert_parallel_size = 4\<rparr> = Inr [[0, 3, 6], [1, 4, 7], [2, 5, 8]] \<and>
   \<not> exact_cover 12 [[0, 3, 6], [1, 4, 7], [2, 5, 8]] \<and>
   positive_sizes \<lparr>rank = 0, world_size = 8, data_parallel_size = 2, pipeline_parallel_size = 2,
       tensor_parallel_size = 1, zero1_parallel_size = 1, nettest_parallel_size = 4,
       expert_parallel_size = 2\<rparr> \<and>
   Expert_Data_resolve \<lparr>rank = 0, world_size = 8, data_parallel_size = 2,
       pipeline_parallel_size = 2, tensor_parallel_size = 1, zero1_parallel_size = 1,
       nettest_parallel_size = 4, expert_parallel_size = 2\<rparr>
     = Inr ([[0, 2], [1, 3]], [[0], [2], [1], [3]]) \<and>
   \<not> exact_cover 8 [[0, 2], [1, 3]] \<and> \<not> exact_cover 8 [[0], [2], [1], [3]]"
proof -
  have out: "\<not> exact_cover n parts" if "x \<in> {0..<n}" "x \<notin> set (concat parts)" for x n parts
    using that by (auto simp: exact_cover_def)
  have "\<not> exact_cover 12 [[0, 3, 6], [1, 4, 7], [2, 5, 8]]"
    by (rule out[of 9]) simp_all
  moreover have "\<not> exact_cover 8 [[0, 2], [1, 3]]"
    by (rule out[of 7]) simp_all
  moreover have "\<not> exact_cover 8 [[0], [2], [1], [3]]"
    by (rule out[of 7]) simp_all
  ultimately show ?thesis
    by (simp add: Zero1_resolve_def Initializer_Zero1_init_def Zero1_ranks_def
        Expert_Data_resolve_def Initializer_Expert_Data_init_def
        get_expert_parallel_ranks_def data_parallel_groups_def part_ep_group_def eval_defs)
qed

lemma Expert_resolve_formula:
  assumes "positive_sizes t" "Expert_resolve t = Inr parts"
  shows "parts = map (\<lambda>i. map (\<lambda>k. i + k * (world_size t div expert_parallel_size t))
                  (py_range (world_size t div (world_size t div expert_parallel_size t))))
           (py_range (world_size t div expert_parallel_size t))"
proof -
  let ?g = "world_size t div expert_parallel_size t"
  have pos: "0 < world_size t" "0 < expert_parallel_size t"
    using assms(1) by (simp_all add: positive_sizes_def)
  note acc = Expert_accepts[OF assms(2)]
  have g: "0 < ?g"
    using pos Expert_size_le[OF pos] acc by (simp add: pos_imp_zdiv_pos_iff)
  have "parts = map (\<lambda>i. py_range3 i (world_size t) ?g) (py_range ?g)"
    using assms(2) by (simp add: Expert_resolve_def Initializer_Expert_init_def Expert_ranks_def
        Let_def split: if_splits)
  then show ?thesis
    using Expert_ranks_eq[OF pos(1) g] acc by simp
qed

section \<open>The group loops\<close>

lemma create_groups_eq:
  "create_groups u ranks tr =
     ((length (created tr),
       if u then (if backend tr \<noteq> ''gloo'' then Some (Suc (length (created tr)))
                  else Some (length (created tr)))
       else None),
      tr\<lparr>created := created tr @ iteration_log u (backend tr) ranks\<rparr>)"
  by (simp add: create_groups_def new_group_def iteration_log_def)

lemma group_loop_snoc:
  "group_loop r u (parts @ [p]) tr = group_step r u p (group_loop r u parts tr)"
  by (simp add: group_loop_def)

lemma group_step_snd:
  "snd (group_step r u p st) = (snd st)\<lparr>created := created (snd st) @ iteration_log u (backend (snd st)) p\<rparr>"
  by (simp add: group_step_def create_groups_eq)

lemma group_loop_snd:
  "snd (group_loop r u parts tr)
     = tr\<lparr>created := created tr @ concat (map (iteration_log u (backend tr)) parts)\<rparr>"
proof (induction parts rule: rev_induct)
  case Nil
  show ?case by (simp add: group_loop_def)
next
  case (snoc p parts)
  show ?case
    unfolding group_loop_snoc group_step_snd snoc.IH by simp
qed

lemma primary_iteration_log:
  "map fst (filter (\<lambda>c. snd c = None) (concat (map (iteration_log u be) parts))) = parts"
  by (induction parts) (simp_all add: iteration_log_def)

lemma primary_calls_group_loop:
  "primary_calls tr (snd (group_loop r u parts tr)) = parts"
  by (simp add: primary_calls_def group_loop_snd primary_iteration_log)

lemma py_index_in:
  "x \<in> set xs \<Longrightarrow> index_in xs x (py_index xs x)"
proof -
  assume x: "x \<in> set xs"
  let ?k = "length (takeWhile (\<lambda>y. y \<noteq> x) xs)"
  have "?k \<noteq> length xs"
  proof
    assume "?k = length xs"
    then have "takeWhile (\<lambda>y. y \<noteq> x) xs = xs"
      using takeWhile_eq_take[of "\<lambda>y. y \<noteq> x" xs] by simp
    then show False using x by auto
  qed
  then have k: "?k < length xs"
    using length_takeWhile_le[of "\<lambda>y. y \<noteq> x" xs] by linarith
  have "xs ! ?k = x" using k nth_length_takeWhile[of "\<lambda>y. y \<noteq> x" xs] by blast
  moreover have "take ?k xs = takeWhile (\<lambda>y. y \<noteq> x) xs"
    by (metis takeWhile_eq_take)
  then have "x \<notin> set (take ?k xs)" using set_takeWhileD by fastforce
  ultimately show ?thesis using k by (simp add: index_in_def py_index_def)
qed

lemma group_loop_backend: "backend (snd (group_loop r u parts tr)) = backend tr"
  by (simp add: group_loop_snd)

lemma group_loop_fst:
  fixes r u parts tr
  defines "res \<equiv> group_loop r u parts tr"
  shows "(fst res = no_group \<and> r \<notin> set (concat parts)) \<or>
         (\<exists>p h. fst res = \<lparr>local_rank = Some (py_index p r),
                            group_world_size = Some (int (length p)),
                            process_group = Some h,
                            cpu_group = (if u then (if backend tr \<noteq> ''gloo'' then Some (Suc h)
                                                    else Some h) else None),
                            ranks_in_group = Some p\<rparr> \<and>
                p \<in> set parts \<and> r \<in> set p \<and>
                h < length (created (snd res)) \<and> created (snd res) ! h = (p, None) \<and>
                (u \<and> backend tr \<noteq> ''gloo'' \<longrightarrow>
                   Suc h < length (created (snd res)) \<and>
                   created (snd res) ! Suc h = (p, Some ''gloo'')))"
  unfolding res_def
proof (induction parts rule: rev_induct)
  case Nil
  show ?case by (simp add: group_loop_def)
next
  case (snoc q parts)
  let ?mid = "group_loop r u parts tr"
  let ?new = "group_step r u q ?mid"
  have be: "backend (snd ?mid) = backend tr" by (rule group_loop_backend)
  have log: "created (snd ?new) = created (snd ?mid) @ iteration_log u (backend tr) q"
    by (simp add: group_step_snd be)
  show ?case
  proof (cases "r \<in> set q")
    case True
    let ?h = "length (created (snd ?mid))"
    have "fst ?new = \<lparr>local_rank = Some (py_index q r),
                            group_world_size = Some (int (length q)),
                            process_group = Some ?h,
                            cpu_group = (if u then (if backend tr \<noteq> ''gloo'' then Some (Suc ?h)
                                                    else Some ?h) else None),
                            ranks_in_group = Some q\<rparr>"
      using True by (simp add: group_step_def create_groups_eq group_loop_backend)
    moreover have "?h < length (created (snd ?new))" "created (snd ?new) ! ?h = (q, None)"
      unfolding log by (simp_all add: iteration_log_def)
    moreover have "u \<and> backend tr \<noteq> ''gloo'' \<longrightarrow>
                   Suc ?h < length (created (snd ?new)) \<and>
                   created (snd ?new) ! Suc ?h = (q, Some ''gloo'')"
      unfolding log by (auto simp: iteration_log_def nth_append)
    ultimately show ?thesis
      unfolding group_loop_snoc using True by (intro disjI2 exI[of _ q] exI[of _ ?h]) simp
  next
    case False
    then have fst: "fst ?new = fst ?mid"
      by (simp add: group_step_def create_groups_eq)
    from snoc.IH show ?thesis
    proof
      assume "fst ?mid = no_group \<and> r \<notin> set (concat parts)"
      then show ?thesis unfolding group_loop_snoc using False fst by simp
    next
      assume "\<exists>p h. fst ?mid = \<lparr>local_rank = Some (py_index p r),
                            group_world_size = Some (int (length p)),
                            process_group = Some h,
                            cpu_group = (if u then (if backend tr \<noteq> ''gloo'' then Some (Suc h)
                                                    else Some h) else None),
                            ranks_in_group = Some p\<rparr> \<and>
                p \<in> set parts \<and> r \<in> set p \<and>
                h < length (created (snd ?mid)) \<and> created (snd ?mid) ! h = (p, None) \<and>
                (u \<and> backend tr \<noteq> ''gloo'' \<longrightarrow>
                   Suc h < length (created (snd ?mid)) \<and>
                   created (snd ?mid) ! Suc h = (p, Some ''gloo''))"
      then obtain p h where ph: "fst ?mid = \<lparr>local_rank = Some (py_index p r),
                            group_world_size = Some (int (length p)),
                            process_group = Some h,
                            cpu_group = (if u then (if backend tr \<noteq> ''gloo'' then Some (Suc h)
                                                    else Some h) else None),
                            ranks_in_group = Some p\<rparr>"
        "p \<in> set parts" "r \<in> set p"
        "h < length (created (snd ?mid))" "created (snd ?mid) ! h = (p, None)"
        "u \<and> backend tr \<noteq> ''gloo'' \<longrightarrow>
                   Suc h < length (created (snd ?mid)) \<and>
                   created (snd ?mid) ! Suc h = (p, Some ''gloo'')"
        by blast
      have "h < length (created (snd ?new))" "created (snd ?new) ! h = (p, None)"
        unfolding log using ph(4,5) by (simp_all add: nth_append)
      moreover have "u \<and> backend tr \<noteq> ''gloo'' \<longrightarrow>
                   Suc h < length (created (snd ?new)) \<and>
                   created (snd ?new) ! Suc h = (p, Some ''gloo'')"
        unfolding log using ph(6) by (auto simp: nth_append)
      ultimately show ?thesis
        unfolding group_loop_snoc using fst ph(1,2,3)
        by (intro disjI2 exI[of _ p] exI[of _ h]) simp
    qed
  qed
qed

lemma group_loop_member:
  assumes "r \<in> set (concat parts)"
  shows "member_info r parts (fst (group_loop r u parts tr))"
proof -
  from group_loop_fst[of r u parts tr] assms
  obtain p h where ph: "fst (group_loop r u parts tr) = \<lparr>local_rank = Some (py_index p r),
                            group_world_size = Some (int (length p)),
                            process_group = Some h,
                            cpu_group = (if u then (if backend tr \<noteq> ''gloo'' then Some (Suc h)
                                                    else Some h) else None),
                            ranks_in_group = Some p\<rparr>"
      "p \<in> set parts" "r \<in> set p"
    by blast
  show ?thesis
    unfolding member_info_def ph(1) using ph(2,3) py_index_in[OF ph(3)] by simp
qed

lemma group_loop_not_member:
  assumes "r \<notin> set (concat parts)"
  shows "fst (group_loop r u parts tr) = no_group"
  using group_loop_fst[of r u parts tr] assms by auto

lemma group_loop_fallback:
  assumes "r \<in> set (concat parts)"
  shows "fallback_handle_ok (snd (group_loop r True parts tr)) (fst (group_loop r True parts tr))"
proof -
  let ?res = "group_loop r True parts tr"
  from group_loop_fst[of r True parts tr] assms
  obtain p h where ph: "fst ?res = \<lparr>local_rank = Some (py_index p r),
                            group_world_size = Some (int (length p)),
                            process_group = Some h,
                            cpu_group = (if True then (if backend tr \<noteq> ''gloo'' then Some (Suc h)
                                                    else Some h) else None),
                            ranks_in_group = Some p\<rparr>"
      "h < length (created (snd ?res))" "created (snd ?res) ! h = (p, None)"
      "True \<and> backend tr \<noteq> ''gloo'' \<longrightarrow>
                   Suc h < length (created (snd ?res)) \<and>
                   created (snd ?res) ! Suc h = (p, Some ''gloo'')"
    by blast
  show ?thesis
    unfolding fallback_handle_ok_def ph(1) using ph(2,3,4)
    by (simp add: group_loop_backend)
qed

lemma group_loop_no_cpu:
  "cpu_group (fst (group_loop r False parts tr)) = None"
  using group_loop_fst[of r False parts tr] by (auto simp: no_group_def)

lemma fallback_handle_ok_mono:
  assumes "fallback_handle_ok tr1 info" "backend tr2 = backend tr1"
    and "created tr2 = created tr1 @ xs"
  shows "fallback_handle_ok tr2 info"
  using assms by (auto simp: fallback_handle_ok_def nth_append split: option.splits if_splits)

lemma member_info_mono:
  "member_info r parts info \<Longrightarrow> member_info r (parts @ qs) info"
  by (auto simp: member_info_def split: option.splits)

lemma member_info_mono2:
  "member_info r parts info \<Longrightarrow> member_info r (qs @ parts) info"
  by (auto simp: member_info_def split: option.splits)

lemma expert_step_snd:
  "snd (expert_step r u m p st)
     = (snd st)\<lparr>created := created (snd st) @ iteration_log u (backend (snd st)) p\<rparr>"
  by (simp add: expert_step_def create_groups_eq)

lemma expert_step_fst_in:
  "r \<in> set q \<Longrightarrow> fst (expert_step r u m q st)
     = fst st @ [(\<lparr>local_rank = Some (py_index q r),
                  group_world_size = Some (int (length q)),
                  process_group = Some (length (created (snd st))),
                  cpu_group = (if u then (if backend (snd st) \<noteq> ''gloo''
                                          then Some (Suc (length (created (snd st))))
                                          else Some (length (created (snd st)))) else None),
                  ranks_in_group = Some q\<rparr>, m)]"
  by (simp add: expert_step_def create_groups_eq)

lemma expert_step_fst_out:
  "r \<notin> set q \<Longrightarrow> fst (expert_step r u m q st) = fst st"
  by (simp add: expert_step_def create_groups_eq)

lemma expert_loop_snd:
  "snd (foldl (\<lambda>st ranks. expert_step r u m ranks st) st0 parts)
     = (snd st0)\<lparr>created := created (snd st0) @ concat (map (iteration_log u (backend (snd st0))) parts)\<rparr>"
proof (induction parts rule: rev_induct)
  case Nil
  show ?case by simp
next
  case (snoc p parts)
  show ?case
    unfolding foldl_append foldl.simps expert_step_snd snoc.IH by simp
qed

lemma expert_loop_fst:
  fixes r u m st0 parts
  defines "res \<equiv> foldl (\<lambda>st ranks. expert_step r u m ranks st) st0 parts"
  shows "\<exists>new. fst res = fst st0 @ new \<and>
           map (\<lambda>e. ranks_in_group (fst e)) new = map Some (filter (\<lambda>p. r \<in> set p) parts) \<and>
           (\<forall>e \<in> set new. snd e = m \<and> member_info r parts (fst e) \<and>
                (if u then fallback_handle_ok (snd res) (fst e) else cpu_group (fst e) = None))"
  unfolding res_def
proof (induction parts rule: rev_induct)
  case Nil
  show ?case by simp
next
  case (snoc q parts)
  let ?mid = "foldl (\<lambda>st ranks. expert_step r u m ranks st) st0 parts"
  let ?new = "expert_step r u m q ?mid"
  have step: "foldl (\<lambda>st ranks. expert_step r u m ranks st) st0 (parts @ [q]) = ?new" by simp
  have be: "backend (snd ?new) = backend (snd ?mid)" by (simp add: expert_step_snd)
  have log: "created (snd ?new) = created (snd ?mid) @ iteration_log u (backend (snd ?mid)) q"
    by (simp add: expert_step_snd)
  from snoc.IH obtain new where new: "fst ?mid = fst st0 @ new"
    "map (\<lambda>e. ranks_in_group (fst e)) new = map Some (filter (\<lambda>p. r \<in> set p) parts)"
    "\<forall>e \<in> set new. snd e = m \<and> member_info r parts (fst e) \<and>
        (if u then fallback_handle_ok (snd ?mid) (fst e) else cpu_group (fst e) = None)"
    by blast
  have old: "snd e = m \<and> member_info r (parts @ [q]) (fst e) \<and>
        (if u then fallback_handle_ok (snd ?new) (fst e) else cpu_group (fst e) = None)"
    if "e \<in> set new" for e
    using new(3) that member_info_mono[of r parts "fst e" "[q]"]
      fallback_handle_ok_mono[OF _ be log, of "fst e"] by auto
  show ?case
  proof (cases "r \<in> set q")
    case False
    then have 1: "fst ?new = fst st0 @ new"
      using new(1) expert_step_fst_out[of r q u m ?mid] by simp
    have 2: "map (\<lambda>e. ranks_in_group (fst e)) new
           = map Some (filter (\<lambda>p. r \<in> set p) (parts @ [q]))"
      using False new(2) by simp
    have 3: "\<forall>e \<in> set new. snd e = m \<and> member_info r (parts @ [q]) (fst e) \<and>
        (if u then fallback_handle_ok (snd ?new) (fst e) else cpu_group (fst e) = None)"
      using old by blast
    show ?thesis
      unfolding step by (rule exI[of _ new]) (intro conjI 1 2 3)
  next
    case True
    let ?h = "length (created (snd ?mid))"
    let ?info = "\<lparr>local_rank = Some (py_index q r),
                  group_world_size = Some (int (length q)),
                  process_group = Some ?h,
                  cpu_group = (if u then (if backend (snd ?mid) \<noteq> ''gloo'' then Some (Suc ?h)
                                          else Some ?h) else None),
                  ranks_in_group = Some q\<rparr>"
    have 1: "fst ?new = fst st0 @ (new @ [(?info, m)])"
      using new(1) expert_step_fst_in[OF True, of u m ?mid] by simp
    have 2: "map (\<lambda>e. ranks_in_group (fst e)) (new @ [(?info, m)])
           = map Some (filter (\<lambda>p. r \<in> set p) (parts @ [q]))"
      using True new(2) by simp
    have mi: "member_info r (parts @ [q]) ?info"
      using True py_index_in[OF True] by (simp add: member_info_def)
    have fb: "if u then fallback_handle_ok (snd ?new) ?info else cpu_group ?info = None"
      unfolding fallback_handle_ok_def be log
      by (auto simp: iteration_log_def nth_append)
    have 3: "\<forall>e \<in> set (new @ [(?info, m)]). snd e = m \<and> member_info r (parts @ [q]) (fst e) \<and>
        (if u then fallback_handle_ok (snd ?new) (fst e) else cpu_group (fst e) = None)"
    proof
      fix e assume "e \<in> set (new @ [(?info, m)])"
      then consider "e \<in> set new" | "e = (?info, m)" by auto
      then show "snd e = m \<and> member_info r (parts @ [q]) (fst e) \<and>
        (if u then fallback_handle_ok (snd ?new) (fst e) else cpu_group (fst e) = None)"
      proof cases
        case 1
        then show ?thesis by (rule old)
      next
        case 2
        show ?thesis unfolding 2 fst_conv snd_conv by (intro conjI refl mi fb)
      qed
    qed
    show ?thesis
      unfolding step by (rule exI[of _ "new @ [(?info, m)]"]) (intro conjI 1 2 3)
  qed
qed

lemma Data_self:
  "Initializer_Data_init t = Inr self \<Longrightarrow> data_self self = t"
  by (auto simp: Initializer_Data_init_def Let_def split: if_splits)

lemma Data_run_ok:
  assumes "Data_resolve t = Inr parts"
  shows "Data_run t u tr = (Inr (fst (group_loop (rank t) u parts tr), DATA),
                           snd (group_loop (rank t) u parts tr))"
proof -
  from assms obtain self where s: "Initializer_Data_init t = Inr self" "parts = Data_ranks self"
    by (auto simp: Data_resolve_def split: sum.splits)
  show ?thesis
    by (simp add: Data_run_def s Data_init_dist_group_def Data_self[OF s(1)] split_beta)
qed

lemma Data_run_error:
  "Data_resolve t = Inl e \<Longrightarrow> Data_run t u tr = (Inl e, tr)"
  by (auto simp: Data_resolve_def Data_run_def split: sum.splits)

lemma Data_resolve_rank:
  "Data_resolve (t\<lparr>rank := r\<rparr>) = Data_resolve t"
  by (simp add: Data_resolve_def Initializer_Data_init_def Data_ranks_def Let_def)

lemma Data_primary_calls:
  "primary_calls tr (snd (Data_run t u tr))
     = (case Data_resolve t of Inl e \<Rightarrow> [] | Inr parts \<Rightarrow> parts)"
proof (cases "Data_resolve t")
  case (Inl e)
  then show ?thesis by (simp add: Data_run_error primary_calls_def)
next
  case (Inr parts)
  then show ?thesis by (simp add: Data_run_ok primary_calls_group_loop)
qed

lemma Model_self:
  "Initializer_Model_init t = Inr self \<Longrightarrow> model_self self = t"
  by (auto simp: Initializer_Model_init_def Let_def split: if_splits)

lemma Model_run_ok:
  assumes "Model_resolve t = Inr parts"
  shows "Model_run t u tr = (Inr (fst (group_loop (rank t) u parts tr), MODEL),
                           snd (group_loop (rank t) u parts tr))"
proof -
  from assms obtain self where s: "Initializer_Model_init t = Inr self" "parts = Model_ranks self"
    by (auto simp: Model_resolve_def split: sum.splits)
  show ?thesis
    by (simp add: Model_run_def s Model_init_dist_group_def Model_self[OF s(1)] split_beta)
qed

lemma Model_run_error:
  "Model_resolve t = Inl e \<Longrightarrow> Model_run t u tr = (Inl e, tr)"
  by (auto simp: Model_resolve_def Model_run_def split: sum.splits)

lemma Model_resolve_rank:
  "Model_resolve (t\<lparr>rank := r\<rparr>) = Model_resolve t"
  by (simp add: Model_resolve_def Initializer_Model_init_def Model_ranks_def Let_def)

lemma Model_primary_calls:
  "primary_calls tr (snd (Model_run t u tr))
     = (case Model_resolve t of Inl e \<Rightarrow> [] | Inr parts \<Rightarrow> parts)"
proof (cases "Model_resolve t")
  case (Inl e)
  then show ?thesis by (simp add: Model_run_error primary_calls_def)
next
  case (Inr parts)
  then show ?thesis by (simp add: Model_run_ok primary_calls_group_loop)
qed

lemma Pipeline_self:
  "Initializer_Pipeline_init t = Inr self \<Longrightarrow> pipeline_self self = t"
  by (auto simp: Initializer_Pipeline_init_def Let_def split: if_splits)

lemma Pipeline_run_ok:
  assumes "Pipeline_resolve t = Inr parts"
  shows "Pipeline_run t u tr = (Inr (fst (group_loop (rank t) u parts tr), PIPELINE),
                           snd (group_loop (rank t) u parts tr))"
proof -
  from assms obtain self where s: "Initializer_Pipeline_init t = Inr self" "parts = Pipeline_ranks self"
    by (auto simp: Pipeline_resolve_def split: sum.splits)
  show ?thesis
    by (simp add: Pipeline_run_def s Pipeline_init_dist_group_def Pipeline_self[OF s(1)] split_beta)
qed

lemma Pipeline_run_error:
  "Pipeline_resolve t = Inl e \<Longrightarrow> Pipeline_run t u tr = (Inl e, tr)"
  by (auto simp: Pipeline_resolve_def Pipeline_run_def split: sum.splits)

lemma Pipeline_resolve_rank:
  "Pipeline_resolve (t\<lparr>rank := r\<rparr>) = Pipeline_resolve t"
  by (simp add: Pipeline_resolve_def Initializer_Pipeline_init_def Pipeline_ranks_def Let_def)

lemma Pipeline_primary_calls:
  "primary_calls tr (snd (Pipeline_run t u tr))
     = (case Pipeline_resolve t of Inl e \<Rightarrow> [] | Inr parts \<Rightarrow> parts)"
proof (cases "Pipeline_resolve t")
  case (Inl e)
  then show ?thesis by (simp add: Pipeline_run_error primary_calls_def)
next
  case (Inr parts)
  then show ?thesis by (simp add: Pipeline_run_ok primary_calls_group_loop)
qed

lemma Tensor_self:
  "Initializer_Tensor_init t = Inr self \<Longrightarrow> tensor_self self = t"
  by (auto simp: Initializer_Tensor_init_def Let_def split: if_splits)

lemma Tensor_run_ok:
  assumes "Tensor_resolve t = Inr parts"
  shows "Tensor_run t u tr = (Inr (fst (group_loop (rank t) u parts tr), TENSOR),
                           snd (group_loop (rank t) u parts tr))"
proof -
  from assms obtain self where s: "Initializer_Tensor_init t = Inr self" "parts = Tensor_ranks self"
    by (auto simp: Tensor_resolve_def split: sum.splits)
  show ?thesis
    by (simp add: Tensor_run_def s Tensor_init_dist_group_def Tensor_self[OF s(1)] split_beta)
qed

lemma Tensor_run_error:
  "Tensor_resolve t = Inl e \<Longrightarrow> Tensor_run t u tr = (Inl e, tr)"
  by (auto simp: Tensor_resolve_def Tensor_run_def split: sum.splits)

lemma Tensor_resolve_rank:
  "Tensor_resolve (t\<lparr>rank := r\<rparr>) = Tensor_resolve t"
  by (simp add: Tensor_resolve_def Initializer_Tensor_init_def Tensor_ranks_def Let_def)

lemma Tensor_primary_calls:
  "primary_calls tr (snd (Tensor_run t u tr))
     = (case Tensor_resolve t of Inl e \<Rightarrow> [] | Inr parts \<Rightarrow> parts)"
proof (cases "Tensor_resolve t")
  case (Inl e)
  then show ?thesis by (simp add: Tensor_run_error primary_calls_def)
next
  case (Inr parts)
  then show ?thesis by (simp add: Tensor_run_ok primary_calls_group_loop)
qed

lemma Zero1_self:
  "Initializer_Zero1_init t = Inr self \<Longrightarrow> zero1_self self = t"
  by (auto simp: Initializer_Zero1_init_def Let_def split: if_splits)

lemma Zero1_run_ok:
  assumes "Zero1_resolve t = Inr parts"
  shows "Zero1_run t u tr = (Inr (fst (group_loop (rank t) u parts tr), ZERO1),
                           snd (group_loop (rank t) u parts tr))"
proof -
  from assms obtain self where s: "Initializer_Zero1_init t = Inr self" "parts = Zero1_ranks self"
    by (auto simp: Zero1_resolve_def split: sum.splits)
  show ?thesis
    by (simp add: Zero1_run_def s Zero1_init_dist_group_def Zero1_self[OF s(1)] split_beta)
qed

lemma Zero1_run_error:
  "Zero1_resolve t = Inl e \<Longrightarrow> Zero1_run t u tr = (Inl e, tr)"
  by (auto simp: Zero1_resolve_def Zero1_run_def split: sum.splits)

lemma Zero1_resolve_rank:
  "Zero1_resolve (t\<lparr>rank := r\<rparr>) = Zero1_resolve t"
  by (simp add: Zero1_resolve_def Initializer_Zero1_init_def Zero1_ranks_def Let_def)

lemma Zero1_primary_calls:
  "primary_calls tr (snd (Zero1_run t u tr))
     = (case Zero1_resolve t of Inl e \<Rightarrow> [] | Inr parts \<Rightarrow> parts)"
proof (cases "Zero1_resolve t")
  case (Inl e)
  then show ?thesis by (simp add: Zero1_run_error primary_calls_def)
next
  case (Inr parts)
  then show ?thesis by (simp add: Zero1_run_ok primary_calls_group_loop)
qed

lemma Nettest_self:
  "Initializer_Nettest_init t = Inr self \<Longrightarrow> nettest_self self = t"
  by (auto simp: Initializer_Nettest_init_def Let_def split: if_splits)

lemma Nettest_run_ok:
  assumes "Nettest_resolve t = Inr parts"
  shows "Nettest_run t u tr = (Inr (fst (group_loop (rank t) u parts tr), NETTEST),
                           snd (group_loop (rank t) u parts tr))"
proof -
  from assms obtain self where s: "Initializer_Nettest_init t = Inr self" "parts = Nettest_ranks self"
    by (auto simp: Nettest_resolve_def split: sum.splits)
  show ?thesis
    by (simp add: Nettest_run_def s Nettest_init_dist_group_def Nettest_self[OF s(1)] split_beta)
qed

lemma Nettest_run_error:
  "Nettest_resolve t = Inl e \<Longrightarrow> Nettest_run t u tr = (Inl e, tr)"
  by (auto simp: Nettest_resolve_def Nettest_run_def split: sum.splits)

lemma Nettest_resolve_rank:
  "Nettest_resolve (t\<lparr>rank := r\<rparr>) = Nettest_resolve t"
  by (simp add: Nettest_resolve_def Initializer_Nettest_init_def Nettest_ranks_def Let_def)

lemma Nettest_primary_calls:
  "primary_calls tr (snd (Nettest_run t u tr))
     = (case Nettest_resolve t of Inl e \<Rightarrow> [] | Inr parts \<Rightarrow> parts)"
proof (cases "Nettest_resolve t")
  case (Inl e)
  then show ?thesis by (simp add: Nettest_run_error primary_calls_def)
next
  case (Inr parts)
  then show ?thesis by (simp add: Nettest_run_ok primary_calls_group_loop)
qed

lemma Expert_self:
  "Initializer_Expert_init t = Inr self \<Longrightarrow> expert_self self = t"
  by (auto simp: Initializer_Expert_init_def Let_def split: if_splits)

lemma Expert_run_ok:
  assumes "Expert_resolve t = Inr parts"
  shows "Expert_run t u tr = (Inr (fst (group_loop (rank t) u parts tr), EXPERT),
                           snd (group_loop (rank t) u parts tr))"
proof -
  from assms obtain self where s: "Initializer_Expert_init t = Inr self" "parts = Expert_ranks self"
    by (auto simp: Expert_resolve_def split: sum.splits)
  show ?thesis
    by (simp add: Expert_run_def s Expert_init_dist_group_def Expert_self[OF s(1)] split_beta)
qed

lemma Expert_run_error:
  "Expert_resolve t = Inl e \<Longrightarrow> Expert_run t u tr = (Inl e, tr)"
  by (auto simp: Expert_resolve_def Expert_run_def split: sum.splits)

lemma Expert_resolve_rank:
  "Expert_resolve (t\<lparr>rank := r\<rparr>) = Expert_resolve t"
  by (simp add: Expert_resolve_def Initializer_Expert_init_def Expert_ranks_def Let_def)

lemma Expert_primary_calls:
  "primary_calls tr (snd (Expert_run t u tr))
     = (case Expert_resolve t of Inl e \<Rightarrow> [] | Inr parts \<Rightarrow> parts)"
proof (cases "Expert_resolve t")
  case (Inl e)
  then show ?thesis by (simp add: Expert_run_error primary_calls_def)
next
  case (Inr parts)
  then show ?thesis by (simp add: Expert_run_ok primary_calls_group_loop)
qed

lemma Expert_Data_self:
  "Initializer_Expert_Data_init t = Inr self \<Longrightarrow> expert_data_self self = t"
  by (auto simp: Initializer_Expert_Data_init_def split: if_splits)

lemma Expert_Data_run_error:
  "Expert_Data_resolve t = Inl e \<Longrightarrow> Expert_Data_run t u tr = (Inl e, tr)"
  by (auto simp: Expert_Data_resolve_def Expert_Data_run_def Expert_Data_init_dist_group_def
      split: sum.splits)

lemma Expert_Data_run_ok:
  assumes "Expert_Data_resolve t = Inr (ep, ed)"
  shows "Expert_Data_run t u tr =
     (Inr (fst (foldl (\<lambda>st ranks. expert_step (rank t) u EXPERT_DATA ranks st)
                  (foldl (\<lambda>st ranks. expert_step (rank t) u EXPERT ranks st) ([], tr) ep) ed)),
      snd (foldl (\<lambda>st ranks. expert_step (rank t) u EXPERT_DATA ranks st)
                  (foldl (\<lambda>st ranks. expert_step (rank t) u EXPERT ranks st) ([], tr) ep) ed))"
proof -
  from assms obtain self where s: "Initializer_Expert_Data_init t = Inr self"
    "get_expert_parallel_ranks self = Inr (ep, ed)"
    by (auto simp: Expert_Data_resolve_def split: sum.splits)
  show ?thesis
    by (simp add: Expert_Data_run_def s Expert_Data_init_dist_group_def Expert_Data_self[OF s(1)]
        Let_def)
qed

lemma Expert_Data_resolve_rank:
  "Expert_Data_resolve (t\<lparr>rank := r\<rparr>) = Expert_Data_resolve t"
  by (simp add: Expert_Data_resolve_def Initializer_Expert_Data_init_def
      get_expert_parallel_ranks_def data_parallel_groups_def part_ep_group_def Let_def
      cong: map_cong)

lemma Expert_Data_log:
  assumes "Expert_Data_resolve t = Inr (ep, ed)"
  shows "snd (Expert_Data_run t u tr)
       = tr\<lparr>created := created tr @ concat (map (iteration_log u (backend tr)) (ep @ ed))\<rparr>"
  by (simp add: Expert_Data_run_ok[OF assms] expert_loop_snd)

lemma Expert_Data_primary_calls:
  "primary_calls tr (snd (Expert_Data_run t u tr))
     = (case Expert_Data_resolve t of Inl e \<Rightarrow> [] | Inr (ep, ed) \<Rightarrow> ep @ ed)"
proof (cases "Expert_Data_resolve t")
  case (Inl e)
  then show ?thesis by (simp add: Expert_Data_run_error primary_calls_def)
next
  case (Inr p)
  obtain ep ed where p: "p = (ep, ed)" by (cases p)
  have "map fst (filter (\<lambda>c. snd c = None)
          (concat (map (iteration_log u (backend tr)) (ep @ ed)))) = ep @ ed"
    by (rule primary_iteration_log)
  then show ?thesis
    using Inr unfolding p by (simp add: Expert_Data_log primary_calls_def)
qed

lemma fallback_handle_same_iff:
  "fallback_handle_ok tr' info \<Longrightarrow>
   (cpu_group info = process_group info \<longleftrightarrow> backend tr' = ''gloo'')"
  by (auto simp: fallback_handle_ok_def split: option.splits if_splits)

lemma Data_member:
  assumes "Data_resolve t = Inr parts" "rank t \<in> set (concat parts)"
  shows "\<exists>info tr'. Data_run t u tr = (Inr (info, DATA), tr') \<and> member_info (rank t) parts info"
  using Data_run_ok[OF assms(1), of u tr] group_loop_member[OF assms(2), of u tr] by simp

lemma Data_fallback:
  assumes "Data_resolve t = Inr parts" "rank t \<in> set (concat parts)"
  shows "\<exists>info tr'. Data_run t True tr = (Inr (info, DATA), tr') \<and> backend tr' = backend tr \<and>
           member_info (rank t) parts info \<and> fallback_handle_ok tr' info \<and>
           (cpu_group info = process_group info \<longleftrightarrow> backend tr = ''gloo'')"
proof -
  let ?res = "group_loop (rank t) True parts tr"
  have ok: "fallback_handle_ok (snd ?res) (fst ?res)"
    by (rule group_loop_fallback[OF assms(2)])
  have be: "backend (snd ?res) = backend tr" by (rule group_loop_backend)
  have "cpu_group (fst ?res) = process_group (fst ?res) \<longleftrightarrow> backend tr = ''gloo''"
    using fallback_handle_same_iff[OF ok] be by simp
  then show ?thesis
    using Data_run_ok[OF assms(1), of True tr] ok be group_loop_member[OF assms(2), of True tr]
    by simp
qed

lemma Model_member:
  assumes "Model_resolve t = Inr parts" "rank t \<in> set (concat parts)"
  shows "\<exists>info tr'. Model_run t u tr = (Inr (info, MODEL), tr') \<and> member_info (rank t) parts info"
  using Model_run_ok[OF assms(1), of u tr] group_loop_member[OF assms(2), of u tr] by simp

lemma Model_fallback:
  assumes "Model_resolve t = Inr parts" "rank t \<in> set (concat parts)"
  shows "\<exists>info tr'. Model_run t True tr = (Inr (info, MODEL), tr') \<and> backend tr' = backend tr \<and>
           member_info (rank t) parts info \<and> fallback_handle_ok tr' info \<and>
           (cpu_group info = process_group info \<longleftrightarrow> backend tr = ''gloo'')"
proof -
  let ?res = "group_loop (rank t) True parts tr"
  have ok: "fallback_handle_ok (snd ?res) (fst ?res)"
    by (rule group_loop_fallback[OF assms(2)])
  have be: "backend (snd ?res) = backend tr" by (rule group_loop_backend)
  have "cpu_group (fst ?res) = process_group (fst ?res) \<longleftrightarrow> backend tr = ''gloo''"
    using fallback_handle_same_iff[OF ok] be by simp
  then show ?thesis
    using Model_run_ok[OF assms(1), of True tr] ok be group_loop_member[OF assms(2), of True tr]
    by simp
qed

lemma Tensor_member:
  assumes "Tensor_resolve t = Inr parts" "rank t \<in> set (concat parts)"
  shows "\<exists>info tr'. Tensor_run t u tr = (Inr (info, TENSOR), tr') \<and> member_info (rank t) parts info"
  using Tensor_run_ok[OF assms(1), of u tr] group_loop_member[OF assms(2), of u tr] by simp

lemma Tensor_fallback:
  assumes "Tensor_resolve t = Inr parts" "rank t \<in> set (concat parts)"
  shows "\<exists>info tr'. Tensor_run t True tr = (Inr (info, TENSOR), tr') \<and> backend tr' = backend tr \<and>
           member_info (rank t) parts info \<and> fallback_handle_ok tr' info \<and>
           (cpu_group info = process_group info \<longleftrightarrow> backend tr = ''gloo'')"
proof -
  let ?res = "group_loop (rank t) True parts tr"
  have ok: "fallback_handle_ok (snd ?res) (fst ?res)"
    by (rule group_loop_fallback[OF assms(2)])
  have be: "backend (snd ?res) = backend tr" by (rule group_loop_backend)
  have "cpu_group (fst ?res) = process_group (fst ?res) \<longleftrightarrow> backend tr = ''gloo''"
    using fallback_handle_same_iff[OF ok] be by simp
  then show ?thesis
    using Tensor_run_ok[OF assms(1), of True tr] ok be group_loop_member[OF assms(2), of True tr]
    by simp
qed

lemma Pipeline_member:
  assumes "Pipeline_resolve t = Inr parts" "rank t \<in> set (concat parts)"
  shows "\<exists>info tr'. Pipeline_run t u tr = (Inr (info, PIPELINE), tr') \<and> member_info (rank t) parts info"
  using Pipeline_run_ok[OF assms(1), of u tr] group_loop_member[OF assms(2), of u tr] by simp

lemma Pipeline_fallback:
  assumes "Pipeline_resolve t = Inr parts" "rank t \<in> set (concat parts)"
  shows "\<exists>info tr'. Pipeline_run t True tr = (Inr (info, PIPELINE), tr') \<and> backend tr' = backend tr \<and>
           member_info (rank t) parts info \<and> fallback_handle_ok tr' info \<and>
           (cpu_group info = process_group info \<longleftrightarrow> backend tr = ''gloo'')"
proof -
  let ?res = "group_loop (rank t) True parts tr"
  have ok: "fallback_handle_ok (snd ?res) (fst ?res)"
    by (rule group_loop_fallback[OF assms(2)])
  have be: "backend (snd ?res) = backend tr" by (rule group_loop_backend)
  have "cpu_group (fst ?res) = process_group (fst ?res) \<longleftrightarrow> backend tr = ''gloo''"
    using fallback_handle_same_iff[OF ok] be by simp
  then show ?thesis
    using Pipeline_run_ok[OF assms(1), of True tr] ok be group_loop_member[OF assms(2), of True tr]
    by simp
qed

lemma Zero1_member:
  assumes "Zero1_resolve t = Inr parts" "rank t \<in> set (concat parts)"
  shows "\<exists>info tr'. Zero1_run t u tr = (Inr (info, ZERO1), tr') \<and> member_info (rank t) parts info"
  using Zero1_run_ok[OF assms(1), of u tr] group_loop_member[OF assms(2), of u tr] by simp

lemma Zero1_fallback:
  assumes "Zero1_resolve t = Inr parts" "rank t \<in> set (concat parts)"
  shows "\<exists>info tr'. Zero1_run t True tr = (Inr (info, ZERO1), tr') \<and> backend tr' = backend tr \<and>
           member_info (rank t) parts info \<and> fallback_handle_ok tr' info \<and>
           (cpu_group info = process_group info \<longleftrightarrow> backend tr = ''gloo'')"
proof -
  let ?res = "group_loop (rank t) True parts tr"
  have ok: "fallback_handle_ok (snd ?res) (fst ?res)"
    by (rule group_loop_fallback[OF assms(2)])
  have be: "backend (snd ?res) = backend tr" by (rule group_loop_backend)
  have "cpu_group (fst ?res) = process_group (fst ?res) \<longleftrightarrow> backend tr = ''gloo''"
    using fallback_handle_same_iff[OF ok] be by simp
  then show ?thesis
    using Zero1_run_ok[OF assms(1), of True tr] ok be group_loop_member[OF assms(2), of True tr]
    by simp
qed

lemma Nettest_member:
  assumes "Nettest_resolve t = Inr parts" "rank t \<in> set (concat parts)"
  shows "\<exists>info tr'. Nettest_run t u tr = (Inr (info, NETTEST), tr') \<and> member_info (rank t) parts info"
  using Nettest_run_ok[OF assms(1), of u tr] group_loop_member[OF assms(2), of u tr] by simp

lemma Nettest_fallback:
  assumes "Nettest_resolve t = Inr parts" "rank t \<in> set (concat parts)"
  shows "\<exists>info tr'. Nettest_run t True tr = (Inr (info, NETTEST), tr') \<and> backend tr' = backend tr \<and>
           member_info (rank t) parts info \<and> fallback_handle_ok tr' info \<and>
           (cpu_group info = process_group info \<longleftrightarrow> backend tr = ''gloo'')"
proof -
  let ?res = "group_loop (rank t) True parts tr"
  have ok: "fallback_handle_ok (snd ?res) (fst ?res)"
    by (rule group_loop_fallback[OF assms(2)])
  have be: "backend (snd ?res) = backend tr" by (rule group_loop_backend)
  have "cpu_group (fst ?res) = process_group (fst ?res) \<longleftrightarrow> backend tr = ''gloo''"
    using fallback_handle_same_iff[OF ok] be by simp
  then show ?thesis
    using Nettest_run_ok[OF assms(1), of True tr] ok be group_loop_member[OF assms(2), of True tr]
    by simp
qed

lemma Expert_member:
  assumes "Expert_resolve t = Inr parts" "rank t \<in> set (concat parts)"
  shows "\<exists>info tr'. Expert_run t u tr = (Inr (info, EXPERT), tr') \<and> member_info (rank t) parts info"
  using Expert_run_ok[OF assms(1), of u tr] group_loop_member[OF assms(2), of u tr] by simp

lemma Expert_fallback:
  assumes "Expert_resolve t = Inr parts" "rank t \<in> set (concat parts)"
  shows "\<exists>info tr'. Expert_run t True tr = (Inr (info, EXPERT), tr') \<and> backend tr' = backend tr \<and>
           member_info (rank t) parts info \<and> fallback_handle_ok tr' info \<and>
           (cpu_group info = process_group info \<longleftrightarrow> backend tr = ''gloo'')"
proof -
  let ?res = "group_loop (rank t) True parts tr"
  have ok: "fallback_handle_ok (snd ?res) (fst ?res)"
    by (rule group_loop_fallback[OF assms(2)])
  have be: "backend (snd ?res) = backend tr" by (rule group_loop_backend)
  have "cpu_group (fst ?res) = process_group (fst ?res) \<longleftrightarrow> backend tr = ''gloo''"
    using fallback_handle_same_iff[OF ok] be by simp
  then show ?thesis
    using Expert_run_ok[OF assms(1), of True tr] ok be group_loop_member[OF assms(2), of True tr]
    by simp
qed


lemma Expert_Data_groups:
  assumes "Expert_Data_resolve t = Inr (ep, ed)"
  shows "\<exists>groups tr'. Expert_Data_run t u tr = (Inr groups, tr') \<and> backend tr' = backend tr \<and>
           map (\<lambda>e. (ranks_in_group (fst e), snd e)) groups
             = map (\<lambda>p. (Some p, EXPERT)) (filter (\<lambda>p. rank t \<in> set p) ep) @
               map (\<lambda>p. (Some p, EXPERT_DATA)) (filter (\<lambda>p. rank t \<in> set p) ed) \<and>
           (\<forall>e \<in> set groups.
              member_info (rank t) (if snd e = EXPERT then ep else ed) (fst e) \<and>
              (if u then fallback_handle_ok tr' (fst e) \<and>
                         (cpu_group (fst e) = process_group (fst e) \<longleftrightarrow> backend tr = ''gloo'')
               else cpu_group (fst e) = None))"
proof -
  let ?r = "rank t"
  let ?st1 = "foldl (\<lambda>st ranks. expert_step ?r u EXPERT ranks st) ([], tr) ep"
  let ?st2 = "foldl (\<lambda>st ranks. expert_step ?r u EXPERT_DATA ranks st) ?st1 ed"
  have run: "Expert_Data_run t u tr = (Inr (fst ?st2), snd ?st2)"
    by (rule Expert_Data_run_ok[OF assms])
  have be1: "backend (snd ?st1) = backend tr" by (simp add: expert_loop_snd)
  have be2: "backend (snd ?st2) = backend tr" by (simp add: expert_loop_snd)
  have log2: "created (snd ?st2)
      = created (snd ?st1) @ concat (map (iteration_log u (backend (snd ?st1))) ed)"
    by (simp add: expert_loop_snd)
  from expert_loop_fst[of ?r u EXPERT "([], tr)" ep]
  obtain new1 where n1: "fst ?st1 = new1"
    "map (\<lambda>e. ranks_in_group (fst e)) new1 = map Some (filter (\<lambda>p. ?r \<in> set p) ep)"
    "\<forall>e \<in> set new1. snd e = EXPERT \<and> member_info ?r ep (fst e) \<and>
        (if u then fallback_handle_ok (snd ?st1) (fst e) else cpu_group (fst e) = None)"
    by auto
  from expert_loop_fst[of ?r u EXPERT_DATA ?st1 ed]
  obtain new2 where n2: "fst ?st2 = fst ?st1 @ new2"
    "map (\<lambda>e. ranks_in_group (fst e)) new2 = map Some (filter (\<lambda>p. ?r \<in> set p) ed)"
    "\<forall>e \<in> set new2. snd e = EXPERT_DATA \<and> member_info ?r ed (fst e) \<and>
        (if u then fallback_handle_ok (snd ?st2) (fst e) else cpu_group (fst e) = None)"
    by blast
  have groups: "fst ?st2 = new1 @ new2" using n1(1) n2(1) by simp
  have m1: "map (\<lambda>e. (ranks_in_group (fst e), snd e)) new1
          = map (\<lambda>p. (Some p, EXPERT)) (filter (\<lambda>p. ?r \<in> set p) ep)"
  proof -
    have "map (\<lambda>e. (ranks_in_group (fst e), snd e)) new1
        = map (\<lambda>e. (ranks_in_group (fst e), EXPERT)) new1"
      using n1(3) by (intro map_cong) auto
    also have "\<dots> = map (\<lambda>x. (x, EXPERT)) (map (\<lambda>e. ranks_in_group (fst e)) new1)"
      by (simp add: comp_def)
    finally show ?thesis unfolding n1(2) by (simp add: comp_def)
  qed
  have m2: "map (\<lambda>e. (ranks_in_group (fst e), snd e)) new2
          = map (\<lambda>p. (Some p, EXPERT_DATA)) (filter (\<lambda>p. ?r \<in> set p) ed)"
  proof -
    have "map (\<lambda>e. (ranks_in_group (fst e), snd e)) new2
        = map (\<lambda>e. (ranks_in_group (fst e), EXPERT_DATA)) new2"
      using n2(3) by (intro map_cong) auto
    also have "\<dots> = map (\<lambda>x. (x, EXPERT_DATA)) (map (\<lambda>e. ranks_in_group (fst e)) new2)"
      by (simp add: comp_def)
    finally show ?thesis unfolding n2(2) by (simp add: comp_def)
  qed
  have each: "member_info ?r (if snd e = EXPERT then ep else ed) (fst e) \<and>
              (if u then fallback_handle_ok (snd ?st2) (fst e) \<and>
                         (cpu_group (fst e) = process_group (fst e) \<longleftrightarrow> backend tr = ''gloo'')
               else cpu_group (fst e) = None)"
    if e: "e \<in> set (new1 @ new2)" for e
  proof -
    from e consider "e \<in> set new1" | "e \<in> set new2" by auto
    then have both: "member_info ?r (if snd e = EXPERT then ep else ed) (fst e) \<and>
        (if u then fallback_handle_ok (snd ?st2) (fst e) else cpu_group (fst e) = None)"
    proof cases
      case 1
      then have a: "snd e = EXPERT" "member_info ?r ep (fst e)"
        "if u then fallback_handle_ok (snd ?st1) (fst e) else cpu_group (fst e) = None"
        using n1(3) by blast+
      have "member_info ?r (if snd e = EXPERT then ep else ed) (fst e)" using a(1,2) by simp
      moreover have "if u then fallback_handle_ok (snd ?st2) (fst e) else cpu_group (fst e) = None"
        using a(3) fallback_handle_ok_mono[OF _ _ log2, of "fst e"] be1 be2
        by (cases u) simp_all
      ultimately show ?thesis by (rule conjI)
    next
      case 2
      then have a: "snd e = EXPERT_DATA" "member_info ?r ed (fst e)"
        "if u then fallback_handle_ok (snd ?st2) (fst e) else cpu_group (fst e) = None"
        using n2(3) by blast+
      have "member_info ?r (if snd e = EXPERT then ep else ed) (fst e)" using a(1,2) by simp
      then show ?thesis using a(3) by (rule conjI)
    qed
    note mi = conjunct1[OF both] and fb = conjunct2[OF both]
    show ?thesis
      using mi fb fallback_handle_same_iff[of "snd ?st2" "fst e"] be2 by (cases u) simp_all
  qed
  have mp: "map (\<lambda>e. (ranks_in_group (fst e), snd e)) (fst ?st2)
             = map (\<lambda>p. (Some p, EXPERT)) (filter (\<lambda>p. rank t \<in> set p) ep) @
               map (\<lambda>p. (Some p, EXPERT_DATA)) (filter (\<lambda>p. rank t \<in> set p) ed)"
    unfolding groups using m1 m2 by simp
  have all: "\<forall>e \<in> set (fst ?st2).
              member_info (rank t) (if snd e = EXPERT then ep else ed) (fst e) \<and>
              (if u then fallback_handle_ok (snd ?st2) (fst e) \<and>
                         (cpu_group (fst e) = process_group (fst e) \<longleftrightarrow> backend tr = ''gloo'')
               else cpu_group (fst e) = None)"
    unfolding groups by (intro ballI each)
  show ?thesis
    unfolding run
    by (intro exI[of _ "fst ?st2"] exI[of _ "snd ?st2"] conjI refl be2 mp all)
qed

lemma example_resolves:
  "Data_resolve \<lparr>rank = r, world_size = 8, data_parallel_size = 4, pipeline_parallel_size = 2,
       tensor_parallel_size = 1, zero1_parallel_size = 2, nettest_parallel_size = 3,
       expert_parallel_size = 4\<rparr> = Inr [[0, 2, 4, 6], [1, 3, 5, 7]]"
  "Model_resolve \<lparr>rank = r, world_size = 8, data_parallel_size = 4, pipeline_parallel_size = 2,
       tensor_parallel_size = 1, zero1_parallel_size = 2, nettest_parallel_size = 3,
       expert_parallel_size = 4\<rparr> = Inr [[0, 1], [2, 3], [4, 5], [6, 7]]"
  "Tensor_resolve \<lparr>rank = r, world_size = 8, data_parallel_size = 4, pipeline_parallel_size = 2,
       tensor_parallel_size = 1, zero1_parallel_size = 2, nettest_parallel_size = 3,
       expert_parallel_size = 4\<rparr> = Inr [[0], [1], [2], [3], [4], [5], [6], [7]]"
  "Pipeline_resolve \<lparr>rank = r, world_size = 8, data_parallel_size = 4, pipeline_parallel_size = 2,
       tensor_parallel_size = 1, zero1_parallel_size = 2, nettest_parallel_size = 3,
       expert_parallel_size = 4\<rparr> = Inr [[0, 1], [2, 3], [4, 5], [6, 7]]"
  "Zero1_resolve \<lparr>rank = r, world_size = 8, data_parallel_size = 4, pipeline_parallel_size = 2,
       tensor_parallel_size = 1, zero1_parallel_size = 2, nettest_parallel_size = 3,
       expert_parallel_size = 4\<rparr> = Inr [[0, 2], [4, 6], [1, 3], [5, 7]]"
  "Nettest_resolve \<lparr>rank = r, world_size = 8, data_parallel_size = 4, pipeline_parallel_size = 2,
       tensor_parallel_size = 1, zero1_parallel_size = 2, nettest_parallel_size = 3,
       expert_parallel_size = 4\<rparr> = Inr [[0, 1, 2], [3, 4, 5], [6, 7]]"
  "Expert_resolve \<lparr>rank = r, world_size = 8, data_parallel_size = 4, pipeline_parallel_size = 2,
       tensor_parallel_size = 1, zero1_parallel_size = 2, nettest_parallel_size = 3,
       expert_parallel_size = 4\<rparr> = Inr [[0, 2, 4, 6], [1, 3, 5, 7]]"
  "Expert_Data_resolve \<lparr>rank = r, world_size = 8, data_parallel_size = 4, pipeline_parallel_size = 2,
       tensor_parallel_size = 1, zero1_parallel_size = 2, nettest_parallel_size = 3,
       expert_parallel_size = 4\<rparr>
     = Inr ([[0, 2, 4, 6], [1, 3, 5, 7]],
            [[0], [2], [4], [6], [1], [3], [5], [7]])"
  by (simp_all add: Data_resolve_def Initializer_Data_init_def Data_ranks_def
      Model_resolve_def Initializer_Model_init_def Model_ranks_def
      Tensor_resolve_def Initializer_Tensor_init_def Tensor_ranks_def
      Pipeline_resolve_def Initializer_Pipeline_init_def Pipeline_ranks_def
      Zero1_resolve_def Initializer_Zero1_init_def Zero1_ranks_def
      Nettest_resolve_def Initializer_Nettest_init_def Nettest_ranks_def
      Expert_resolve_def Initializer_Expert_init_def Expert_ranks_def
      Expert_Data_resolve_def Initializer_Expert_Data_init_def
      get_expert_parallel_ranks_def data_parallel_groups_def part_ep_group_def eval_defs)

lemma create_calls_same: "create_calls tr tr = 0"
  by (simp add: create_calls_def)

section \<open>Worked examples\<close>

text \<open>
  C6. For world_size = 8, data_parallel_size = 2 and pipeline_parallel_size = 2 (whatever
  the own rank and the other sizes are) the Pipeline initializer is constructed without
  error and enumerates the partitions [0,2], [1,3] of the first data block and [4,6], [5,7]
  of the second one, in this order; each of them has pipeline_parallel_size = 2 members.
\<close>

theorem pipeline_example:
  "Pipeline_resolve \<lparr>rank = r, world_size = 8, data_parallel_size = 2,
       pipeline_parallel_size = 2, tensor_parallel_size = tp, zero1_parallel_size = z,
       nettest_parallel_size = n, expert_parallel_size = e\<rparr>
     = Inr [[0, 2], [1, 3], [4, 6], [5, 7]]
   \<and> map length [[0, 2], [1, 3], [4, 6], [5, 7 :: int]] = [2, 2, 2, 2]"
  by (simp add: Pipeline_resolve_def Initializer_Pipeline_init_def Pipeline_ranks_def
      py_range_def py_range3_def range_len_def upto.simps)

text \<open>
  C2 (as amended). For world_size = 8, pipeline_parallel_size * tensor_parallel_size = 2,
  data_parallel_size = 4 and expert_parallel_size = 2 the Expert_Data initializer produces
  the expert partitions [0,2], [4,6], [1,3], [5,7] and the expert-data partitions [0,4],
  [2,6], [1,5], [3,7], in this order. This is the example of the docstring of
  \<open>_get_expert_parallel_ranks\<close>.
\<close>

theorem expert_data_example:
  "Expert_Data_resolve \<lparr>rank = r, world_size = 8, data_parallel_size = 4,
       pipeline_parallel_size = 2, tensor_parallel_size = 1, zero1_parallel_size = z,
       nettest_parallel_size = n, expert_parallel_size = 2\<rparr>
     = Inr ([[0, 2], [4, 6], [1, 3], [5, 7]], [[0, 4], [2, 6], [1, 5], [3, 7]]) \<and>
   Expert_Data_resolve \<lparr>rank = r, world_size = 8, data_parallel_size = 4,
       pipeline_parallel_size = 1, tensor_parallel_size = 2, zero1_parallel_size = z,
       nettest_parallel_size = n, expert_parallel_size = 2\<rparr>
     = Inr ([[0, 2], [4, 6], [1, 3], [5, 7]], [[0, 4], [2, 6], [1, 5], [3, 7]])"
  by (simp add: Expert_Data_resolve_def Initializer_Expert_Data_init_def
      get_expert_parallel_ranks_def data_parallel_groups_def part_ep_group_def eval_defs)

text \<open>
  With expert_parallel_size = 4, as the claim has it, each data parallel group is one
  expert partition and every expert-data partition is a single rank.
\<close>

theorem expert_data_example_counterexample:
  "Expert_Data_resolve \<lparr>rank = 0, world_size = 8, data_parallel_size = 4,
       pipeline_parallel_size = 1, tensor_parallel_size = 2, zero1_parallel_size = 1,
       nettest_parallel_size = 8, expert_parallel_size = 4\<rparr>
     = Inr ([[0, 2, 4, 6], [1, 3, 5, 7]], [[0], [2], [4], [6], [1], [3], [5], [7]]) \<and>
   Expert_Data_resolve \<lparr>rank = 0, world_size = 8, data_parallel_size = 4,
       pipeline_parallel_size = 1, tensor_parallel_size = 2, zero1_parallel_size = 1,
       nettest_parallel_size = 8, expert_parallel_size = 4\<rparr>
     \<noteq> Inr ([[0, 2], [4, 6], [1, 3], [5, 7]], [[0, 4], [2, 6], [1, 5], [3, 7]])"
  by (simp add: Expert_Data_resolve_def Initializer_Expert_Data_init_def
      get_expert_parallel_ranks_def data_parallel_groups_def part_ep_group_def eval_defs)

section \<open>The Expert initializer\<close>

text \<open>
  C5. For world_size = 8 and expert_parallel_size = 4 (the constructor demands
  data_parallel_size = 4 as well) the Expert initializer produces [0,2,4,6] and [1,3,5,7].
  In general, for a topology with positive sizes that the constructor accepts, there are
  g = world_size // expert_parallel_size partitions, and partition i consists of the
  ranks i, i + g, i + 2g, ...: exactly the ranks below world_size that are congruent to i
  modulo g, not a block of consecutive ranks.
\<close>

theorem expert_interleaved:
  "Expert_resolve \<lparr>rank = r, world_size = 8, data_parallel_size = 4,
       pipeline_parallel_size = pp, tensor_parallel_size = tp, zero1_parallel_size = z,
       nettest_parallel_size = n, expert_parallel_size = 4\<rparr>
     = Inr [[0, 2, 4, 6], [1, 3, 5, 7]] \<and>
   (positive_sizes t \<and> Expert_resolve t = Inr parts \<longrightarrow>
      length parts = nat (world_size t div expert_parallel_size t) \<and>
      (\<forall>i < length parts.
         parts ! i = map (\<lambda>k. int i + k * (world_size t div expert_parallel_size t))
                        (py_range (world_size t div (world_size t div expert_parallel_size t))) \<and>
         set (parts ! i) = {x. 0 \<le> x \<and> x < world_size t \<and>
                              x mod (world_size t div expert_parallel_size t) = int i}))"
proof (intro conjI impI)
  show "Expert_resolve \<lparr>rank = r, world_size = 8, data_parallel_size = 4,
       pipeline_parallel_size = pp, tensor_parallel_size = tp, zero1_parallel_size = z,
       nettest_parallel_size = n, expert_parallel_size = 4\<rparr>
     = Inr [[0, 2, 4, 6], [1, 3, 5, 7]]"
    by (simp add: Expert_resolve_def Initializer_Expert_init_def Expert_ranks_def eval_defs)
next
  assume a: "positive_sizes t \<and> Expert_resolve t = Inr parts"
  let ?g = "world_size t div expert_parallel_size t"
  let ?q = "world_size t div ?g"
  have pos: "0 < world_size t" "0 < expert_parallel_size t"
    using a by (simp_all add: positive_sizes_def)
  note acc = Expert_accepts[OF conjunct2[OF a]]
  have g: "0 < ?g"
    using pos Expert_size_le[OF pos] acc by (simp add: pos_imp_zdiv_pos_iff)
  have w: "world_size t = ?g * ?q" using acc by auto
  have q: "0 \<le> ?q" using pos g by (simp add: pos_imp_zdiv_nonneg_iff)
  have parts: "parts = map (\<lambda>i. map (\<lambda>k. i + k * ?g) (py_range ?q)) (py_range ?g)"
    using Expert_resolve_formula[OF conjunct1[OF a] conjunct2[OF a]] .
  show len: "length parts = nat ?g" unfolding parts by simp
  show "\<forall>i < length parts.
         parts ! i = map (\<lambda>k. int i + k * ?g) (py_range ?q) \<and>
         set (parts ! i) = {x. 0 \<le> x \<and> x < world_size t \<and> x mod ?g = int i}"
  proof (intro allI impI)
    fix i assume i: "i < length parts"
    then have ig: "int i < ?g" using len by linarith
    have "py_range ?g ! i = int i" using i len by (simp add: py_range_nat)
    then have p: "parts ! i = map (\<lambda>k. int i + k * ?g) (py_range ?q)"
      using i len unfolding parts by simp
    have "set (map (\<lambda>k. int i + k * ?g) (py_range ?q))
        = {x. 0 \<le> x \<and> x < world_size t \<and> x mod ?g = int i}" (is "?A = ?B")
    proof (intro set_eqI iffI)
      fix x assume "x \<in> ?A"
      then obtain k where k: "0 \<le> k" "k < ?q" "x = int i + k * ?g" by auto
      have "k * ?g \<le> (?q - 1) * ?g" using k(2) g by (intro mult_right_mono) simp_all
      then have "x < ?q * ?g" using k(3) ig by (simp add: algebra_simps)
      moreover have "0 \<le> k * ?g" using k(1) g by simp
      moreover have "x mod ?g = int i" using k(3) ig by simp
      ultimately show "x \<in> ?B" using k(3) w by (simp add: mult.commute)
    next
      fix x assume "x \<in> ?B"
      then have x: "0 \<le> x" "x < world_size t" "x mod ?g = int i" by simp_all
      have e: "x = int i + (x div ?g) * ?g"
        using mod_div_mult_eq[of x ?g] unfolding x(3) by simp
      have nn: "0 \<le> x div ?g" using x(1) g by (simp add: pos_imp_zdiv_nonneg_iff)
      have "x div ?g < ?q"
      proof (rule ccontr)
        assume "\<not> x div ?g < ?q"
        then have "?q * ?g \<le> (x div ?g) * ?g" using g by (intro mult_right_mono) simp_all
        moreover have "(x div ?g) * ?g \<le> x" using e by simp
        ultimately show False using x(2) w by (simp add: mult.commute)
      qed
      then have "x div ?g \<in> set (py_range ?q)" using nn by simp
      then show "x \<in> ?A" using e by (metis (mono_tags, lifting) image_eqI set_map)
    qed
    then show "parts ! i = map (\<lambda>k. int i + k * ?g) (py_range ?q) \<and>
         set (parts ! i) = {x. 0 \<le> x \<and> x < world_size t \<and> x mod ?g = int i}"
      using p by simp
  qed
qed

theorem expert_interleaved_witness:
  "positive_sizes \<lparr>rank = 3, world_size = 8, data_parallel_size = 4, pipeline_parallel_size = 1,
       tensor_parallel_size = 2, zero1_parallel_size = 1, nettest_parallel_size = 8,
       expert_parallel_size = 4\<rparr> \<and>
   Expert_resolve \<lparr>rank = 3, world_size = 8, data_parallel_size = 4, pipeline_parallel_size = 1,
       tensor_parallel_size = 2, zero1_parallel_size = 1, nettest_parallel_size = 8,
       expert_parallel_size = 4\<rparr> = Inr [[0, 2, 4, 6], [1, 3, 5, 7]] \<and>
   length [[0, 2, 4, 6], [1, 3, 5, 7 :: int]] = nat (8 div 4) \<and>
   [[0, 2, 4, 6], [1, 3, 5, 7]] ! 1 = map (\<lambda>k. int 1 + k * (8 div 4)) (py_range (8 div (8 div 4))) \<and>
   set ([[0, 2, 4, 6], [1, 3, 5, 7]] ! 1) = {x. 0 \<le> x \<and> x < 8 \<and> x mod (8 div 4) = int 1}"
proof -
  let ?t = "\<lparr>rank = 3, world_size = 8, data_parallel_size = 4, pipeline_parallel_size = 1,
       tensor_parallel_size = 2, zero1_parallel_size = 1, nettest_parallel_size = 8,
       expert_parallel_size = 4 :: int\<rparr>"
  have p: "positive_sizes ?t" by (simp add: positive_sizes_def)
  have e: "Expert_resolve ?t = Inr [[0, 2, 4, 6], [1, 3, 5, 7]]"
    by (simp add: Expert_resolve_def Initializer_Expert_init_def Expert_ranks_def eval_defs)
  let ?ps = "[[0, 2, 4, 6], [1, 3, 5, 7 :: int]]"
  from expert_interleaved[of 3 1 2 1 8 ?t ?ps] p e
  have len: "length ?ps = nat (world_size ?t div expert_parallel_size ?t)"
    and all: "\<forall>i < length ?ps.
         ?ps ! i = map (\<lambda>k. int i + k * (world_size ?t div expert_parallel_size ?t))
                        (py_range (world_size ?t div (world_size ?t div expert_parallel_size ?t))) \<and>
         set (?ps ! i) = {x. 0 \<le> x \<and> x < world_size ?t \<and>
                              x mod (world_size ?t div expert_parallel_size ?t) = int i}"
    by blast+
  have "1 < length ?ps" by simp
  with all have "?ps ! 1 = map (\<lambda>k. int 1 + k * (world_size ?t div expert_parallel_size ?t))
                        (py_range (world_size ?t div (world_size ?t div expert_parallel_size ?t))) \<and>
         set (?ps ! 1) = {x. 0 \<le> x \<and> x < world_size ?t \<and>
                              x mod (world_size ?t div expert_parallel_size ?t) = int 1}"
    by blast
  then have c: "?ps ! 1 = map (\<lambda>k. int 1 + k * (8 div 4)) (py_range (8 div (8 div 4))) \<and>
       set (?ps ! 1) = {x. 0 \<le> x \<and> x < 8 \<and> x mod (8 div 4) = int 1}"
    unfolding topology.select_convs .
  have l: "length ?ps = nat (8 div 4)" by simp
  show ?thesis
    by (intro conjI p e l conjunct1[OF c] conjunct2[OF c])
qed

text \<open>
  C9. The constructor of the Expert initializer succeeds exactly when the two divisions
  are defined, world_size % (world_size // expert_parallel_size) == 0, and
  data_parallel_size == expert_parallel_size; it does not ask that expert_parallel_size
  divide world_size. In an accepted topology with positive sizes every partition has
  world_size // (world_size // expert_parallel_size) members, and this number is
  expert_parallel_size exactly when expert_parallel_size divides world_size. The topology
  world_size = 10, expert_parallel_size = 4 is accepted and gives two partitions of five
  ranks.
\<close>

theorem expert_group_size:
  "(Initializer_Expert_init t = Inr self \<longleftrightarrow>
      expert_parallel_size t \<noteq> 0 \<and> world_size t div expert_parallel_size t \<noteq> 0 \<and>
      world_size t mod (world_size t div expert_parallel_size t) = 0 \<and>
      data_parallel_size t = expert_parallel_size t \<and>
      self = \<lparr>expert_self = t,
               num_expert_parallel_group = world_size t div expert_parallel_size t\<rparr>) \<and>
   (positive_sizes t \<and> Expert_resolve t = Inr parts \<longrightarrow>
      (\<forall>p \<in> set parts.
         int (length p) = world_size t div (world_size t div expert_parallel_size t)) \<and>
      (world_size t div (world_size t div expert_parallel_size t) = expert_parallel_size t
         \<longleftrightarrow> expert_parallel_size t dvd world_size t)) \<and>
   Expert_resolve \<lparr>rank = r, world_size = 10, data_parallel_size = 4,
       pipeline_parallel_size = pp, tensor_parallel_size = tp, zero1_parallel_size = z,
       nettest_parallel_size = n, expert_parallel_size = 4\<rparr>
     = Inr [[0, 2, 4, 6, 8], [1, 3, 5, 7, 9]] \<and>
   \<not> (4 :: int) dvd 10"
proof (intro conjI impI)
  show "Initializer_Expert_init t = Inr self \<longleftrightarrow>
      expert_parallel_size t \<noteq> 0 \<and> world_size t div expert_parallel_size t \<noteq> 0 \<and>
      world_size t mod (world_size t div expert_parallel_size t) = 0 \<and>
      data_parallel_size t = expert_parallel_size t \<and>
      self = \<lparr>expert_self = t,
               num_expert_parallel_group = world_size t div expert_parallel_size t\<rparr>"
    by (auto simp: Initializer_Expert_init_def Let_def)
next
  show "Expert_resolve \<lparr>rank = r, world_size = 10, data_parallel_size = 4,
       pipeline_parallel_size = pp, tensor_parallel_size = tp, zero1_parallel_size = z,
       nettest_parallel_size = n, expert_parallel_size = 4\<rparr>
     = Inr [[0, 2, 4, 6, 8], [1, 3, 5, 7, 9]]"
    by (simp add: Expert_resolve_def Initializer_Expert_init_def Expert_ranks_def eval_defs)
next
  show "\<not> (4 :: int) dvd 10" by presburger
next
  assume a: "positive_sizes t \<and> Expert_resolve t = Inr parts"
  let ?e = "expert_parallel_size t"
  let ?g = "world_size t div ?e"
  let ?q = "world_size t div ?g"
  have pos: "0 < world_size t" "0 < ?e"
    using a by (simp_all add: positive_sizes_def)
  note acc = Expert_accepts[OF conjunct2[OF a]]
  have g: "0 < ?g"
    using pos Expert_size_le[OF pos] acc by (simp add: pos_imp_zdiv_pos_iff)
  have w: "world_size t = ?g * ?q" using acc by auto
  have q: "0 \<le> ?q" using pos g by (simp add: pos_imp_zdiv_nonneg_iff)
  have parts: "parts = map (\<lambda>i. map (\<lambda>k. i + k * ?g) (py_range ?q)) (py_range ?g)"
    using Expert_resolve_formula[OF conjunct1[OF a] conjunct2[OF a]] .
  show "\<forall>p \<in> set parts. int (length p) = ?q"
    unfolding parts using q by auto
  show "?q = ?e \<longleftrightarrow> ?e dvd world_size t"
  proof
    assume "?q = ?e"
    then have "world_size t = ?g * ?e" using w by simp
    then show "?e dvd world_size t" by (metis dvd_triv_right)
  next
    assume "?e dvd world_size t"
    then have "world_size t = ?g * ?e" by simp
    then show "?q = ?e" using g by (metis nonzero_mult_div_cancel_left less_irrefl)
  qed
qed

theorem expert_group_size_witness:
  "positive_sizes \<lparr>rank = 0, world_size = 10, data_parallel_size = 4, pipeline_parallel_size = 1,
       tensor_parallel_size = 1, zero1_parallel_size = 1, nettest_parallel_size = 8,
       expert_parallel_size = 4\<rparr> \<and>
   Expert_resolve \<lparr>rank = 0, world_size = 10, data_parallel_size = 4, pipeline_parallel_size = 1,
       tensor_parallel_size = 1, zero1_parallel_size = 1, nettest_parallel_size = 8,
       expert_parallel_size = 4\<rparr> = Inr [[0, 2, 4, 6, 8], [1, 3, 5, 7, 9]] \<and>
   int (length [0, 2, 4, 6, 8 :: int]) = 10 div (10 div 4) \<and>
   int (length [1, 3, 5, 7, 9 :: int]) = 10 div (10 div 4) \<and>
   (10 :: int) div (10 div 4) \<noteq> 4 \<and> \<not> (4 :: int) dvd 10"
proof -
  let ?t = "\<lparr>rank = 0, world_size = 10, data_parallel_size = 4, pipeline_parallel_size = 1,
       tensor_parallel_size = 1, zero1_parallel_size = 1, nettest_parallel_size = 8,
       expert_parallel_size = 4 :: int\<rparr>"
  have p: "positive_sizes ?t" by (simp add: positive_sizes_def)
  have e: "Expert_resolve ?t = Inr [[0, 2, 4, 6, 8], [1, 3, 5, 7, 9]]"
    by (simp add: Expert_resolve_def Initializer_Expert_init_def Expert_ranks_def eval_defs)
  show ?thesis
    using expert_group_size[of ?t "\<lparr>expert_self = ?t, num_expert_parallel_group = 2\<rparr>" "[[0, 2, 4, 6, 8], [1, 3, 5, 7, 9]]" 0 1 1 1 8] p e
    by simp
qed

section \<open>Determinism of the enumeration\<close>

text \<open>
  C8. The partitions an initializer enumerates, observed as the rank lists of the primary
  groups it creates, in the order of their creation, are the same for two invocations with
  the same world size and axis sizes, whatever the transport state and the CPU-group flag
  of either invocation are, and even if the two invocations run on different ranks. They
  are the list the resolver computes from the topology (none if the constructor fails;
  for Expert_Data the expert partitions followed by the expert-data partitions).
\<close>

theorem enumeration_deterministic:
  "primary_calls tr1 (snd (Data_run t u1 tr1))
     = primary_calls tr2 (snd (Data_run (t\<lparr>rank := r2\<rparr>) u2 tr2)) \<and>
   primary_calls tr1 (snd (Model_run t u1 tr1))
     = primary_calls tr2 (snd (Model_run (t\<lparr>rank := r2\<rparr>) u2 tr2)) \<and>
   primary_calls tr1 (snd (Tensor_run t u1 tr1))
     = primary_calls tr2 (snd (Tensor_run (t\<lparr>rank := r2\<rparr>) u2 tr2)) \<and>
   primary_calls tr1 (snd (Pipeline_run t u1 tr1))
     = primary_calls tr2 (snd (Pipeline_run (t\<lparr>rank := r2\<rparr>) u2 tr2)) \<and>
   primary_calls tr1 (snd (Zero1_run t u1 tr1))
     = primary_calls tr2 (snd (Zero1_run (t\<lparr>rank := r2\<rparr>) u2 tr2)) \<and>
   primary_calls tr1 (snd (Nettest_run t u1 tr1))
     = primary_calls tr2 (snd (Nettest_run (t\<lparr>rank := r2\<rparr>) u2 tr2)) \<and>
   primary_calls tr1 (snd (Expert_run t u1 tr1))
     = primary_calls tr2 (snd (Expert_run (t\<lparr>rank := r2\<rparr>) u2 tr2)) \<and>
   primary_calls tr1 (snd (Expert_Data_run t u1 tr1))
     = primary_calls tr2 (snd (Expert_Data_run (t\<lparr>rank := r2\<rparr>) u2 tr2)) \<and>
   primary_calls tr1 (snd (Data_run t u1 tr1))
     = (case Data_resolve t of Inl e \<Rightarrow> [] | Inr parts \<Rightarrow> parts) \<and>
   primary_calls tr1 (snd (Model_run t u1 tr1))
     = (case Model_resolve t of Inl e \<Rightarrow> [] | Inr parts \<Rightarrow> parts) \<and>
   primary_calls tr1 (snd (Tensor_run t u1 tr1))
     = (case Tensor_resolve t of Inl e \<Rightarrow> [] | Inr parts \<Rightarrow> parts) \<and>
   primary_calls tr1 (snd (Pipeline_run t u1 tr1))
     = (case Pipeline_resolve t of Inl e \<Rightarrow> [] | Inr parts \<Rightarrow> parts) \<and>
   primary_calls tr1 (snd (Zero1_run t u1 tr1))
     = (case Zero1_resolve t of Inl e \<Rightarrow> [] | Inr parts \<Rightarrow> parts) \<and>
   primary_calls tr1 (snd (Nettest_run t u1 tr1))
     = (case Nettest_resolve t of Inl e \<Rightarrow> [] | Inr parts \<Rightarrow> parts) \<and>
   primary_calls tr1 (snd (Expert_run t u1 tr1))
     = (case Expert_resolve t of Inl e \<Rightarrow> [] | Inr parts \<Rightarrow> parts) \<and>
   primary_calls tr1 (snd (Expert_Data_run t u1 tr1))
     = (case Expert_Data_resolve t of Inl e \<Rightarrow> [] | Inr (ep, ed) \<Rightarrow> ep @ ed)"
  unfolding Data_primary_calls Model_primary_calls Tensor_primary_calls Pipeline_primary_calls
    Zero1_primary_calls Nettest_primary_calls Expert_primary_calls Expert_Data_primary_calls
    Data_resolve_rank Model_resolve_rank Tensor_resolve_rank Pipeline_resolve_rank
    Zero1_resolve_rank Nettest_resolve_rank Expert_resolve_rank Expert_Data_resolve_rank
  by (intro conjI refl)

section \<open>Local ranks and group sizes\<close>

text \<open>
  C4. For each of the eight initializers, if the own rank is a member of a partition the
  initializer enumerates, the returned tuple names a partition holding the rank, its
  local_rank is the index of the rank in that partition (the position \<open>ranks.index\<close> finds),
  and its group_world_size is the length of that partition. Expert_Data
  returns one such tuple for every expert partition and every expert-data partition
  holding the rank, in the order of enumeration.
\<close>

theorem local_rank_is_index:
  "(\<forall>parts. Data_resolve t = Inr parts \<and> rank t \<in> set (concat parts) \<longrightarrow>
      (\<exists>info tr'. Data_run t u tr = (Inr (info, DATA), tr') \<and>
         member_info (rank t) parts info)) \<and>
   (\<forall>parts. Model_resolve t = Inr parts \<and> rank t \<in> set (concat parts) \<longrightarrow>
      (\<exists>info tr'. Model_run t u tr = (Inr (info, MODEL), tr') \<and>
         member_info (rank t) parts info)) \<and>
   (\<forall>parts. Tensor_resolve t = Inr parts \<and> rank t \<in> set (concat parts) \<longrightarrow>
      (\<exists>info tr'. Tensor_run t u tr = (Inr (info, TENSOR), tr') \<and>
         member_info (rank t) parts info)) \<and>
   (\<forall>parts. Pipeline_resolve t = Inr parts \<and> rank t \<in> set (concat parts) \<longrightarrow>
      (\<exists>info tr'. Pipeline_run t u tr = (Inr (info, PIPELINE), tr') \<and>
         member_info (rank t) parts info)) \<and>
   (\<forall>parts. Zero1_resolve t = Inr parts \<and> rank t \<in> set (concat parts) \<longrightarrow>
      (\<exists>info tr'. Zero1_run t u tr = (Inr (info, ZERO1), tr') \<and>
         member_info (rank t) parts info)) \<and>
   (\<forall>parts. Nettest_resolve t = Inr parts \<and> rank t \<in> set (concat parts) \<longrightarrow>
      (\<exists>info tr'. Nettest_run t u tr = (Inr (info, NETTEST), tr') \<and>
         member_info (rank t) parts info)) \<and>
   (\<forall>parts. Expert_resolve t = Inr parts \<and> rank t \<in> set (concat parts) \<longrightarrow>
      (\<exists>info tr'. Expert_run t u tr = (Inr (info, EXPERT), tr') \<and>
         member_info (rank t) parts info)) \<and>
   (\<forall>ep ed. Expert_Data_resolve t = Inr (ep, ed) \<longrightarrow>
      (\<exists>groups tr'. Expert_Data_run t u tr = (Inr groups, tr') \<and>
         map (\<lambda>e. (ranks_in_group (fst e), snd e)) groups
           = map (\<lambda>p. (Some p, EXPERT)) (filter (\<lambda>p. rank t \<in> set p) ep) @
             map (\<lambda>p. (Some p, EXPERT_DATA)) (filter (\<lambda>p. rank t \<in> set p) ed) \<and>
         (\<forall>e \<in> set groups.
            member_info (rank t) (if snd e = EXPERT then ep else ed) (fst e))))"
proof -
  have c0: "(\<forall>parts. Data_resolve t = Inr parts \<and> rank t \<in> set (concat parts) \<longrightarrow>
      (\<exists>info tr'. Data_run t u tr = (Inr (info, DATA), tr') \<and>
         member_info (rank t) parts info))"
  proof (intro allI impI)
    fix parts assume a: "Data_resolve t = Inr parts \<and> rank t \<in> set (concat parts)"
    show "\<exists>info tr'. Data_run t u tr = (Inr (info, DATA), tr') \<and> member_info (rank t) parts info"
      by (rule Data_member[OF conjunct1[OF a] conjunct2[OF a]])
  qed
  have c1: "(\<forall>parts. Model_resolve t = Inr parts \<and> rank t \<in> set (concat parts) \<longrightarrow>
      (\<exists>info tr'. Model_run t u tr = (Inr (info, MODEL), tr') \<and>
         member_info (rank t) parts info))"
  proof (intro allI impI)
    fix parts assume a: "Model_resolve t = Inr parts \<and> rank t \<in> set (concat parts)"
    show "\<exists>info tr'. Model_run t u tr = (Inr (info, MODEL), tr') \<and> member_info (rank t) parts info"
      by (rule Model_member[OF conjunct1[OF a] conjunct2[OF a]])
  qed
  have c2: "(\<forall>parts. Tensor_resolve t = Inr parts \<and> rank t \<in> set (concat parts) \<longrightarrow>
      (\<exists>info tr'. Tensor_run t u tr = (Inr (info, TENSOR), tr') \<and>
         member_info (rank t) parts info))"
  proof (intro allI impI)
    fix parts assume a: "Tensor_resolve t = Inr parts \<and> rank t \<in> set (concat parts)"
    show "\<exists>info tr'. Tensor_run t u tr = (Inr (info, TENSOR), tr') \<and> member_info (rank t) parts info"
      by (rule Tensor_member[OF conjunct1[OF a] conjunct2[OF a]])
  qed
  have c3: "(\<forall>parts. Pipeline_resolve t = Inr parts \<and> rank t \<in> set (concat parts) \<longrightarrow>
      (\<exists>info tr'. Pipeline_run t u tr = (Inr (info, PIPELINE), tr') \<and>
         member_info (rank t) parts info))"
  proof (intro allI impI)
    fix parts assume a: "Pipeline_resolve t = Inr parts \<and> rank t \<in> set (concat parts)"
    show "\<exists>info tr'. Pipeline_run t u tr = (Inr (info, PIPELINE), tr') \<and> member_info (rank t) parts info"
      by (rule Pipeline_member[OF conjunct1[OF a] conjunct2[OF a]])
  qed
  have c4: "(\<forall>parts. Zero1_resolve t = Inr parts \<and> rank t \<in> set (concat parts) \<longrightarrow>
      (\<exists>info tr'. Zero1_run t u tr = (Inr (info, ZERO1), tr') \<and>
         member_info (rank t) parts info))"
  proof (intro allI impI)
    fix parts assume a: "Zero1_resolve t = Inr parts \<and> rank t \<in> set (concat parts)"
    show "\<exists>info tr'. Zero1_run t u tr = (Inr (info, ZERO1), tr') \<and> member_info (rank t) parts info"
      by (rule Zero1_member[OF conjunct1[OF a] conjunct2[OF a]])
  qed
  have c5: "(\<forall>parts. Nettest_resolve t = Inr parts \<and> rank t \<in> set (concat parts) \<longrightarrow>
      (\<exists>info tr'. Nettest_run t u tr = (Inr (info, NETTEST), tr') \<and>
         member_info (rank t) parts info))"
  proof (intro allI impI)
    fix parts assume a: "Nettest_resolve t = Inr parts \<and> rank t \<in> set (concat parts)"
    show "\<exists>info tr'. Nettest_run t u tr = (Inr (info, NETTEST), tr') \<and> member_info (rank t) parts info"
      by (rule Nettest_member[OF conjunct1[OF a] conjunct2[OF a]])
  qed
  have c6: "(\<forall>parts. Expert_resolve t = Inr parts \<and> rank t \<in> set (concat parts) \<longrightarrow>
      (\<exists>info tr'. Expert_run t u tr = (Inr (info, EXPERT), tr') \<and>
         member_info (rank t) parts info))"
  proof (intro allI impI)
    fix parts assume a: "Expert_resolve t = Inr parts \<and> rank t \<in> set (concat parts)"
    show "\<exists>info tr'. Expert_run t u tr = (Inr (info, EXPERT), tr') \<and> member_info (rank t) parts info"
      by (rule Expert_member[OF conjunct1[OF a] conjunct2[OF a]])
  qed
  have c7: "(\<forall>ep ed. Expert_Data_resolve t = Inr (ep, ed) \<longrightarrow>
      (\<exists>groups tr'. Expert_Data_run t u tr = (Inr groups, tr') \<and>
         map (\<lambda>e. (ranks_in_group (fst e), snd e)) groups
           = map (\<lambda>p. (Some p, EXPERT)) (filter (\<lambda>p. rank t \<in> set p) ep) @
             map (\<lambda>p. (Some p, EXPERT_DATA)) (filter (\<lambda>p. rank t \<in> set p) ed) \<and>
         (\<forall>e \<in> set groups.
            member_info (rank t) (if snd e = EXPERT then ep else ed) (fst e))))"
  proof (intro allI impI)
    fix ep ed assume a: "Expert_Data_resolve t = Inr (ep, ed)"
    from Expert_Data_groups[OF a, of u tr] obtain groups tr' where
      g: "Expert_Data_run t u tr = (Inr groups, tr')"
        "map (\<lambda>e. (ranks_in_group (fst e), snd e)) groups
           = map (\<lambda>p. (Some p, EXPERT)) (filter (\<lambda>p. rank t \<in> set p) ep) @
             map (\<lambda>p. (Some p, EXPERT_DATA)) (filter (\<lambda>p. rank t \<in> set p) ed)"
        "\<forall>e \<in> set groups.
              member_info (rank t) (if snd e = EXPERT then ep else ed) (fst e) \<and>
              (if u then fallback_handle_ok tr' (fst e) \<and>
                         (cpu_group (fst e) = process_group (fst e) \<longleftrightarrow> backend tr = ''gloo'')
               else cpu_group (fst e) = None)"
      by blast
    have "\<forall>e \<in> set groups. member_info (rank t) (if snd e = EXPERT then ep else ed) (fst e)"
      using g(3) by blast
    then show "\<exists>groups tr'. Expert_Data_run t u tr = (Inr groups, tr') \<and>
         map (\<lambda>e. (ranks_in_group (fst e), snd e)) groups
           = map (\<lambda>p. (Some p, EXPERT)) (filter (\<lambda>p. rank t \<in> set p) ep) @
             map (\<lambda>p. (Some p, EXPERT_DATA)) (filter (\<lambda>p. rank t \<in> set p) ed) \<and>
         (\<forall>e \<in> set groups.
            member_info (rank t) (if snd e = EXPERT then ep else ed) (fst e))"
      using g(1,2) by blast
  qed
  show ?thesis by (intro conjI c0 c1 c2 c3 c4 c5 c6 c7)
qed

text \<open>
  The theorem at rank 5 of a world of 8 ranks; the Data initializer returns local rank 2
  in the partition [1,3,5,7].
\<close>

theorem local_rank_is_index_witness:
  "Data_resolve \<lparr>rank = 5, world_size = 8, data_parallel_size = 4, pipeline_parallel_size = 2,
       tensor_parallel_size = 1, zero1_parallel_size = 2, nettest_parallel_size = 3,
       expert_parallel_size = 4\<rparr> = Inr [[0, 2, 4, 6], [1, 3, 5, 7]] \<and>
   (5 :: int) \<in> set (concat [[0, 2, 4, 6], [1, 3, 5, 7]]) \<and>
   (\<exists>info tr'. Data_run \<lparr>rank = 5, world_size = 8, data_parallel_size = 4, pipeline_parallel_size = 2,
       tensor_parallel_size = 1, zero1_parallel_size = 2, nettest_parallel_size = 3,
       expert_parallel_size = 4\<rparr> False \<lparr>backend = ''nccl'', created = []\<rparr> = (Inr (info, DATA), tr') \<and>
      member_info 5 [[0, 2, 4, 6], [1, 3, 5, 7]] info) \<and>
   Model_resolve \<lparr>rank = 5, world_size = 8, data_parallel_size = 4, pipeline_parallel_size = 2,
       tensor_parallel_size = 1, zero1_parallel_size = 2, nettest_parallel_size = 3,
       expert_parallel_size = 4\<rparr> = Inr [[0, 1], [2, 3], [4, 5], [6, 7]] \<and>
   (5 :: int) \<in> set (concat [[0, 1], [2, 3], [4, 5], [6, 7]]) \<and>
   (\<exists>info tr'. Model_run \<lparr>rank = 5, world_size = 8, data_parallel_size = 4, pipeline_parallel_size = 2,
       tensor_parallel_size = 1, zero1_parallel_size = 2, nettest_parallel_size = 3,
       expert_parallel_size = 4\<rparr> False \<lparr>backend = ''nccl'', created = []\<rparr> = (Inr (info, MODEL), tr') \<and>
      member_info 5 [[0, 1], [2, 3], [4, 5], [6, 7]] info) \<and>
   Tensor_resolve \<lparr>rank = 5, world_size = 8, data_parallel_size = 4, pipeline_parallel_size = 2,
       tensor_parallel_size = 1, zero1_parallel_size = 2, nettest_parallel_size = 3,
       expert_parallel_size = 4\<rparr> = Inr [[0], [1], [2], [3], [4], [5], [6], [7]] \<and>
   (5 :: int) \<in> set (concat [[0], [1], [2], [3], [4], [5], [6], [7]]) \<and>
   (\<exists>info tr'. Tensor_run \<lparr>rank = 5, world_size = 8, data_parallel_size = 4, pipeline_parallel_size = 2,
       tensor_parallel_size = 1, zero1_parallel_size = 2, nettest_parallel_size = 3,
       expert_parallel_size = 4\<rparr> False \<lparr>backend = ''nccl'', created = []\<rparr> = (Inr (info, TENSOR), tr') \<and>
      member_info 5 [[0], [1], [2], [3], [4], [5], [6], [7]] info) \<and>
   Pipeline_resolve \<lparr>rank = 5, world_size = 8, data_parallel_size = 4, pipeline_parallel_size = 2,
       tensor_parallel_size = 1, zero1_parallel_size = 2, nettest_parallel_size = 3,
       expert_parallel_size = 4\<rparr> = Inr [[0, 1], [2, 3], [4, 5], [6, 7]] \<and>
   (5 :: int) \<in> set (concat [[0, 1], [2, 3], [4, 5], [6, 7]]) \<and>
   (\<exists>info tr'. Pipeline_run \<lparr>rank = 5, world_size = 8, data_parallel_size = 4, pipeline_parallel_size = 2,
       tensor_parallel_size = 1, zero1_parallel_size = 2, nettest_parallel_size = 3,
       expert_parallel_size = 4\<rparr> False \<lparr>backend = ''nccl'', created = []\<rparr> = (Inr (info, PIPELINE), tr') \<and>
      member_info 5 [[0, 1], [2, 3], [4, 5], [6, 7]] info) \<and>
   Zero1_resolve \<lparr>rank = 5, world_size = 8, data_parallel_size = 4, pipeline_parallel_size = 2,
       tensor_parallel_size = 1, zero1_parallel_size = 2, nettest_parallel_size = 3,
       expert_parallel_size = 4\<rparr> = Inr [[0, 2], [4, 6], [1, 3], [5, 7]] \<and>
   (5 :: int) \<in> set (concat [[0, 2], [4, 6], [1, 3], [5, 7]]) \<and>
   (\<exists>info tr'. Zero1_run \<lparr>rank = 5, world_size = 8, data_parallel_size = 4, pipeline_parallel_size = 2,
       tensor_parallel_size = 1, zero1_parallel_size = 2, nettest_parallel_size = 3,
       expert_parallel_size = 4\<rparr> False \<lparr>backend = ''nccl'', created = []\<rparr> = (Inr (info, ZERO1), tr') \<and>
      member_info 5 [[0, 2], [4, 6], [1, 3], [5, 7]] info) \<and>
   Nettest_resolve \<lparr>rank = 5, world_size = 8, data_parallel_size = 4, pipeline_parallel_size = 2,
       tensor_parallel_size = 1, zero1_parallel_size = 2, nettest_parallel_size = 3,
       expert_parallel_size = 4\<rparr> = Inr [[0, 1, 2], [3, 4, 5], [6, 7]] \<and>
   (5 :: int) \<in> set (concat [[0, 1, 2], [3, 4, 5], [6, 7]]) \<and>
   (\<exists>info tr'. Nettest_run \<lparr>rank = 5, world_size = 8, data_parallel_size = 4, pipeline_parallel_size = 2,
       tensor_parallel_size = 1, zero1_parallel_size = 2, nettest_parallel_size = 3,
       expert_parallel_size = 4\<rparr> False \<lparr>backend = ''nccl'', created = []\<rparr> = (Inr (info, NETTEST), tr') \<and>
      member_info 5 [[0, 1, 2], [3, 4, 5], [6, 7]] info) \<and>
   Expert_resolve \<lparr>rank = 5, world_size = 8, data_parallel_size = 4, pipeline_parallel_size = 2,
       tensor_parallel_size = 1, zero1_parallel_size = 2, nettest_parallel_size = 3,
       expert_parallel_size = 4\<rparr> = Inr [[0, 2, 4, 6], [1, 3, 5, 7]] \<and>
   (5 :: int) \<in> set (concat [[0, 2, 4, 6], [1, 3, 5, 7]]) \<and>
   (\<exists>info tr'. Expert_run \<lparr>rank = 5, world_size = 8, data_parallel_size = 4, pipeline_parallel_size = 2,
       tensor_parallel_size = 1, zero1_parallel_size = 2, nettest_parallel_size = 3,
       expert_parallel_size = 4\<rparr> False \<lparr>backend = ''nccl'', created = []\<rparr> = (Inr (info, EXPERT), tr') \<and>
      member_info 5 [[0, 2, 4, 6], [1, 3, 5, 7]] info) \<and>
   Expert_Data_resolve \<lparr>rank = 5, world_size = 8, data_parallel_size = 4, pipeline_parallel_size = 2,
       tensor_parallel_size = 1, zero1_parallel_size = 2, nettest_parallel_size = 3,
       expert_parallel_size = 4\<rparr>
     = Inr ([[0, 2, 4, 6], [1, 3, 5, 7]], [[0], [2], [4], [6], [1], [3], [5], [7]]) \<and>
   (\<exists>groups tr'. Expert_Data_run \<lparr>rank = 5, world_size = 8, data_parallel_size = 4, pipeline_parallel_size = 2,
       tensor_parallel_size = 1, zero1_parallel_size = 2, nettest_parallel_size = 3,
       expert_parallel_size = 4\<rparr> False \<lparr>backend = ''nccl'', created = []\<rparr> = (Inr groups, tr') \<and>
      map (\<lambda>e. (ranks_in_group (fst e), snd e)) groups
        = [(Some [1, 3, 5, 7], EXPERT), (Some [5], EXPERT_DATA)] \<and>
      (\<forall>e \<in> set groups.
         member_info 5 (if snd e = EXPERT then [[0, 2, 4, 6], [1, 3, 5, 7]]
                        else [[0], [2], [4], [6], [1], [3], [5], [7]]) (fst e))) \<and>
   Data_run \<lparr>rank = 5, world_size = 8, data_parallel_size = 4, pipeline_parallel_size = 2,
       tensor_parallel_size = 1, zero1_parallel_size = 2, nettest_parallel_size = 3,
       expert_parallel_size = 4\<rparr> False \<lparr>backend = ''nccl'', created = []\<rparr>
     = (Inr (\<lparr>local_rank = Some 2, group_world_size = Some 4, process_group = Some 1,
               cpu_group = None, ranks_in_group = Some [1, 3, 5, 7]\<rparr>, DATA),
        \<lparr>backend = ''nccl'', created = [([0, 2, 4, 6], None), ([1, 3, 5, 7], None)]\<rparr>)"
proof -
  let ?t = "\<lparr>rank = 5 :: int, world_size = 8, data_parallel_size = 4, pipeline_parallel_size = 2,
       tensor_parallel_size = 1, zero1_parallel_size = 2, nettest_parallel_size = 3,
       expert_parallel_size = 4\<rparr>"
  let ?tr = "\<lparr>backend = ''nccl'', created = []\<rparr>"
  note th = local_rank_is_index[of ?t False ?tr]
  have r: "rank ?t = 5" by simp
  have m0: "(5 :: int) \<in> set (concat [[0, 2, 4, 6], [1, 3, 5, 7]])" by simp
  have c0: "\<exists>info tr'. Data_run ?t False ?tr = (Inr (info, DATA), tr') \<and>
      member_info 5 [[0, 2, 4, 6], [1, 3, 5, 7]] info"
    using th example_resolves(1)[of 5] m0 unfolding r by blast
  have m1: "(5 :: int) \<in> set (concat [[0, 1], [2, 3], [4, 5], [6, 7]])" by simp
  have c1: "\<exists>info tr'. Model_run ?t False ?tr = (Inr (info, MODEL), tr') \<and>
      member_info 5 [[0, 1], [2, 3], [4, 5], [6, 7]] info"
    using th example_resolves(2)[of 5] m1 unfolding r by blast
  have m2: "(5 :: int) \<in> set (concat [[0], [1], [2], [3], [4], [5], [6], [7]])" by simp
  have c2: "\<exists>info tr'. Tensor_run ?t False ?tr = (Inr (info, TENSOR), tr') \<and>
      member_info 5 [[0], [1], [2], [3], [4], [5], [6], [7]] info"
    using th example_resolves(3)[of 5] m2 unfolding r by blast
  have m3: "(5 :: int) \<in> set (concat [[0, 1], [2, 3], [4, 5], [6, 7]])" by simp
  have c3: "\<exists>info tr'. Pipeline_run ?t False ?tr = (Inr (info, PIPELINE), tr') \<and>
      member_info 5 [[0, 1], [2, 3], [4, 5], [6, 7]] info"
    using th example_resolves(4)[of 5] m3 unfolding r by blast
  have m4: "(5 :: int) \<in> set (concat [[0, 2], [4, 6], [1, 3], [5, 7]])" by simp
  have c4: "\<exists>info tr'. Zero1_run ?t False ?tr = (Inr (info, ZERO1), tr') \<and>
      member_info 5 [[0, 2], [4, 6], [1, 3], [5, 7]] info"
    using th example_resolves(5)[of 5] m4 unfolding r by blast
  have m5: "(5 :: int) \<in> set (concat [[0, 1, 2], [3, 4, 5], [6, 7]])" by simp
  have c5: "\<exists>info tr'. Nettest_run ?t False ?tr = (Inr (info, NETTEST), tr') \<and>
      member_info 5 [[0, 1, 2], [3, 4, 5], [6, 7]] info"
    using th example_resolves(6)[of 5] m5 unfolding r by blast
  have m6: "(5 :: int) \<in> set (concat [[0, 2, 4, 6], [1, 3, 5, 7]])" by simp
  have c6: "\<exists>info tr'. Expert_run ?t False ?tr = (Inr (info, EXPERT), tr') \<and>
      member_info 5 [[0, 2, 4, 6], [1, 3, 5, 7]] info"
    using th example_resolves(7)[of 5] m6 unfolding r by blast
  have "\<exists>groups tr'. Expert_Data_run ?t False ?tr = (Inr groups, tr') \<and>
      map (\<lambda>e. (ranks_in_group (fst e), snd e)) groups
        = map (\<lambda>p. (Some p, EXPERT)) (filter (\<lambda>p. 5 \<in> set p) [[0, 2, 4, 6], [1, 3, 5, 7]]) @
          map (\<lambda>p. (Some p, EXPERT_DATA)) (filter (\<lambda>p. 5 \<in> set p) [[0], [2], [4], [6], [1], [3], [5], [7]]) \<and>
      (\<forall>e \<in> set groups.
         member_info 5 (if snd e = EXPERT then [[0, 2, 4, 6], [1, 3, 5, 7]]
                        else [[0], [2], [4], [6], [1], [3], [5], [7]]) (fst e))"
    using th example_resolves(8)[of 5] unfolding r by blast
  then have c7: "\<exists>groups tr'. Expert_Data_run ?t False ?tr = (Inr groups, tr') \<and>
      map (\<lambda>e. (ranks_in_group (fst e), snd e)) groups
        = [(Some [1, 3, 5, 7], EXPERT), (Some [5], EXPERT_DATA)] \<and>
      (\<forall>e \<in> set groups.
         member_info 5 (if snd e = EXPERT then [[0, 2, 4, 6], [1, 3, 5, 7]]
                        else [[0], [2], [4], [6], [1], [3], [5], [7]]) (fst e))"
    by simp
  have run: "Data_run ?t False ?tr
     = (Inr (\<lparr>local_rank = Some 2, group_world_size = Some 4, process_group = Some 1,
               cpu_group = None, ranks_in_group = Some [1, 3, 5, 7]\<rparr>, DATA),
        \<lparr>backend = ''nccl'', created = [([0, 2, 4, 6], None), ([1, 3, 5, 7], None)]\<rparr>)"
    by (simp add: Data_run_ok[OF example_resolves(1)] group_loop_def group_step_def
        create_groups_def new_group_def py_index_def no_group_def)
  show ?thesis
    by (intro conjI example_resolves m0 m1 m2 m3 m4 m5 m6 c0 c1 c2 c3 c4 c5 c6 c7 run)
qed

section \<open>The CPU fallback group\<close>

text \<open>
  C7. Let the CPU groups be requested (\<open>use_cpu\<close> is true) and let the own rank be a member
  of a partition. Every initializer returns a tuple for the rank's partition whose CPU
  group, if the active backend is gloo, is the primary group handle itself, and otherwise
  is a different handle, of a group that was created with the gloo backend for the same
  ranks. Expert_Data returns such a tuple for every expert partition and every
  expert-data partition holding the rank.
\<close>

theorem fallback_handle_reuse:
  "(\<forall>parts. Data_resolve t = Inr parts \<and> rank t \<in> set (concat parts) \<longrightarrow>
      (\<exists>info tr'. Data_run t True tr = (Inr (info, DATA), tr') \<and> backend tr' = backend tr \<and>
         member_info (rank t) parts info \<and> fallback_handle_ok tr' info \<and>
         (cpu_group info = process_group info \<longleftrightarrow> backend tr = ''gloo''))) \<and>
   (\<forall>parts. Model_resolve t = Inr parts \<and> rank t \<in> set (concat parts) \<longrightarrow>
      (\<exists>info tr'. Model_run t True tr = (Inr (info, MODEL), tr') \<and> backend tr' = backend tr \<and>
         member_info (rank t) parts info \<and> fallback_handle_ok tr' info \<and>
         (cpu_group info = process_group info \<longleftrightarrow> backend tr = ''gloo''))) \<and>
   (\<forall>parts. Tensor_resolve t = Inr parts \<and> rank t \<in> set (concat parts) \<longrightarrow>
      (\<exists>info tr'. Tensor_run t True tr = (Inr (info, TENSOR), tr') \<and> backend tr' = backend tr \<and>
         member_info (rank t) parts info \<and> fallback_handle_ok tr' info \<and>
         (cpu_group info = process_group info \<longleftrightarrow> backend tr = ''gloo''))) \<and>
   (\<forall>parts. Pipeline_resolve t = Inr parts \<and> rank t \<in> set (concat parts) \<longrightarrow>
      (\<exists>info tr'. Pipeline_run t True tr = (Inr (info, PIPELINE), tr') \<and> backend tr' = backend tr \<and>
         member_info (rank t) parts info \<and> fallback_handle_ok tr' info \<and>
         (cpu_group info = process_group info \<longleftrightarrow> backend tr = ''gloo''))) \<and>
   (\<forall>parts. Zero1_resolve t = Inr parts \<and> rank t \<in> set (concat parts) \<longrightarrow>
      (\<exists>info tr'. Zero1_run t True tr = (Inr (info, ZERO1), tr') \<and> backend tr' = backend tr \<and>
         member_info (rank t) parts info \<and> fallback_handle_ok tr' info \<and>
         (cpu_group info = process_group info \<longleftrightarrow> backend tr = ''gloo''))) \<and>
   (\<forall>parts. Nettest_resolve t = Inr parts \<and> rank t \<in> set (concat parts) \<longrightarrow>
      (\<exists>info tr'. Nettest_run t True tr = (Inr (info, NETTEST), tr') \<and> backend tr' = backend tr \<and>
         member_info (rank t) parts info \<and> fallback_handle_ok tr' info \<and>
         (cpu_group info = process_group info \<longleftrightarrow> backend tr = ''gloo''))) \<and>
   (\<forall>parts. Expert_resolve t = Inr parts \<and> rank t \<in> set (concat parts) \<longrightarrow>
      (\<exists>info tr'. Expert_run t True tr = (Inr (info, EXPERT), tr') \<and> backend tr' = backend tr \<and>
         member_info (rank t) parts info \<and> fallback_handle_ok tr' info \<and>
         (cpu_group info = process_group info \<longleftrightarrow> backend tr = ''gloo''))) \<and>
   (\<forall>ep ed. Expert_Data_resolve t = Inr (ep, ed) \<longrightarrow>
      (\<exists>groups tr'. Expert_Data_run t True tr = (Inr groups, tr') \<and> backend tr' = backend tr \<and>
         map (\<lambda>e. (ranks_in_group (fst e), snd e)) groups
           = map (\<lambda>p. (Some p, EXPERT)) (filter (\<lambda>p. rank t \<in> set p) ep) @
             map (\<lambda>p. (Some p, EXPERT_DATA)) (filter (\<lambda>p. rank t \<in> set p) ed) \<and>
         (\<forall>e \<in> set groups.
            member_info (rank t) (if snd e = EXPERT then ep else ed) (fst e) \<and>
            fallback_handle_ok tr' (fst e) \<and>
            (cpu_group (fst e) = process_group (fst e) \<longleftrightarrow> backend tr = ''gloo''))))"
proof -
  have c0: "(\<forall>parts. Data_resolve t = Inr parts \<and> rank t \<in> set (concat parts) \<longrightarrow>
      (\<exists>info tr'. Data_run t True tr = (Inr (info, DATA), tr') \<and> backend tr' = backend tr \<and>
         member_info (rank t) parts info \<and> fallback_handle_ok tr' info \<and>
         (cpu_group info = process_group info \<longleftrightarrow> backend tr = ''gloo'')))"
  proof (intro allI impI)
    fix parts assume a: "Data_resolve t = Inr parts \<and> rank t \<in> set (concat parts)"
    show "\<exists>info tr'. Data_run t True tr = (Inr (info, DATA), tr') \<and> backend tr' = backend tr \<and>
         member_info (rank t) parts info \<and> fallback_handle_ok tr' info \<and>
         (cpu_group info = process_group info \<longleftrightarrow> backend tr = ''gloo'')"
      by (rule Data_fallback[OF conjunct1[OF a] conjunct2[OF a]])
  qed
  have c1: "(\<forall>parts. Model_resolve t = Inr parts \<and> rank t \<in> set (concat parts) \<longrightarrow>
      (\<exists>info tr'. Model_run t True tr = (Inr (info, MODEL), tr') \<and> backend tr' = backend tr \<and>
         member_info (rank t) parts info \<and> fallback_handle_ok tr' info \<and>
         (cpu_group info = process_group info \<longleftrightarrow> backend tr = ''gloo'')))"
  proof (intro allI impI)
    fix parts assume a: "Model_resolve t = Inr parts \<and> rank t \<in> set (concat parts)"
    show "\<exists>info tr'. Model_run t True tr = (Inr (info, MODEL), tr') \<and> backend tr' = backend tr \<and>
         member_info (rank t) parts info \<and> fallback_handle_ok tr' info \<and>
         (cpu_group info = process_group info \<longleftrightarrow> backend tr = ''gloo'')"
      by (rule Model_fallback[OF conjunct1[OF a] conjunct2[OF a]])
  qed
  have c2: "(\<forall>parts. Tensor_resolve t = Inr parts \<and> rank t \<in> set (concat parts) \<longrightarrow>
      (\<exists>info tr'. Tensor_run t True tr = (Inr (info, TENSOR), tr') \<and> backend tr' = backend tr \<and>
         member_info (rank t) parts info \<and> fallback_handle_ok tr' info \<and>
         (cpu_group info = process_group info \<longleftrightarrow> backend tr = ''gloo'')))"
  proof (intro allI impI)
    fix parts assume a: "Tensor_resolve t = Inr parts \<and> rank t \<in> set (concat parts)"
    show "\<exists>info tr'. Tensor_run t True tr = (Inr (info, TENSOR), tr') \<and> backend tr' = backend tr \<and>
         member_info (rank t) parts info \<and> fallback_handle_ok tr' info \<and>
         (cpu_group info = process_group info \<longleftrightarrow> backend tr = ''gloo'')"
      by (rule Tensor_fallback[OF conjunct1[OF a] conjunct2[OF a]])
  qed
  have c3: "(\<forall>parts. Pipeline_resolve t = Inr parts \<and> rank t \<in> set (concat parts) \<longrightarrow>
      (\<exists>info tr'. Pipeline_run t True tr = (Inr (info, PIPELINE), tr') \<and> backend tr' = backend tr \<and>
         member_info (rank t) parts info \<and> fallback_handle_ok tr' info \<and>
         (cpu_group info = process_group info \<longleftrightarrow> backend tr = ''gloo'')))"
  proof (intro allI impI)
    fix parts assume a: "Pipeline_resolve t = Inr parts \<and> rank t \<in> set (concat parts)"
    show "\<exists>info tr'. Pipeline_run t True tr = (Inr (info, PIPELINE), tr') \<and> backend tr' = backend tr \<and>
         member_info (rank t) parts info \<and> fallback_handle_ok tr' info \<and>
         (cpu_group info = process_group info \<longleftrightarrow> backend tr = ''gloo'')"
      by (rule Pipeline_fallback[OF conjunct1[OF a] conjunct2[OF a]])
  qed
  have c4: "(\<forall>parts. Zero1_resolve t = Inr parts \<and> rank t \<in> set (concat parts) \<longrightarrow>
      (\<exists>info tr'. Zero1_run t True tr = (Inr (info, ZERO1), tr') \<and> backend tr' = backend tr \<and>
         member_info (rank t) parts info \<and> fallback_handle_ok tr' info \<and>
         (cpu_group info = process_group info \<longleftrightarrow> backend tr = ''gloo'')))"
  proof (intro allI impI)
    fix parts assume a: "Zero1_resolve t = Inr parts \<and> rank t \<in> set (concat parts)"
    show "\<exists>info tr'. Zero1_run t True tr = (Inr (info, ZERO1), tr') \<and> backend tr' = backend tr \<and>
         member_info (rank t) parts info \<and> fallback_handle_ok tr' info \<and>
         (cpu_group info = process_group info \<longleftrightarrow> backend tr = ''gloo'')"
      by (rule Zero1_fallback[OF conjunct1[OF a] conjunct2[OF a]])
  qed
  have c5: "(\<forall>parts. Nettest_resolve t = Inr parts \<and> rank t \<in> set (concat parts) \<longrightarrow>
      (\<exists>info tr'. Nettest_run t True tr = (Inr (info, NETTEST), tr') \<and> backend tr' = backend tr \<and>
         member_info (rank t) parts info \<and> fallback_handle_ok tr' info \<and>
         (cpu_group info = process_group info \<longleftrightarrow> backend tr = ''gloo'')))"
  proof (intro allI impI)
    fix parts assume a: "Nettest_resolve t = Inr parts \<and> rank t \<in> set (concat parts)"
    show "\<exists>info tr'. Nettest_run t True tr = (Inr (info, NETTEST), tr') \<and> backend tr' = backend tr \<and>
         member_info (rank t) parts info \<and> fallback_handle_ok tr' info \<and>
         (cpu_group info = process_group info \<longleftrightarrow> backend tr = ''gloo'')"
      by (rule Nettest_fallback[OF conjunct1[OF a] conjunct2[OF a]])
  qed
  have c6: "(\<forall>parts. Expert_resolve t = Inr parts \<and> rank t \<in> set (concat parts) \<longrightarrow>
      (\<exists>info tr'. Expert_run t True tr = (Inr (info, EXPERT), tr') \<and> backend tr' = backend tr \<and>
         member_info (rank t) parts info \<and> fallback_handle_ok tr' info \<and>
         (cpu_group info = process_group info \<longleftrightarrow> backend tr = ''gloo'')))"
  proof (intro allI impI)
    fix parts assume a: "Expert_resolve t = Inr parts \<and> rank t \<in> set (concat parts)"
    show "\<exists>info tr'. Expert_run t True tr = (Inr (info, EXPERT), tr') \<and> backend tr' = backend tr \<and>
         member_info (rank t) parts info \<and> fallback_handle_ok tr' info \<and>
         (cpu_group info = process_group info \<longleftrightarrow> backend tr = ''gloo'')"
      by (rule Expert_fallback[OF conjunct1[OF a] conjunct2[OF a]])
  qed
  have c7: "(\<forall>ep ed. Expert_Data_resolve t = Inr (ep, ed) \<longrightarrow>
      (\<exists>groups tr'. Expert_Data_run t True tr = (Inr groups, tr') \<and> backend tr' = backend tr \<and>
         map (\<lambda>e. (ranks_in_group (fst e), snd e)) groups
           = map (\<lambda>p. (Some p, EXPERT)) (filter (\<lambda>p. rank t \<in> set p) ep) @
             map (\<lambda>p. (Some p, EXPERT_DATA)) (filter (\<lambda>p. rank t \<in> set p) ed) \<and>
         (\<forall>e \<in> set groups.
            member_info (rank t) (if snd e = EXPERT then ep else ed) (fst e) \<and>
            fallback_handle_ok tr' (fst e) \<and>
            (cpu_group (fst e) = process_group (fst e) \<longleftrightarrow> backend tr = ''gloo''))))"
  proof (intro allI impI)
    fix ep ed assume a: "Expert_Data_resolve t = Inr (ep, ed)"
    from Expert_Data_groups[OF a, of True tr] obtain groups tr' where
      g: "Expert_Data_run t True tr = (Inr groups, tr')" "backend tr' = backend tr"
        "map (\<lambda>e. (ranks_in_group (fst e), snd e)) groups
           = map (\<lambda>p. (Some p, EXPERT)) (filter (\<lambda>p. rank t \<in> set p) ep) @
             map (\<lambda>p. (Some p, EXPERT_DATA)) (filter (\<lambda>p. rank t \<in> set p) ed)"
        "\<forall>e \<in> set groups.
              member_info (rank t) (if snd e = EXPERT then ep else ed) (fst e) \<and>
              (if True then fallback_handle_ok tr' (fst e) \<and>
                         (cpu_group (fst e) = process_group (fst e) \<longleftrightarrow> backend tr = ''gloo'')
               else cpu_group (fst e) = None)"
      by blast
    have all: "\<forall>e \<in> set groups.
            member_info (rank t) (if snd e = EXPERT then ep else ed) (fst e) \<and>
            fallback_handle_ok tr' (fst e) \<and>
            (cpu_group (fst e) = process_group (fst e) \<longleftrightarrow> backend tr = ''gloo'')"
      using g(4) by simp
    show "\<exists>groups tr'. Expert_Data_run t True tr = (Inr groups, tr') \<and> backend tr' = backend tr \<and>
         map (\<lambda>e. (ranks_in_group (fst e), snd e)) groups
           = map (\<lambda>p. (Some p, EXPERT)) (filter (\<lambda>p. rank t \<in> set p) ep) @
             map (\<lambda>p. (Some p, EXPERT_DATA)) (filter (\<lambda>p. rank t \<in> set p) ed) \<and>
         (\<forall>e \<in> set groups.
            member_info (rank t) (if snd e = EXPERT then ep else ed) (fst e) \<and>
            fallback_handle_ok tr' (fst e) \<and>
            (cpu_group (fst e) = process_group (fst e) \<longleftrightarrow> backend tr = ''gloo''))"
      by (intro exI[of _ groups] exI[of _ tr'] conjI g(1) g(2) g(3) all)
  qed
  show ?thesis by (intro conjI c0 c1 c2 c3 c4 c5 c6 c7)
qed

text \<open>
  The theorem at rank 5 of a world of 8 ranks, on gloo and on nccl. The Data initializer
  returns the handles 1 and 1 on gloo, and 2 and 3 on nccl; Expert_Data returns one tuple
  for the expert partition [1,3,5,7] and one for the expert-data partition [5].
\<close>

theorem fallback_handle_reuse_witness:
  "Data_resolve \<lparr>rank = 5, world_size = 8, data_parallel_size = 4, pipeline_parallel_size = 2,
       tensor_parallel_size = 1, zero1_parallel_size = 2, nettest_parallel_size = 3,
       expert_parallel_size = 4\<rparr> = Inr [[0, 2, 4, 6], [1, 3, 5, 7]] \<and>
   (5 :: int) \<in> set (concat [[0, 2, 4, 6], [1, 3, 5, 7]]) \<and>
   (\<exists>info tr'. Data_run \<lparr>rank = 5, world_size = 8, data_parallel_size = 4, pipeline_parallel_size = 2,
       tensor_parallel_size = 1, zero1_parallel_size = 2, nettest_parallel_size = 3,
       expert_parallel_size = 4\<rparr> True \<lparr>backend = ''gloo'', created = []\<rparr> = (Inr (info, DATA), tr') \<and>
      backend tr' = ''gloo'' \<and> member_info 5 [[0, 2, 4, 6], [1, 3, 5, 7]] info \<and>
      fallback_handle_ok tr' info \<and> cpu_group info = process_group info) \<and>
   Model_resolve \<lparr>rank = 5, world_size = 8, data_parallel_size = 4, pipeline_parallel_size = 2,
       tensor_parallel_size = 1, zero1_parallel_size = 2, nettest_parallel_size = 3,
       expert_parallel_size = 4\<rparr> = Inr [[0, 1], [2, 3], [4, 5], [6, 7]] \<and>
   (5 :: int) \<in> set (concat [[0, 1], [2, 3], [4, 5], [6, 7]]) \<and>
   (\<exists>info tr'. Model_run \<lparr>rank = 5, world_size = 8, data_parallel_size = 4, pipeline_parallel_size = 2,
       tensor_parallel_size = 1, zero1_parallel_size = 2, nettest_parallel_size = 3,
       expert_parallel_size = 4\<rparr> True \<lparr>backend = ''gloo'', created = []\<rparr> = (Inr (info, MODEL), tr') \<and>
      backend tr' = ''gloo'' \<and> member_info 5 [[0, 1], [2, 3], [4, 5], [6, 7]] info \<and>
      fallback_handle_ok tr' info \<and> cpu_group info = process_group info) \<and>
   Tensor_resolve \<lparr>rank = 5, world_size = 8, data_parallel_size = 4, pipeline_parallel_size = 2,
       tensor_parallel_size = 1, zero1_parallel_size = 2, nettest_parallel_size = 3,
       expert_parallel_size = 4\<rparr> = Inr [[0], [1], [2], [3], [4], [5], [6], [7]] \<and>
   (5 :: int) \<in> set (concat [[0], [1], [2], [3], [4], [5], [6], [7]]) \<and>
   (\<exists>info tr'. Tensor_run \<lparr>rank = 5, world_size = 8, data_parallel_size = 4, pipeline_parallel_size = 2,
       tensor_parallel_size = 1, zero1_parallel_size = 2, nettest_parallel_size = 3,
       expert_parallel_size = 4\<rparr> True \<lparr>backend = ''gloo'', created = []\<rparr> = (Inr (info, TENSOR), tr') \<and>
      backend tr' = ''gloo'' \<and> member_info 5 [[0], [1], [2], [3], [4], [5], [6], [7]] info \<and>
      fallback_handle_ok tr' info \<and> cpu_group info = process_group info) \<and>
   Pipeline_resolve \<lparr>rank = 5, world_size = 8, data_parallel_size = 4, pipeline_parallel_size = 2,
       tensor_parallel_size = 1, zero1_parallel_size = 2, nettest_parallel_size = 3,
       expert_parallel_size = 4\<rparr> = Inr [[0, 1], [2, 3], [4, 5], [6, 7]] \<and>
   (5 :: int) \<in> set (concat [[0, 1], [2, 3], [4, 5], [6, 7]]) \<and>
   (\<exists>info tr'. Pipeline_run \<lparr>rank = 5, world_size = 8, data_parallel_size = 4, pipeline_parallel_size = 2,
       tensor_parallel_size = 1, zero1_parallel_size = 2, nettest_parallel_size = 3,
       expert_parallel_size = 4\<rparr> True \<lparr>backend = ''gloo'', created = []\<rparr> = (Inr (info, PIPELINE), tr') \<and>
      backend tr' = ''gloo'' \<and> member_info 5 [[0, 1], [2, 3], [4, 5], [6, 7]] info \<and>
      fallback_handle_ok tr' info \<and> cpu_group info = process_group info) \<and>
   Zero1_resolve \<lparr>rank = 5, world_size = 8, data_parallel_size = 4, pipeline_parallel_size = 2,
       tensor_parallel_size = 1, zero1_parallel_size = 2, nettest_parallel_size = 3,
       expert_parallel_size = 4\<rparr> = Inr [[0, 2], [4, 6], [1, 3], [5, 7]] \<and>
   (5 :: int) \<in> set (concat [[0, 2], [4, 6], [1, 3], [5, 7]]) \<and>
   (\<exists>info tr'. Zero1_run \<lparr>rank = 5, world_size = 8, data_parallel_size = 4, pipeline_parallel_size = 2,
       tensor_parallel_size = 1, zero1_parallel_size = 2, nettest_parallel_size = 3,
       expert_parallel_size = 4\<rparr> True \<lparr>backend = ''gloo'', created = []\<rparr> = (Inr (info, ZERO1), tr') \<and>
      backend tr' = ''gloo'' \<and> member_info 5 [[0, 2], [4, 6], [1, 3], [5, 7]] info \<and>
      fallback_handle_ok tr' info \<and> cpu_group info = process_group info) \<and>
   Nettest_resolve \<lparr>rank = 5, world_size = 8, data_parallel_size = 4, pipeline_parallel_size = 2,
       tensor_parallel_size = 1, zero1_parallel_size = 2, nettest_parallel_size = 3,
       expert_parallel_size = 4\<rparr> = Inr [[0, 1, 2], [3, 4, 5], [6, 7]] \<and>
   (5 :: int) \<in> set (concat [[0, 1, 2], [3, 4, 5], [6, 7]]) \<and>
   (\<exists>info tr'. Nettest_run \<lparr>rank = 5, world_size = 8, data_parallel_size = 4, pipeline_parallel_size = 2,
       tensor_parallel_size = 1, zero1_parallel_size = 2, nettest_parallel_size = 3,
       expert_parallel_size = 4\<rparr> True \<lparr>backend = ''gloo'', created = []\<rparr> = (Inr (info, NETTEST), tr') \<and>
      backend tr' = ''gloo'' \<and> member_info 5 [[0, 1, 2], [3, 4, 5], [6, 7]] info \<and>
      fallback_handle_ok tr' info \<and> cpu_group info = process_group info) \<and>
   Expert_resolve \<lparr>rank = 5, world_size = 8, data_parallel_size = 4, pipeline_parallel_size = 2,
       tensor_parallel_size = 1, zero1_parallel_size = 2, nettest_parallel_size = 3,
       expert_parallel_size = 4\<rparr> = Inr [[0, 2, 4, 6], [1, 3, 5, 7]] \<and>
   (5 :: int) \<in> set (concat [[0, 2, 4, 6], [1, 3, 5, 7]]) \<and>
   (\<exists>info tr'. Expert_run \<lparr>rank = 5, world_size = 8, data_parallel_size = 4, pipeline_parallel_size = 2,
       tensor_parallel_size = 1, zero1_parallel_size = 2, nettest_parallel_size = 3,
       expert_parallel_size = 4\<rparr> True \<lparr>backend = ''gloo'', created = []\<rparr> = (Inr (info, EXPERT), tr') \<and>
      backend tr' = ''gloo'' \<and> member_info 5 [[0, 2, 4, 6], [1, 3, 5, 7]] info \<and>
      fallback_handle_ok tr' info \<and> cpu_group info = process_group info) \<and>
   Expert_Data_resolve \<lparr>rank = 5, world_size = 8, data_parallel_size = 4, pipeline_parallel_size = 2,
       tensor_parallel_size = 1, zero1_parallel_size = 2, nettest_parallel_size = 3,
       expert_parallel_size = 4\<rparr>
     = Inr ([[0, 2, 4, 6], [1, 3, 5, 7]], [[0], [2], [4], [6], [1], [3], [5], [7]]) \<and>
   (\<exists>groups tr'. Expert_Data_run \<lparr>rank = 5, world_size = 8, data_parallel_size = 4, pipeline_parallel_size = 2,
       tensor_parallel_size = 1, zero1_parallel_size = 2, nettest_parallel_size = 3,
       expert_parallel_size = 4\<rparr> True \<lparr>backend = ''nccl'', created = []\<rparr> = (Inr groups, tr') \<and>
      backend tr' = ''nccl'' \<and>
      map (\<lambda>e. (ranks_in_group (fst e), snd e)) groups
        = [(Some [1, 3, 5, 7], EXPERT), (Some [5], EXPERT_DATA)] \<and>
      (\<forall>e \<in> set groups.
         member_info 5 (if snd e = EXPERT then [[0, 2, 4, 6], [1, 3, 5, 7]]
                        else [[0], [2], [4], [6], [1], [3], [5], [7]]) (fst e) \<and>
         fallback_handle_ok tr' (fst e) \<and> cpu_group (fst e) \<noteq> process_group (fst e))) \<and>
   Data_run \<lparr>rank = 5, world_size = 8, data_parallel_size = 4, pipeline_parallel_size = 2,
       tensor_parallel_size = 1, zero1_parallel_size = 2, nettest_parallel_size = 3,
       expert_parallel_size = 4\<rparr> True \<lparr>backend = ''nccl'', created = []\<rparr>
     = (Inr (\<lparr>local_rank = Some 2, group_world_size = Some 4, process_group = Some 2,
               cpu_group = Some 3, ranks_in_group = Some [1, 3, 5, 7]\<rparr>, DATA),
        \<lparr>backend = ''nccl'',
          created = [([0, 2, 4, 6], None), ([0, 2, 4, 6], Some ''gloo''),
                     ([1, 3, 5, 7], None), ([1, 3, 5, 7], Some ''gloo'')]\<rparr>) \<and>
   fallback_handle_ok \<lparr>backend = ''nccl'',
          created = [([0, 2, 4, 6], None), ([0, 2, 4, 6], Some ''gloo''),
                     ([1, 3, 5, 7], None), ([1, 3, 5, 7], Some ''gloo'')]\<rparr>
     \<lparr>local_rank = Some 2, group_world_size = Some 4, process_group = Some 2,
               cpu_group = Some 3, ranks_in_group = Some [1, 3, 5, 7]\<rparr> \<and>
   Data_run \<lparr>rank = 5, world_size = 8, data_parallel_size = 4, pipeline_parallel_size = 2,
       tensor_parallel_size = 1, zero1_parallel_size = 2, nettest_parallel_size = 3,
       expert_parallel_size = 4\<rparr> True \<lparr>backend = ''gloo'', created = []\<rparr>
     = (Inr (\<lparr>local_rank = Some 2, group_world_size = Some 4, process_group = Some 1,
               cpu_group = Some 1, ranks_in_group = Some [1, 3, 5, 7]\<rparr>, DATA),
        \<lparr>backend = ''gloo'', created = [([0, 2, 4, 6], None), ([1, 3, 5, 7], None)]\<rparr>) \<and>
   fallback_handle_ok \<lparr>backend = ''gloo'', created = [([0, 2, 4, 6], None), ([1, 3, 5, 7], None)]\<rparr>
     \<lparr>local_rank = Some 2, group_world_size = Some 4, process_group = Some 1,
               cpu_group = Some 1, ranks_in_group = Some [1, 3, 5, 7]\<rparr>"
proof -
  let ?t = "\<lparr>rank = 5 :: int, world_size = 8, data_parallel_size = 4, pipeline_parallel_size = 2,
       tensor_parallel_size = 1, zero1_parallel_size = 2, nettest_parallel_size = 3,
       expert_parallel_size = 4\<rparr>"
  let ?n = "\<lparr>backend = ''nccl'', created = []\<rparr>"
  let ?g = "\<lparr>backend = ''gloo'', created = []\<rparr>"
  have r: "rank ?t = 5" and bn: "backend ?n = ''nccl''" and bg: "backend ?g = ''gloo''"
    by simp_all
  note thn = fallback_handle_reuse[of ?t ?n, unfolded r bn]
    and thg = fallback_handle_reuse[of ?t ?g, unfolded r bg]
  have m0: "(5 :: int) \<in> set (concat [[0, 2, 4, 6], [1, 3, 5, 7]])" by simp
  note g0 = thg[THEN conjunct1]
  have c0: "\<exists>info tr'. Data_run ?t True ?g = (Inr (info, DATA), tr') \<and>
      backend tr' = ''gloo'' \<and> member_info 5 [[0, 2, 4, 6], [1, 3, 5, 7]] info \<and>
      fallback_handle_ok tr' info \<and> cpu_group info = process_group info"
    using mp[OF spec[OF g0] conjI[OF example_resolves(1)[of 5] m0]] by simp
  have m1: "(5 :: int) \<in> set (concat [[0, 1], [2, 3], [4, 5], [6, 7]])" by simp
  note g1 = thg[THEN conjunct2, THEN conjunct1]
  have c1: "\<exists>info tr'. Model_run ?t True ?g = (Inr (info, MODEL), tr') \<and>
      backend tr' = ''gloo'' \<and> member_info 5 [[0, 1], [2, 3], [4, 5], [6, 7]] info \<and>
      fallback_handle_ok tr' info \<and> cpu_group info = process_group info"
    using mp[OF spec[OF g1] conjI[OF example_resolves(2)[of 5] m1]] by simp
  have m2: "(5 :: int) \<in> set (concat [[0], [1], [2], [3], [4], [5], [6], [7]])" by simp
  note g2 = thg[THEN conjunct2, THEN conjunct2, THEN conjunct1]
  have c2: "\<exists>info tr'. Tensor_run ?t True ?g = (Inr (info, TENSOR), tr') \<and>
      backend tr' = ''gloo'' \<and> member_info 5 [[0], [1], [2], [3], [4], [5], [6], [7]] info \<and>
      fallback_handle_ok tr' info \<and> cpu_group info = process_group info"
    using mp[OF spec[OF g2] conjI[OF example_resolves(3)[of 5] m2]] by simp
  have m3: "(5 :: int) \<in> set (concat [[0, 1], [2, 3], [4, 5], [6, 7]])" by simp
  note g3 = thg[THEN conjunct2, THEN conjunct2, THEN conjunct2, THEN conjunct1]
  have c3: "\<exists>info tr'. Pipeline_run ?t True ?g = (Inr (info, PIPELINE), tr') \<and>
      backend tr' = ''gloo'' \<and> member_info 5 [[0, 1], [2, 3], [4, 5], [6, 7]] info \<and>
      fallback_handle_ok tr' info \<and> cpu_group info = process_group info"
    using mp[OF spec[OF g3] conjI[OF example_resolves(4)[of 5] m3]] by simp
  have m4: "(5 :: int) \<in> set (concat [[0, 2], [4, 6], [1, 3], [5, 7]])" by simp
  note g4 = thg[THEN conjunct2, THEN conjunct2, THEN conjunct2, THEN conjunct2, THEN conjunct1]
  have c4: "\<exists>info tr'. Zero1_run ?t True ?g = (Inr (info, ZERO1), tr') \<and>
      backend tr' = ''gloo'' \<and> member_info 5 [[0, 2], [4, 6], [1, 3], [5, 7]] info \<and>
      fallback_handle_ok tr' info \<and> cpu_group info = process_group info"
    using mp[OF spec[OF g4] conjI[OF example_resolves(5)[of 5] m4]] by simp
  have m5: "(5 :: int) \<in> set (concat [[0, 1, 2], [3, 4, 5], [6, 7]])" by simp
  note g5 = thg[THEN conjunct2, THEN conjunct2, THEN conjunct2, THEN conjunct2, THEN conjunct2, THEN conjunct1]
  have c5: "\<exists>info tr'. Nettest_run ?t True ?g = (Inr (info, NETTEST), tr') \<and>
      backend tr' = ''gloo'' \<and> member_info 5 [[0, 1, 2], [3, 4, 5], [6, 7]] info \<and>
      fallback_handle_ok tr' info \<and> cpu_group info = process_group info"
    using mp[OF spec[OF g5] conjI[OF example_resolves(6)[of 5] m5]] by simp
  have m6: "(5 :: int) \<in> set (concat [[0, 2, 4, 6], [1, 3, 5, 7]])" by simp
  note g6 = thg[THEN conjunct2, THEN conjunct2, THEN conjunct2, THEN conjunct2, THEN conjunct2, THEN conjunct2, THEN conjunct1]
  have c6: "\<exists>info tr'. Expert_run ?t True ?g = (Inr (info, EXPERT), tr') \<and>
      backend tr' = ''gloo'' \<and> member_info 5 [[0, 2, 4, 6], [1, 3, 5, 7]] info \<and>
      fallback_handle_ok tr' info \<and> cpu_group info = process_group info"
    using mp[OF spec[OF g6] conjI[OF example_resolves(7)[of 5] m6]] by simp
  note n7 = thn[THEN conjunct2, THEN conjunct2, THEN conjunct2, THEN conjunct2, THEN conjunct2, THEN conjunct2, THEN conjunct2]
  have c7: "\<exists>groups tr'. Expert_Data_run ?t True ?n = (Inr groups, tr') \<and>
      backend tr' = ''nccl'' \<and>
      map (\<lambda>e. (ranks_in_group (fst e), snd e)) groups
        = [(Some [1, 3, 5, 7], EXPERT), (Some [5], EXPERT_DATA)] \<and>
      (\<forall>e \<in> set groups.
         member_info 5 (if snd e = EXPERT then [[0, 2, 4, 6], [1, 3, 5, 7]]
                        else [[0], [2], [4], [6], [1], [3], [5], [7]]) (fst e) \<and>
         fallback_handle_ok tr' (fst e) \<and> cpu_group (fst e) \<noteq> process_group (fst e))"
    using mp[OF spec[OF spec[OF n7]] example_resolves(8)[of 5]] by simp
  have runn: "Data_run ?t True ?n
     = (Inr (\<lparr>local_rank = Some 2, group_world_size = Some 4, process_group = Some 2,
               cpu_group = Some 3, ranks_in_group = Some [1, 3, 5, 7]\<rparr>, DATA),
        \<lparr>backend = ''nccl'',
          created = [([0, 2, 4, 6], None), ([0, 2, 4, 6], Some ''gloo''),
                     ([1, 3, 5, 7], None), ([1, 3, 5, 7], Some ''gloo'')]\<rparr>)"
    by (simp add: Data_run_ok[OF example_resolves(1)] group_loop_def group_step_def
        create_groups_def new_group_def py_index_def no_group_def)
  have rung: "Data_run ?t True ?g
     = (Inr (\<lparr>local_rank = Some 2, group_world_size = Some 4, process_group = Some 1,
               cpu_group = Some 1, ranks_in_group = Some [1, 3, 5, 7]\<rparr>, DATA),
        \<lparr>backend = ''gloo'', created = [([0, 2, 4, 6], None), ([1, 3, 5, 7], None)]\<rparr>)"
    by (simp add: Data_run_ok[OF example_resolves(1)] group_loop_def group_step_def
        create_groups_def new_group_def py_index_def no_group_def)
  obtain i1 t1 where n1: "Data_run ?t True ?n = (Inr (i1, DATA), t1)" "fallback_handle_ok t1 i1"
    using mp[OF spec[OF thn[THEN conjunct1]] conjI[OF example_resolves(1)[of 5] m0]] by blast
  obtain i2 t2 where g1: "Data_run ?t True ?g = (Inr (i2, DATA), t2)" "fallback_handle_ok t2 i2"
    using mp[OF spec[OF thg[THEN conjunct1]] conjI[OF example_resolves(1)[of 5] m0]] by blast
  have okn: "fallback_handle_ok \<lparr>backend = ''nccl'',
          created = [([0, 2, 4, 6], None), ([0, 2, 4, 6], Some ''gloo''),
                     ([1, 3, 5, 7], None), ([1, 3, 5, 7], Some ''gloo'')]\<rparr>
     \<lparr>local_rank = Some 2, group_world_size = Some 4, process_group = Some 2,
               cpu_group = Some 3, ranks_in_group = Some [1, 3, 5, 7]\<rparr>"
    using n1 unfolding runn by simp
  have okg: "fallback_handle_ok \<lparr>backend = ''gloo'', created = [([0, 2, 4, 6], None), ([1, 3, 5, 7], None)]\<rparr>
     \<lparr>local_rank = Some 2, group_world_size = Some 4, process_group = Some 1,
               cpu_group = Some 1, ranks_in_group = Some [1, 3, 5, 7]\<rparr>"
    using g1 unfolding rung by simp
  show ?thesis
    by (intro conjI example_resolves m0 m1 m2 m3 m4 m5 m6 c0 c1 c2 c3 c4 c5 c6 c7
        runn rung okn okg)
qed

section \<open>Failing before any group is created\<close>

text \<open>
  The constructors call nothing of the transport, so an exception of a constructor leaves
  the transport as it was. For a topology with positive sizes that violates an assertion
  of the constructor of the Data, Model, Tensor, Pipeline or Zero1 initializer, the
  exception is an AssertionError (the ConfigurationError of the specification); so it is
  for the Expert initializer as long as expert_parallel_size is at most world_size.
\<close>

lemma assertion_error_before_groups:
  "positive_sizes t \<longrightarrow>
      (world_size t mod data_parallel_size t \<noteq> 0 \<longrightarrow>
         Data_run t u tr = (Inl AssertionError, tr)) \<and>
      (world_size t mod (tensor_parallel_size t * pipeline_parallel_size t) \<noteq> 0 \<longrightarrow>
         Model_run t u tr = (Inl AssertionError, tr)) \<and>
      (world_size t mod tensor_parallel_size t \<noteq> 0 \<longrightarrow>
         Tensor_run t u tr = (Inl AssertionError, tr)) \<and>
      (world_size t mod data_parallel_size t \<noteq> 0 \<or>
       (world_size t div data_parallel_size t) mod pipeline_parallel_size t \<noteq> 0 \<longrightarrow>
         Pipeline_run t u tr = (Inl AssertionError, tr)) \<and>
      (world_size t mod data_parallel_size t \<noteq> 0 \<or>
       world_size t mod zero1_parallel_size t \<noteq> 0 \<longrightarrow>
         Zero1_run t u tr = (Inl AssertionError, tr)) \<and>
      (expert_parallel_size t \<le> world_size t \<and>
       (world_size t mod (world_size t div expert_parallel_size t) \<noteq> 0 \<or>
        data_parallel_size t \<noteq> expert_parallel_size t) \<longrightarrow>
         Expert_run t u tr = (Inl AssertionError, tr))"
proof -
  have data: "Data_run t u tr = (Inl AssertionError, tr)"
    if "positive_sizes t" "world_size t mod data_parallel_size t \<noteq> 0"
    using that by (simp add: Data_run_def Initializer_Data_init_def positive_sizes_def)
  have model: "Model_run t u tr = (Inl AssertionError, tr)"
    if "positive_sizes t"
      "world_size t mod (tensor_parallel_size t * pipeline_parallel_size t) \<noteq> 0"
    using that by (simp add: Model_run_def Initializer_Model_init_def Let_def positive_sizes_def)
  have tensor: "Tensor_run t u tr = (Inl AssertionError, tr)"
    if "positive_sizes t" "world_size t mod tensor_parallel_size t \<noteq> 0"
    using that by (simp add: Tensor_run_def Initializer_Tensor_init_def positive_sizes_def)
  have pipeline: "Pipeline_run t u tr = (Inl AssertionError, tr)"
    if "positive_sizes t" "world_size t mod data_parallel_size t \<noteq> 0 \<or>
       (world_size t div data_parallel_size t) mod pipeline_parallel_size t \<noteq> 0"
    using that
    by (auto simp: Pipeline_run_def Initializer_Pipeline_init_def Let_def positive_sizes_def)
  have zero1: "Zero1_run t u tr = (Inl AssertionError, tr)"
    if "positive_sizes t" "world_size t mod data_parallel_size t \<noteq> 0 \<or>
       world_size t mod zero1_parallel_size t \<noteq> 0"
    using that by (auto simp: Zero1_run_def Initializer_Zero1_init_def positive_sizes_def)
  have expert: "Expert_run t u tr = (Inl AssertionError, tr)"
    if p: "positive_sizes t" and le: "expert_parallel_size t \<le> world_size t"
      and v: "world_size t mod (world_size t div expert_parallel_size t) \<noteq> 0 \<or>
        data_parallel_size t \<noteq> expert_parallel_size t"
  proof -
    have e: "0 < expert_parallel_size t" using p by (simp add: positive_sizes_def)
    then have "0 < world_size t div expert_parallel_size t"
      using le by (simp add: pos_imp_zdiv_pos_iff)
    then show ?thesis
      using e v by (auto simp: Expert_run_def Initializer_Expert_init_def Let_def)
  qed
  show ?thesis
    using data model tensor pipeline zero1 expert by blast
qed

text \<open>
  C3. A violated precondition of an axis is to raise a ConfigurationError before any
  group is created. The Expert initializer does not raise it for expert_parallel_size
  above world_size: then world_size // expert_parallel_size is 0, the first assertion computes
  world_size % 0, and the error is a ZeroDivisionError, whether or not data_parallel_size
  equals expert_parallel_size. At world_size = 4, data_parallel_size = 2 and
  expert_parallel_size = 8 the equality the constructor demands is violated, the sizes are
  positive, and the run ends with ZeroDivisionError; the transport is unchanged.
\<close>

theorem expert_zero_division:
  "positive_sizes \<lparr>rank = 0, world_size = 4, data_parallel_size = 2, pipeline_parallel_size = 1,
       tensor_parallel_size = 1, zero1_parallel_size = 1, nettest_parallel_size = 4,
       expert_parallel_size = 8\<rparr> \<and>
   (2 :: int) \<noteq> 8 \<and>
   Expert_run \<lparr>rank = 0, world_size = 4, data_parallel_size = 2, pipeline_parallel_size = 1,
       tensor_parallel_size = 1, zero1_parallel_size = 1, nettest_parallel_size = 4,
       expert_parallel_size = 8\<rparr> False \<lparr>backend = ''nccl'', created = []\<rparr>
     = (Inl ZeroDivisionError, \<lparr>backend = ''nccl'', created = []\<rparr>) \<and>
   ZeroDivisionError \<noteq> AssertionError \<and>
   create_calls \<lparr>backend = ''nccl'', created = []\<rparr>
     (snd (Expert_run \<lparr>rank = 0, world_size = 4, data_parallel_size = 2,
        pipeline_parallel_size = 1, tensor_parallel_size = 1, zero1_parallel_size = 1,
        nettest_parallel_size = 4, expert_parallel_size = 8\<rparr> False
        \<lparr>backend = ''nccl'', created = []\<rparr>)) = 0"
  by (simp add: positive_sizes_def Expert_run_def Initializer_Expert_init_def create_calls_def)

end
